theory Spec2Isabelle
  imports Complex_Main "HOL-Library.Word"
begin

section \<open>Host values crossing the scripting boundary\<close>

text \<open>
  The engine of \<^verbatim>\<open>LuaEngine.cpp\<close> drives one Lua interpreter per map. This theory embeds
  the functions of \<^verbatim>\<open>LuaEngine.cpp\<close> and \<^verbatim>\<open>LuaEngine.h\<close> over an explicit
  interpreter state: the Lua stack is a list (index 1 is its first element, the top its
  last), the fields of \<^verbatim>\<open>class Eluna\<close> are fields of a record, a Lua error raised by
  \<^verbatim>\<open>luaL_error\<close> or \<^verbatim>\<open>luaL_argerror\<close> is a result of its own, and a failed
  \<^verbatim>\<open>ASSERT\<close> or an undefined conversion is a fault.
\<close>

type_synonym uint8 = "8 word"
type_synonym uint16 = "16 word"
type_synonym uint32 = "32 word"
type_synonym uint64 = "64 word"

text \<open>
  A \<^verbatim>\<open>lua_Number\<close> is a C double. Only its order and its class matter to the code
  below, so a double is a real number, an infinity or a NaN; every comparison with a
  NaN is false, as in IEEE 754.
\<close>

datatype double = Finite real | PosInf | NegInf | NaN

fun double_less :: "double \<Rightarrow> double \<Rightarrow> bool" where
  "double_less NaN _ = False"
| "double_less _ NaN = False"
| "double_less (Finite a) (Finite b) = (a < b)"
| "double_less (Finite a) PosInf = True"
| "double_less (Finite a) NegInf = False"
| "double_less PosInf _ = False"
| "double_less NegInf (Finite b) = True"
| "double_less NegInf PosInf = True"
| "double_less NegInf NegInf = False"

definition double_greater :: "double \<Rightarrow> double \<Rightarrow> bool" where
  "double_greater a b = double_less b a"

definition double_of_int :: "int \<Rightarrow> double" where
  "double_of_int i = Finite (of_int i)"

text \<open>The type tags of the host's objects (\<^verbatim>\<open>Object::GetTypeId\<close>).\<close>

datatype TypeID =
    TYPEID_OBJECT | TYPEID_ITEM | TYPEID_CONTAINER | TYPEID_UNIT | TYPEID_PLAYER
  | TYPEID_GAMEOBJECT | TYPEID_DYNAMICOBJECT | TYPEID_CORPSE

record HostObject =
  GetTypeId :: TypeID
  address :: nat

text \<open>
  An \<^verbatim>\<open>ElunaObject\<close> is the full userdata that wraps a host object: the name of the
  wrapper type it was pushed as, the object, and the call stack id it was stamped with.
\<close>

record ElunaObject =
  GetTypeName :: string
  GetObj :: HostObject
  stamp :: uint64

text \<open>The registration types of \<^verbatim>\<open>Hooks::RegisterTypes\<close>; \<open>REGTYPE_OTHER\<close> stands
  for every integer that is none of the enumerators \<^verbatim>\<open>Eluna::Register\<close> switches on.\<close>

datatype RegisterTypes =
    REGTYPE_SERVER | REGTYPE_PLAYER | REGTYPE_GUILD | REGTYPE_GROUP | REGTYPE_VEHICLE
  | REGTYPE_BG | REGTYPE_PACKET | REGTYPE_CREATURE | REGTYPE_CREATURE_UNIQUE
  | REGTYPE_CREATURE_GOSSIP | REGTYPE_GAMEOBJECT | REGTYPE_GAMEOBJECT_GOSSIP
  | REGTYPE_SPELL | REGTYPE_ITEM | REGTYPE_ITEM_GOSSIP | REGTYPE_PLAYER_GOSSIP
  | REGTYPE_MAP | REGTYPE_INSTANCE | REGTYPE_OTHER nat

text \<open>
  Functions on the Lua side: a function of the scripts or of Lua's libraries (known by an
  identity only), the message handler \<^verbatim>\<open>Eluna::StackTrace\<close>, and the closure
  \<^verbatim>\<open>cancelBinding\<close> with its two upvalues (the binding id and the store).
\<close>

datatype lua_function =
    LuaFunction nat
  | StackTrace_cfunction
  | cancelBinding_closure uint64 RegisterTypes

datatype lua_value =
    LNil
  | LBoolean bool
  | LNumber double
  | LString string
  | LTable nat
  | LFunction lua_function
  | LLightUserdata nat
  | LUserdata ElunaObject

section \<open>The state of one \<^verbatim>\<open>Eluna\<close> instance\<close>

text \<open>
  The registry's reference system of \<^verbatim>\<open>lauxlib\<close>: \<^verbatim>\<open>luaL_ref\<close> takes the head of
  the free list when there is one and the next fresh integer otherwise;
  \<^verbatim>\<open>luaL_unref\<close> clears the slot and puts the reference at the head of the free list.
\<close>

record lua_registry =
  slots :: "int \<rightharpoonup> lua_value"
  freelist :: "int list"
  objlen :: int

text \<open>
  Modelled from the spec: \<^verbatim>\<open>BindingMap\<close> (\<^verbatim>\<open>BindingMap.h\<close> is not among the
  sources). Section 3 and 4.2 of the specification: a key is an event id, an event id
  with a template entry, or an event id with an object identity and an instance id; a
  store maps a key to the ordered list of its registrations; a registration holds the
  callable's reference, the remaining invocation count and a binding id from a counter
  that only grows.
\<close>

datatype event_key =
    EventKey uint32
  | EntryKey uint32 uint32
  | UniqueObjectKey uint32 uint64 uint32

record Binding =
  functionReference :: int
  remainingShots :: uint32
  bindingId :: uint64

record BindingMap =
  maxBindingID :: uint64
  bindings :: "event_key \<Rightarrow> Binding list"

text \<open>A map of the host, as far as the engine reads it.\<close>

record Map =
  Instanceable :: bool
  GetId :: uint32
  GetInstanceId :: uint32

text \<open>
  The fields of \<^verbatim>\<open>class Eluna\<close> and the parts of the interpreter the engine touches.
  \<open>boundMap\<close> is the map the state is bound to, a null pointer for the world state.
  \<open>error_log\<close> is what \<^verbatim>\<open>ELUNA_LOG_ERROR\<close> has written, oldest first; an entry
  \<open>None\<close> is a null pointer handed to the \<^verbatim>\<open>%s\<close> of the log. \<open>global_debug\<close>
  is \<open>None\<close> when the global \<^verbatim>\<open>debug\<close> is not a table, and otherwise the value of
  its field \<^verbatim>\<open>traceback\<close>. \<open>gc_collections\<close> counts the full collections forced
  with \<^verbatim>\<open>lua_gc\<close>.
\<close>

record eluna =
  boundMap :: "Map option"
  stack :: "lua_value list"
  event_level :: uint32
  callstackid :: uint64
  push_counter :: uint8
  error_log :: "string option list"
  registry :: lua_registry
  instanceDataRefs :: "uint32 \<rightharpoonup> int"
  continentDataRefs :: "uint32 \<rightharpoonup> int"
  bindingMaps :: "RegisterTypes \<rightharpoonup> BindingMap"
  global_debug :: "lua_value option"
  global_require :: lua_value
  gc_collections :: nat

datatype fault = AssertFailed | NullDereference | UndefinedConversion | InvalidIndex

text \<open>
  The result of a function that reads arguments: a value, the argument error of
  \<^verbatim>\<open>luaL_argerror\<close> (the argument's index and the message), or a fault.
\<close>

datatype 'a lua_result = Value 'a | ArgError int string | Faulty fault

subsection \<open>The stack\<close>

definition lua_gettop :: "eluna \<Rightarrow> int" where
  "lua_gettop s = int (length (stack s))"

text \<open>
  The value at an index: a positive index counts from the bottom, a negative one from
  the top; \<open>None\<close> is \<^verbatim>\<open>LUA_TNONE\<close>, an index with no value.
\<close>

definition index2value :: "eluna \<Rightarrow> int \<Rightarrow> lua_value option" where
  "index2value s idx =
     (if 0 < idx \<and> idx \<le> lua_gettop s then Some (stack s ! nat (idx - 1))
      else if idx < 0 \<and> - idx \<le> lua_gettop s then Some (stack s ! nat (lua_gettop s + idx))
      else None)"

definition lua_isnoneornil :: "eluna \<Rightarrow> int \<Rightarrow> bool" where
  "lua_isnoneornil s idx = (case index2value s idx of None \<Rightarrow> True | Some v \<Rightarrow> v = LNil)"

definition lua_isfunction :: "eluna \<Rightarrow> int \<Rightarrow> bool" where
  "lua_isfunction s idx = (case index2value s idx of Some (LFunction f) \<Rightarrow> True | _ \<Rightarrow> False)"

definition lua_istable :: "eluna \<Rightarrow> int \<Rightarrow> bool" where
  "lua_istable s idx = (case index2value s idx of Some (LTable t) \<Rightarrow> True | _ \<Rightarrow> False)"

definition lua_islightuserdata :: "eluna \<Rightarrow> int \<Rightarrow> bool" where
  "lua_islightuserdata s idx =
     (case index2value s idx of Some (LLightUserdata p) \<Rightarrow> True | _ \<Rightarrow> False)"

text \<open>\<^verbatim>\<open>luaL_typename\<close>: the name of the Lua type of the value at an index.\<close>

definition luaL_typename :: "eluna \<Rightarrow> int \<Rightarrow> string" where
  "luaL_typename s idx =
     (case index2value s idx of
        None \<Rightarrow> ''no value''
      | Some LNil \<Rightarrow> ''nil''
      | Some (LBoolean b) \<Rightarrow> ''boolean''
      | Some (LNumber d) \<Rightarrow> ''number''
      | Some (LString str) \<Rightarrow> ''string''
      | Some (LTable t) \<Rightarrow> ''table''
      | Some (LFunction f) \<Rightarrow> ''function''
      | Some (LLightUserdata p) \<Rightarrow> ''userdata''
      | Some (LUserdata u) \<Rightarrow> ''userdata'')"

definition lua_push :: "lua_value \<Rightarrow> eluna \<Rightarrow> eluna" where
  "lua_push v s = s\<lparr>stack := stack s @ [v]\<rparr>"

definition lua_pop :: "int \<Rightarrow> eluna \<Rightarrow> eluna" where
  "lua_pop n s = s\<lparr>stack := take (length (stack s) - nat n) (stack s)\<rparr>"

section \<open>Checking numeric arguments\<close>

text \<open>
  \<^verbatim>\<open>luaL_checknumber\<close>: a number, or a string that Lua converts to a number
  (\<open>cvt\<close> is Lua's conversion of strings, \<^verbatim>\<open>lua_tonumber\<close> on a string); every other
  value raises the type error of \<^verbatim>\<open>luaL_typerror\<close>.
\<close>

definition luaL_checknumber :: "(string \<Rightarrow> double option) \<Rightarrow> eluna \<Rightarrow> int \<Rightarrow> double lua_result" where
  "luaL_checknumber cvt s narg =
     (case index2value s narg of
        Some (LNumber d) \<Rightarrow> Value d
      | Some (LString str) \<Rightarrow>
          (case cvt str of
             Some d \<Rightarrow> Value d
           | None \<Rightarrow> ArgError narg (''number expected, got '' @ luaL_typename s narg))
      | _ \<Rightarrow> ArgError narg (''number expected, got '' @ luaL_typename s narg))"

text \<open>The decimal digits that \<^verbatim>\<open>%u\<close> and \<^verbatim>\<open>%i\<close> print.\<close>

definition digit_char :: "nat \<Rightarrow> char" where
  "digit_char d = ''0123456789'' ! d"

function show_nat :: "nat \<Rightarrow> string" where
  "show_nat n = (if n < 10 then [digit_char n] else show_nat (n div 10) @ [digit_char (n mod 10)])"
  by pat_completeness auto
termination
  by (relation "measure (\<lambda>n. n)") auto

declare show_nat.simps [simp del]

definition show_int :: "int \<Rightarrow> string" where
  "show_int i = (if i < 0 then CHR ''-'' # show_nat (nat (- i)) else show_nat (nat i))"

text \<open>
  \<^verbatim>\<open>static_cast<int>\<close> and \<^verbatim>\<open>static_cast<unsigned int>\<close> of a double: the value
  truncated towards zero when the target type (of 32 bits) can hold it, and undefined
  otherwise; of an infinity or a NaN it is undefined.
\<close>

definition truncate_real :: "real \<Rightarrow> int" where
  "truncate_real r = (if 0 \<le> r then \<lfloor>r\<rfloor> else \<lceil>r\<rceil>)"

definition static_cast_int :: "double \<Rightarrow> int lua_result" where
  "static_cast_int d =
     (case d of
        Finite r \<Rightarrow>
          (if - (2 ^ 31) \<le> truncate_real r \<and> truncate_real r \<le> 2 ^ 31 - 1 then Value (truncate_real r)
           else Faulty UndefinedConversion)
      | _ \<Rightarrow> Faulty UndefinedConversion)"

definition static_cast_unsigned :: "double \<Rightarrow> int lua_result" where
  "static_cast_unsigned d =
     (case d of
        Finite r \<Rightarrow>
          (if 0 \<le> truncate_real r \<and> truncate_real r \<le> 2 ^ 32 - 1 then Value (truncate_real r)
           else Faulty UndefinedConversion)
      | _ \<Rightarrow> Faulty UndefinedConversion)"

definition CheckIntegerRange ::
  "(string \<Rightarrow> double option) \<Rightarrow> eluna \<Rightarrow> int \<Rightarrow> int \<Rightarrow> int \<Rightarrow> int lua_result" where
  "CheckIntegerRange cvt s narg minv maxv =
     (case luaL_checknumber cvt s narg of
        Value v \<Rightarrow>
          (if double_greater v (double_of_int maxv)
           then ArgError narg (''value must be less than or equal to '' @ show_int maxv)
           else if double_less v (double_of_int minv)
           then ArgError narg (''value must be greater than or equal to '' @ show_int minv)
           else static_cast_int v)
      | ArgError n m \<Rightarrow> ArgError n m
      | Faulty f \<Rightarrow> Faulty f)"

definition CheckUnsignedRange ::
  "(string \<Rightarrow> double option) \<Rightarrow> eluna \<Rightarrow> int \<Rightarrow> int \<Rightarrow> int lua_result" where
  "CheckUnsignedRange cvt s narg maxv =
     (case luaL_checknumber cvt s narg of
        Value v \<Rightarrow>
          (if double_less v (double_of_int 0)
           then ArgError narg ''value must be greater than or equal to 0''
           else if double_greater v (double_of_int maxv)
           then ArgError narg (''value must be less than or equal to '' @ show_nat (nat maxv))
           else static_cast_unsigned v)
      | ArgError n m \<Rightarrow> ArgError n m
      | Faulty f \<Rightarrow> Faulty f)"

text \<open>
  The integer specialisations of \<^verbatim>\<open>CHECKVAL<T>(narg)\<close>. The \<^verbatim>\<open>int\<close> that the range
  check returns is converted to the target type; a word holds the result, read with
  \<open>sint\<close> for a signed target and with \<open>uint\<close> for an unsigned one.
\<close>

definition CHECKVAL_signed_char :: "(string \<Rightarrow> double option) \<Rightarrow> eluna \<Rightarrow> int \<Rightarrow> uint8 lua_result" where
  "CHECKVAL_signed_char cvt s narg = map_lua_result word_of_int (CheckIntegerRange cvt s narg (- 128) 127)"

definition CHECKVAL_unsigned_char :: "(string \<Rightarrow> double option) \<Rightarrow> eluna \<Rightarrow> int \<Rightarrow> uint8 lua_result" where
  "CHECKVAL_unsigned_char cvt s narg = map_lua_result word_of_int (CheckUnsignedRange cvt s narg 255)"

definition CHECKVAL_short :: "(string \<Rightarrow> double option) \<Rightarrow> eluna \<Rightarrow> int \<Rightarrow> uint16 lua_result" where
  "CHECKVAL_short cvt s narg = map_lua_result word_of_int (CheckIntegerRange cvt s narg (- 32768) 32767)"

definition CHECKVAL_unsigned_short :: "(string \<Rightarrow> double option) \<Rightarrow> eluna \<Rightarrow> int \<Rightarrow> uint16 lua_result" where
  "CHECKVAL_unsigned_short cvt s narg = map_lua_result word_of_int (CheckUnsignedRange cvt s narg 65535)"

definition CHECKVAL_int :: "(string \<Rightarrow> double option) \<Rightarrow> eluna \<Rightarrow> int \<Rightarrow> uint32 lua_result" where
  "CHECKVAL_int cvt s narg =
     map_lua_result word_of_int (CheckIntegerRange cvt s narg (- 2147483648) 2147483647)"

definition CHECKVAL_unsigned_int :: "(string \<Rightarrow> double option) \<Rightarrow> eluna \<Rightarrow> int \<Rightarrow> uint32 lua_result" where
  "CHECKVAL_unsigned_int cvt s narg = map_lua_result word_of_int (CheckUnsignedRange cvt s narg 4294967295)"

text \<open>
  \<^verbatim>\<open>CHECKVAL<T>(narg, def)\<close> of \<^verbatim>\<open>LuaEngine.h\<close>, for any target type: \<open>check\<close> is
  the one-argument \<^verbatim>\<open>CHECKVAL<T>\<close> it falls back on.
\<close>

definition CHECKVAL_default :: "(eluna \<Rightarrow> int \<Rightarrow> 'a lua_result) \<Rightarrow> eluna \<Rightarrow> int \<Rightarrow> 'a \<Rightarrow> 'a lua_result" where
  "CHECKVAL_default check s narg def = (if lua_isnoneornil s narg then Value def else check s narg)"

text \<open>
  A freshly opened state, as the constructor of \<^verbatim>\<open>Eluna\<close> leaves its counters: no
  nested event, no pushed argument, call stack id 2 and an empty stack. The functions
  of Lua's libraries are \<open>LuaFunction 0\<close> (\<^verbatim>\<open>debug.traceback\<close>) and
  \<open>LuaFunction 1\<close> (\<^verbatim>\<open>require\<close>).
\<close>

definition fresh_registry :: lua_registry where
  "fresh_registry = \<lparr>slots = Map.empty, freelist = [], objlen = 0\<rparr>"

definition fresh_eluna :: eluna where
  "fresh_eluna =
     \<lparr>boundMap = None, stack = [], event_level = 0, callstackid = 2, push_counter = 0, error_log = [],
      registry = fresh_registry, instanceDataRefs = Map.empty, continentDataRefs = Map.empty,
      bindingMaps = Map.empty, global_debug = Some (LFunction (LuaFunction 0)),
      global_require = LFunction (LuaFunction 1), gc_collections = 0\<rparr>"

section \<open>Instance data\<close>

subsection \<open>References into the registry\<close>

text \<open>
  \<^verbatim>\<open>luaL_ref(L, LUA_REGISTRYINDEX)\<close> pops the value on top of the stack and returns a
  reference to it (\<^verbatim>\<open>LUA_REFNIL\<close>, which is -1, for nil). \<^verbatim>\<open>luaL_unref\<close> ignores
  a negative reference; reference 0 is the slot of the free list's head itself.
\<close>

definition luaL_ref :: "eluna \<Rightarrow> int \<times> eluna" where
  "luaL_ref s =
     (case index2value s (- 1) of
        None \<Rightarrow> (- 1, s)
      | Some v \<Rightarrow>
          (if v = LNil then (- 1, lua_pop 1 s)
           else
             (case freelist (registry s) of
                f # fs \<Rightarrow>
                  (f, (lua_pop 1 s)\<lparr>registry := (registry s)\<lparr>slots := (slots (registry s))(f \<mapsto> v),
                                                               freelist := fs\<rparr>\<rparr>)
              | [] \<Rightarrow>
                  (objlen (registry s) + 1,
                   (lua_pop 1 s)\<lparr>registry := (registry s)
                      \<lparr>slots := (slots (registry s))(objlen (registry s) + 1 \<mapsto> v),
                       objlen := objlen (registry s) + 1\<rparr>\<rparr>))))"

definition unref :: "int \<Rightarrow> lua_registry \<Rightarrow> lua_registry" where
  "unref ref r =
     (if 0 < ref then r\<lparr>slots := (slots r)(ref := None), freelist := ref # freelist r\<rparr>
      else if ref = 0 then r\<lparr>freelist := []\<rparr>
      else r)"

definition luaL_unref :: "int \<Rightarrow> eluna \<Rightarrow> eluna" where
  "luaL_unref ref s = s\<lparr>registry := unref ref (registry s)\<rparr>"

text \<open>
  The references the registry has handed out and not taken back are the domain of
  \<open>slots\<close>. In a well-formed registry they are positive and at most \<open>objlen\<close>, and
  the free list holds each released reference once.
\<close>

definition registry_wf :: "lua_registry \<Rightarrow> bool" where
  "registry_wf r \<longleftrightarrow>
     0 \<le> objlen r
     \<and> distinct (freelist r)
     \<and> (\<forall>f \<in> set (freelist r). 0 < f \<and> f \<le> objlen r \<and> slots r f = None)
     \<and> (\<forall>k. slots r k \<noteq> None \<longrightarrow> 0 < k \<and> k \<le> objlen r)"

subsection \<open>The stores of instance data\<close>

definition HasInstanceData :: "Map \<Rightarrow> eluna \<Rightarrow> bool" where
  "HasInstanceData m s =
     (if \<not> Instanceable m then continentDataRefs s (GetId m) \<noteq> None
      else instanceDataRefs s (GetInstanceId m) \<noteq> None)"

definition CreateInstanceData :: "Map \<Rightarrow> eluna \<Rightarrow> fault + eluna" where
  "CreateInstanceData m s =
     (if \<not> lua_istable s (- 1) then Inl AssertFailed
      else
        (case luaL_ref s of
           (ref, s1) \<Rightarrow>
             (if \<not> Instanceable m then
                (let mapId = GetId m;
                     s2 = (case continentDataRefs s1 mapId of
                             Some mapRef \<Rightarrow> luaL_unref mapRef s1
                           | None \<Rightarrow> s1)
                 in Inr (s2\<lparr>continentDataRefs := (continentDataRefs s2)(mapId \<mapsto> ref)\<rparr>))
              else
                (let instanceId = GetInstanceId m;
                     s2 = (case instanceDataRefs s1 instanceId of
                             Some instRef \<Rightarrow> luaL_unref instRef s1
                           | None \<Rightarrow> s1)
                 in Inr (s2\<lparr>instanceDataRefs := (instanceDataRefs s2)(instanceId \<mapsto> ref)\<rparr>)))))"


definition Insert :: "BindingMap \<Rightarrow> event_key \<Rightarrow> int \<Rightarrow> uint32 \<Rightarrow> uint64 \<times> BindingMap" where
  "Insert bm key ref shots =
     (let bid = maxBindingID bm + 1
      in (bid, bm\<lparr>maxBindingID := bid,
                  bindings := (bindings bm)(key := bindings bm key @
                    [\<lparr>functionReference = ref, remainingShots = shots, bindingId = bid\<rparr>])\<rparr>))"


text \<open>
  The constants of \<^verbatim>\<open>Hooks.h\<close> that the engine compares event ids with; the header is
  not among the sources, so they are parameters.
\<close>

record Hooks =
  SERVER_EVENT_COUNT :: nat
  PLAYER_EVENT_COUNT :: nat
  GUILD_EVENT_COUNT :: nat
  GROUP_EVENT_COUNT :: nat
  VEHICLE_EVENT_COUNT :: nat
  BG_EVENT_COUNT :: nat
  PACKET_EVENT_COUNT :: nat
  CREATURE_EVENT_COUNT :: nat
  GOSSIP_EVENT_COUNT :: nat
  GAMEOBJECT_EVENT_COUNT :: nat
  SPELL_EVENT_COUNT :: nat
  ITEM_EVENT_COUNT :: nat
  INSTANCE_EVENT_COUNT :: nat







subsection \<open>The binding stores of the engine\<close>

text \<open>
  \<^verbatim>\<open>CreateBinding<T>(type)\<close> puts a new, empty store under the registration type;
  \<^verbatim>\<open>DestroyBindStores\<close> resets every store to a null pointer;
  \<^verbatim>\<open>CreateBindStores\<close> destroys the stores and creates the eighteen of the engine.
\<close>

definition new_BindingMap :: BindingMap where
  "new_BindingMap = \<lparr>maxBindingID = 0, bindings = (\<lambda>key. [])\<rparr>"

definition CreateBinding :: "RegisterTypes \<Rightarrow> eluna \<Rightarrow> eluna" where
  "CreateBinding regtype s = s\<lparr>bindingMaps := (bindingMaps s)(regtype \<mapsto> new_BindingMap)\<rparr>"

definition DestroyBindStores :: "eluna \<Rightarrow> eluna" where
  "DestroyBindStores s = s\<lparr>bindingMaps := Map.empty\<rparr>"

definition CreateBindStores :: "eluna \<Rightarrow> eluna" where
  "CreateBindStores s =
     fold CreateBinding
       [REGTYPE_SERVER, REGTYPE_PLAYER, REGTYPE_GUILD, REGTYPE_GROUP, REGTYPE_VEHICLE, REGTYPE_BG,
        REGTYPE_PACKET, REGTYPE_CREATURE, REGTYPE_CREATURE_GOSSIP, REGTYPE_GAMEOBJECT,
        REGTYPE_GAMEOBJECT_GOSSIP, REGTYPE_SPELL, REGTYPE_ITEM, REGTYPE_ITEM_GOSSIP,
        REGTYPE_PLAYER_GOSSIP, REGTYPE_MAP, REGTYPE_INSTANCE, REGTYPE_CREATURE_UNIQUE]
       (DestroyBindStores s)"

text \<open>A choice of the constants of \<^verbatim>\<open>Hooks.h\<close>, for evaluating the engine on examples.\<close>

definition example_Hooks :: Hooks where
  "example_Hooks =
     \<lparr>SERVER_EVENT_COUNT = 45, PLAYER_EVENT_COUNT = 60, GUILD_EVENT_COUNT = 12,
      GROUP_EVENT_COUNT = 9, VEHICLE_EVENT_COUNT = 6, BG_EVENT_COUNT = 5,
      PACKET_EVENT_COUNT = 8, CREATURE_EVENT_COUNT = 38, GOSSIP_EVENT_COUNT = 3,
      GAMEOBJECT_EVENT_COUNT = 15, SPELL_EVENT_COUNT = 2, ITEM_EVENT_COUNT = 9,
      INSTANCE_EVENT_COUNT = 8\<rparr>"


subsection \<open>What the claims about the instance data speak of\<close>

text \<open>The reference stored for a map: under its map id when the map is not
  instanceable, under its instance id when it is.\<close>

definition data_ref :: "Map \<Rightarrow> eluna \<Rightarrow> int option" where
  "data_ref m s =
     (if Instanceable m then instanceDataRefs s (GetInstanceId m) else continentDataRefs s (GetId m))"

definition same_data_id :: "Map \<Rightarrow> Map \<Rightarrow> bool" where
  "same_data_id m m' \<longleftrightarrow>
     Instanceable m = Instanceable m'
     \<and> (if Instanceable m then GetInstanceId m = GetInstanceId m' else GetId m = GetId m')"

text \<open>
  The invariant of the two stores: the registry is well formed, every stored reference
  is one the registry has handed out and not taken back, and no reference is stored for
  two ids.
\<close>

definition instance_data_ok :: "eluna \<Rightarrow> bool" where
  "instance_data_ok s \<longleftrightarrow>
     registry_wf (registry s)
     \<and> (\<forall>m r. data_ref m s = Some r \<longrightarrow> slots (registry s) r \<noteq> None)
     \<and> (\<forall>m m' r. data_ref m s = Some r \<and> data_ref m' s = Some r \<longrightarrow> same_data_id m m')"


text \<open>
  \<^verbatim>\<open>Eluna::CreateInstanceData\<close> in one equation: the table on top of the stack gets
  a new reference, the reference stored before for the map's id is released, and the new
  one is stored in its place.
\<close>

definition store_data_ref :: "Map \<Rightarrow> int \<Rightarrow> eluna \<Rightarrow> eluna" where
  "store_data_ref m ref s =
     (if Instanceable m then s\<lparr>instanceDataRefs := (instanceDataRefs s)(GetInstanceId m \<mapsto> ref)\<rparr>
      else s\<lparr>continentDataRefs := (continentDataRefs s)(GetId m \<mapsto> ref)\<rparr>)"



section \<open>Pushing host objects\<close>

text \<open>
  Modelled from the spec: \<^verbatim>\<open>ElunaTemplate<T>::Push\<close> (\<^verbatim>\<open>ElunaTemplate.h\<close> is not
  among the sources). Section 4.3: an absent or null reference pushes the scripts'
  "nothing" value; section 3 and 4.4: a handle wraps the host object with a type tag and
  is stamped with the epoch active at its creation. \<open>tname\<close> is the name of the wrapper
  type \<open>T\<close>; a pointer is an object or null (\<open>None\<close>).
\<close>

definition ElunaTemplate_Push :: "string \<Rightarrow> HostObject option \<Rightarrow> eluna \<Rightarrow> eluna" where
  "ElunaTemplate_Push tname ptr s =
     (case ptr of
        None \<Rightarrow> lua_push LNil s
      | Some obj \<Rightarrow>
          lua_push (LUserdata \<lparr>GetTypeName = tname, GetObj = obj, stamp = callstackid s\<rparr>) s)"

text \<open>
  The downcasts of the host (\<^verbatim>\<open>Object::ToCreature\<close> and its siblings): the object
  itself when its type tag is the one of the target class, null otherwise.
\<close>

definition ToCreature :: "HostObject \<Rightarrow> HostObject option" where
  "ToCreature obj = (if GetTypeId obj = TYPEID_UNIT then Some obj else None)"

definition ToPlayer :: "HostObject \<Rightarrow> HostObject option" where
  "ToPlayer obj = (if GetTypeId obj = TYPEID_PLAYER then Some obj else None)"

definition ToGameObject :: "HostObject \<Rightarrow> HostObject option" where
  "ToGameObject obj = (if GetTypeId obj = TYPEID_GAMEOBJECT then Some obj else None)"

definition ToCorpse :: "HostObject \<Rightarrow> HostObject option" where
  "ToCorpse obj = (if GetTypeId obj = TYPEID_CORPSE then Some obj else None)"

text \<open>
  The overloads of \<^verbatim>\<open>Eluna::Push\<close> for object pointers. \<open>Push_nil\<close> is
  \<^verbatim>\<open>Push()\<close>; \<open>Push_T\<close> is the template \<^verbatim>\<open>Push<T>(T const*)\<close> of
  \<^verbatim>\<open>LuaEngine.h\<close>, which the overloads reach for \<^verbatim>\<open>Creature\<close>, \<^verbatim>\<open>Player\<close>,
  \<^verbatim>\<open>GameObject\<close> and \<^verbatim>\<open>Corpse\<close> pointers.
\<close>

definition Push_nil :: "eluna \<Rightarrow> eluna" where
  "Push_nil s = lua_push LNil s"

definition Push_T :: "string \<Rightarrow> HostObject option \<Rightarrow> eluna \<Rightarrow> eluna" where
  "Push_T tname ptr s = ElunaTemplate_Push tname ptr s"

definition Push_Pet :: "HostObject option \<Rightarrow> eluna \<Rightarrow> eluna" where
  "Push_Pet pet s = Push_T ''Creature'' pet s"

definition Push_TempSummon :: "HostObject option \<Rightarrow> eluna \<Rightarrow> eluna" where
  "Push_TempSummon summon s = Push_T ''Creature'' summon s"

definition Push_Unit :: "HostObject option \<Rightarrow> eluna \<Rightarrow> eluna" where
  "Push_Unit unit s =
     (case unit of
        None \<Rightarrow> Push_nil s
      | Some u \<Rightarrow>
          (case GetTypeId u of
             TYPEID_UNIT \<Rightarrow> Push_T ''Creature'' (ToCreature u) s
           | TYPEID_PLAYER \<Rightarrow> Push_T ''Player'' (ToPlayer u) s
           | _ \<Rightarrow> ElunaTemplate_Push ''Unit'' unit s))"

definition Push_WorldObject :: "HostObject option \<Rightarrow> eluna \<Rightarrow> eluna" where
  "Push_WorldObject obj s =
     (case obj of
        None \<Rightarrow> Push_nil s
      | Some ob \<Rightarrow>
          (case GetTypeId ob of
             TYPEID_UNIT \<Rightarrow> Push_T ''Creature'' (ToCreature ob) s
           | TYPEID_PLAYER \<Rightarrow> Push_T ''Player'' (ToPlayer ob) s
           | TYPEID_GAMEOBJECT \<Rightarrow> Push_T ''GameObject'' (ToGameObject ob) s
           | TYPEID_CORPSE \<Rightarrow> Push_T ''Corpse'' (ToCorpse ob) s
           | _ \<Rightarrow> ElunaTemplate_Push ''WorldObject'' obj s))"

definition Push_Object :: "HostObject option \<Rightarrow> eluna \<Rightarrow> eluna" where
  "Push_Object obj s =
     (case obj of
        None \<Rightarrow> Push_nil s
      | Some ob \<Rightarrow>
          (case GetTypeId ob of
             TYPEID_UNIT \<Rightarrow> Push_T ''Creature'' (ToCreature ob) s
           | TYPEID_PLAYER \<Rightarrow> Push_T ''Player'' (ToPlayer ob) s
           | TYPEID_GAMEOBJECT \<Rightarrow> Push_T ''GameObject'' (ToGameObject ob) s
           | TYPEID_CORPSE \<Rightarrow> Push_T ''Corpse'' (ToCorpse ob) s
           | _ \<Rightarrow> ElunaTemplate_Push ''Object'' obj s))"

text \<open>The wrapper an object is pushed as: the userdata of a wrapper type, stamped now.\<close>

definition wrapper :: "string \<Rightarrow> HostObject \<Rightarrow> eluna \<Rightarrow> lua_value" where
  "wrapper tname obj s = LUserdata \<lparr>GetTypeName = tname, GetObj = obj, stamp = callstackid s\<rparr>"

section \<open>Checking object arguments\<close>

text \<open>\<^verbatim>\<open>lua_touserdata\<close>, then the cast to \<^verbatim>\<open>ElunaObject*\<close>: the block of a full
  userdata, null for a value that is no userdata. (A light userdata never reaches the
  cast in \<^verbatim>\<open>CHECKTYPE\<close>.)\<close>

definition lua_touserdata :: "eluna \<Rightarrow> int \<Rightarrow> ElunaObject option" where
  "lua_touserdata s idx = (case index2value s idx of Some (LUserdata u) \<Rightarrow> Some u | _ \<Rightarrow> None)"

definition CHECKTYPE :: "eluna \<Rightarrow> int \<Rightarrow> string option \<Rightarrow> bool \<Rightarrow> ElunaObject option lua_result" where
  "CHECKTYPE s narg tname error =
     (if lua_islightuserdata s narg then
        (if error then ArgError narg ''bad argument : userdata expected, got lightuserdata''
         else Value None)
      else
        (let elunaObject = lua_touserdata s narg in
         if elunaObject = None \<or> (tname \<noteq> None \<and> GetTypeName (the elunaObject) \<noteq> the tname) then
           (if error then
              ArgError narg
                (''bad argument : '' @ (case tname of Some t \<Rightarrow> t | None \<Rightarrow> ''ElunaObject'')
                 @ '' expected, got ''
                 @ (case elunaObject of Some e \<Rightarrow> GetTypeName e | None \<Rightarrow> luaL_typename s narg))
            else Value None)
         else Value elunaObject))"

text \<open>
  Modelled from the spec: \<^verbatim>\<open>ElunaTemplate<T>::Check\<close> (\<^verbatim>\<open>ElunaTemplate.h\<close> is not
  among the sources). Section 4.3: the check of one wrapper type recognises the argument
  as a wrapper of that type and fails with the type mismatch error that names the
  expected and the actual type; that error is the one of \<^verbatim>\<open>CHECKTYPE\<close>, called with
  the wrapper type's name. Section 4.4: an access to a handle first checks whether its
  epoch still matches the current epoch, and on a mismatch the access is rejected as
  invalid rather than dereferenced; the epoch of a handle is its stamp and the current
  epoch is \<^verbatim>\<open>callstackid\<close>. A rejected access is a failed check: an argument error when
  the caller asks for errors (section 4.3: a failed check raises an argument-level error)
  and null otherwise. The specification does not give the text of that error:
  \<open>invalid\<close> is the message for a wrapper type's name, a parameter. The result is the
  wrapped object, or null.
\<close>

definition ElunaTemplate_Check ::
  "(string \<Rightarrow> string) \<Rightarrow> string \<Rightarrow> eluna \<Rightarrow> int \<Rightarrow> bool \<Rightarrow> HostObject option lua_result" where
  "ElunaTemplate_Check invalid tname s narg error =
     (case CHECKTYPE s narg (Some tname) error of
        Value (Some elunaObject) \<Rightarrow>
          (if stamp elunaObject = callstackid s then Value (Some (GetObj elunaObject))
           else if error then ArgError narg (invalid tname)
           else Value None)
      | Value None \<Rightarrow> Value None
      | ArgError n msg \<Rightarrow> ArgError n msg
      | Faulty flt \<Rightarrow> Faulty flt)"

text \<open>
  \<^verbatim>\<open>CHECKOBJ<T>\<close>: the template of \<^verbatim>\<open>LuaEngine.h\<close> for a wrapper type with no
  specialisation, and the three specialisations of \<^verbatim>\<open>LuaEngine.cpp\<close>. A null
  result (\<open>Value None\<close>) lets the next check run; an error ends the function.
\<close>

definition CHECKOBJ_T ::
  "(string \<Rightarrow> string) \<Rightarrow> string \<Rightarrow> eluna \<Rightarrow> int \<Rightarrow> bool \<Rightarrow> HostObject option lua_result" where
  "CHECKOBJ_T invalid tname s narg error = ElunaTemplate_Check invalid tname s narg error"

definition CHECKOBJ_Unit ::
  "(string \<Rightarrow> string) \<Rightarrow> eluna \<Rightarrow> int \<Rightarrow> bool \<Rightarrow> HostObject option lua_result" where
  "CHECKOBJ_Unit invalid s narg error =
     (case CHECKOBJ_T invalid ''Player'' s narg False of
        Value None \<Rightarrow>
          (case CHECKOBJ_T invalid ''Creature'' s narg False of
             Value None \<Rightarrow> ElunaTemplate_Check invalid ''Unit'' s narg error
           | r \<Rightarrow> r)
      | r \<Rightarrow> r)"

definition CHECKOBJ_WorldObject ::
  "(string \<Rightarrow> string) \<Rightarrow> eluna \<Rightarrow> int \<Rightarrow> bool \<Rightarrow> HostObject option lua_result" where
  "CHECKOBJ_WorldObject invalid s narg error =
     (case CHECKOBJ_Unit invalid s narg False of
        Value None \<Rightarrow>
          (case CHECKOBJ_T invalid ''GameObject'' s narg False of
             Value None \<Rightarrow>
               (case CHECKOBJ_T invalid ''Corpse'' s narg False of
                  Value None \<Rightarrow> ElunaTemplate_Check invalid ''WorldObject'' s narg error
                | r \<Rightarrow> r)
           | r \<Rightarrow> r)
      | r \<Rightarrow> r)"

definition CHECKOBJ_Object ::
  "(string \<Rightarrow> string) \<Rightarrow> eluna \<Rightarrow> int \<Rightarrow> bool \<Rightarrow> HostObject option lua_result" where
  "CHECKOBJ_Object invalid s narg error =
     (case CHECKOBJ_WorldObject invalid s narg False of
        Value None \<Rightarrow>
          (case CHECKOBJ_T invalid ''Item'' s narg False of
             Value None \<Rightarrow> ElunaTemplate_Check invalid ''Object'' s narg error
           | r \<Rightarrow> r)
      | r \<Rightarrow> r)"

text \<open>
  The chain of the specification, in its words: the wrapper types are tried in the
  order of the list, the first that recognises the argument gives the result, and only
  the last one reports a failure, when the caller asks for errors.
\<close>

fun check_chain ::
  "(string \<Rightarrow> string) \<Rightarrow> string list \<Rightarrow> eluna \<Rightarrow> int \<Rightarrow> bool \<Rightarrow> HostObject option lua_result" where
  "check_chain invalid [] s narg error = Value None"
| "check_chain invalid [tname] s narg error = ElunaTemplate_Check invalid tname s narg error"
| "check_chain invalid (tname # rest) s narg error =
     (case ElunaTemplate_Check invalid tname s narg False of
        Value None \<Rightarrow> check_chain invalid rest s narg error
      | r \<Rightarrow> r)"

text \<open>
  What a chain of wrapper types answers for an argument, by the kind of the value. A
  handle is answered with its object when its wrapper type is one of the chain's and its
  stamp is the current epoch. A handle of another wrapper type, and a stale handle of a
  type of the chain other than the last, fail with the type mismatch, which names the last
  type of the chain and the handle's type; a stale handle of the last type fails as
  invalid.
\<close>

definition chain_answer ::
  "(string \<Rightarrow> string) \<Rightarrow> string list \<Rightarrow> eluna \<Rightarrow> int \<Rightarrow> bool \<Rightarrow> HostObject option lua_result" where
  "chain_answer invalid names s narg error =
     (case index2value s narg of
        Some (LUserdata e) \<Rightarrow>
          (if GetTypeName e \<in> set names \<and> stamp e = callstackid s then Value (Some (GetObj e))
           else if \<not> error then Value None
           else if GetTypeName e = last names then ArgError narg (invalid (last names))
           else
             ArgError narg (''bad argument : '' @ last names @ '' expected, got '' @ GetTypeName e))
      | Some (LLightUserdata p) \<Rightarrow>
          (if error then ArgError narg ''bad argument : userdata expected, got lightuserdata''
           else Value None)
      | _ \<Rightarrow>
          (if error then
             ArgError narg (''bad argument : '' @ last names @ '' expected, got '' @ luaL_typename s narg)
           else Value None))"

text \<open>A text for the error of a rejected access, for evaluating the checks on examples.\<close>

definition example_invalid :: "string \<Rightarrow> string" where
  "example_invalid tname = tname @ '' expected, got an invalidated object''"

section \<open>Registering a callback\<close>

text \<open>
  What the host answers to \<^verbatim>\<open>Eluna::Register\<close>: the number of packet opcodes
  (\<^verbatim>\<open>NUM_MSG_TYPES\<close>) and whether \<^verbatim>\<open>eObjectMgr\<close> finds the creature, gameobject
  or item template of an entry. They are parameters of the model.
\<close>

record Host =
  NUM_MSG_TYPES :: nat
  GetCreatureTemplate :: "uint32 \<Rightarrow> bool"
  GetGameObjectTemplate :: "uint32 \<Rightarrow> bool"
  GetItemTemplate :: "uint32 \<Rightarrow> bool"

text \<open>
  The outcome of a function of the engine that may raise a Lua error with
  \<^verbatim>\<open>luaL_error\<close>: it returns a value in a new state, or raises the error message in
  the state reached so far, or the process faults. (The position that
  \<^verbatim>\<open>luaL_error\<close> puts in front of the message is left out.)
\<close>

datatype 'a outcome = Done 'a eluna | LuaError string eluna | Fault fault

text \<open>
  \<^verbatim>\<open>createCancelCallback\<close> pushes the binding id and the store as the two upvalues
  and replaces them by the closure \<^verbatim>\<open>cancelBinding\<close>: one value more on the stack.
\<close>

definition createCancelCallback :: "uint64 \<Rightarrow> RegisterTypes \<Rightarrow> eluna \<Rightarrow> eluna" where
  "createCancelCallback bindingID regtype s = lua_push (LFunction (cancelBinding_closure bindingID regtype)) s"

definition RegisterBinding :: "RegisterTypes \<Rightarrow> event_key \<Rightarrow> int \<Rightarrow> uint32 \<Rightarrow> eluna \<Rightarrow> int outcome" where
  "RegisterBinding regtype key functionRef shots s =
     (case bindingMaps s regtype of
        None \<Rightarrow> Fault NullDereference
      | Some binding \<Rightarrow>
          (case Insert binding key functionRef shots of
             (bindingID, binding') \<Rightarrow>
               Done 1 (createCancelCallback bindingID regtype
                         (s\<lparr>bindingMaps := (bindingMaps s)(regtype \<mapsto> binding')\<rparr>))))"

definition RegisterBasicBinding :: "RegisterTypes \<Rightarrow> uint32 \<Rightarrow> int \<Rightarrow> uint32 \<Rightarrow> eluna \<Rightarrow> int outcome" where
  "RegisterBasicBinding regtype event_id functionRef shots s =
     RegisterBinding regtype (EventKey event_id) functionRef shots s"

definition RegisterEntryBinding ::
  "RegisterTypes \<Rightarrow> uint32 \<Rightarrow> uint32 \<Rightarrow> int \<Rightarrow> uint32 \<Rightarrow> eluna \<Rightarrow> int outcome" where
  "RegisterEntryBinding regtype entry event_id functionRef shots s =
     RegisterBinding regtype (EntryKey event_id entry) functionRef shots s"

definition RegisterUniqueBinding ::
  "RegisterTypes \<Rightarrow> uint64 \<Rightarrow> uint32 \<Rightarrow> uint32 \<Rightarrow> int \<Rightarrow> uint32 \<Rightarrow> eluna \<Rightarrow> int outcome" where
  "RegisterUniqueBinding regtype guid instanceId event_id functionRef shots s =
     RegisterBinding regtype (UniqueObjectKey event_id guid instanceId) functionRef shots s"

text \<open>
  The failures of \<^verbatim>\<open>Eluna::Register\<close>: each releases the callable's reference with
  \<^verbatim>\<open>luaL_unref\<close> and raises. \<open>not_found what\<close> is the failure of an entry check
  (the \<^verbatim>\<open>%d\<close> of the message prints the unsigned entry as a signed integer);
  \<open>unknown_event_type\<close> is the code after the \<^verbatim>\<open>switch\<close>. \<open>regtype_value\<close> is
  the integer of a registration type, another constant of \<^verbatim>\<open>Hooks.h\<close>.
\<close>

definition not_found :: "string \<Rightarrow> uint32 \<Rightarrow> int \<Rightarrow> eluna \<Rightarrow> int outcome" where
  "not_found what entry functionRef s =
     LuaError (''Couldn't find a '' @ what @ '' with (ID: '' @ show_int (sint entry) @ '')!'')
       (luaL_unref functionRef s)"

definition unknown_event_type ::
  "(RegisterTypes \<Rightarrow> nat) \<Rightarrow> RegisterTypes \<Rightarrow> uint32 \<Rightarrow> uint64 \<Rightarrow> uint32 \<Rightarrow> uint32 \<Rightarrow> int \<Rightarrow> eluna
     \<Rightarrow> int outcome" where
  "unknown_event_type regtype_value regtype entry guid instanceId event_id functionRef s =
     LuaError (''Unknown event type (regtype '' @ show_nat (regtype_value regtype)
               @ '', event '' @ show_nat (unat event_id)
               @ '', entry '' @ show_nat (unat entry)
               @ '', guid '' @ show_nat (unat guid)
               @ '', instance '' @ show_nat (unat instanceId) @ '')'')
       (luaL_unref functionRef s)"

definition Register ::
  "Hooks \<Rightarrow> (RegisterTypes \<Rightarrow> nat) \<Rightarrow> Host \<Rightarrow> RegisterTypes \<Rightarrow> uint32 \<Rightarrow> uint64 \<Rightarrow> uint32 \<Rightarrow> uint32
     \<Rightarrow> int \<Rightarrow> uint32 \<Rightarrow> eluna \<Rightarrow> int outcome" where
  "Register H regtype_value host regtype entry guid instanceId event_id functionRef shots s =
     (let unknown = unknown_event_type regtype_value regtype entry guid instanceId event_id functionRef s
      in case regtype of
        REGTYPE_SERVER \<Rightarrow>
          if unat event_id < SERVER_EVENT_COUNT H
          then RegisterBasicBinding regtype event_id functionRef shots s else unknown
      | REGTYPE_PLAYER \<Rightarrow>
          if unat event_id < PLAYER_EVENT_COUNT H
          then RegisterBasicBinding regtype event_id functionRef shots s else unknown
      | REGTYPE_GUILD \<Rightarrow>
          if unat event_id < GUILD_EVENT_COUNT H
          then RegisterBasicBinding regtype event_id functionRef shots s else unknown
      | REGTYPE_GROUP \<Rightarrow>
          if unat event_id < GROUP_EVENT_COUNT H
          then RegisterBasicBinding regtype event_id functionRef shots s else unknown
      | REGTYPE_VEHICLE \<Rightarrow>
          if unat event_id < VEHICLE_EVENT_COUNT H
          then RegisterBasicBinding regtype event_id functionRef shots s else unknown
      | REGTYPE_BG \<Rightarrow>
          if unat event_id < BG_EVENT_COUNT H
          then RegisterBasicBinding regtype event_id functionRef shots s else unknown
      | REGTYPE_PACKET \<Rightarrow>
          if unat event_id < PACKET_EVENT_COUNT H
          then (if unat entry \<ge> NUM_MSG_TYPES host
                then not_found ''creature'' entry functionRef s
                else RegisterEntryBinding regtype entry event_id functionRef shots s)
          else unknown
      | REGTYPE_CREATURE \<Rightarrow>
          if unat event_id < CREATURE_EVENT_COUNT H
          then (if \<not> GetCreatureTemplate host entry
                then not_found ''creature'' entry functionRef s
                else RegisterEntryBinding regtype entry event_id functionRef shots s)
          else unknown
      | REGTYPE_CREATURE_UNIQUE \<Rightarrow>
          if unat event_id < CREATURE_EVENT_COUNT H
          then (if guid = 0
                then LuaError ''guid was 0!'' (luaL_unref functionRef s)
                else RegisterUniqueBinding regtype guid instanceId event_id functionRef shots s)
          else unknown
      | REGTYPE_CREATURE_GOSSIP \<Rightarrow>
          if unat event_id < GOSSIP_EVENT_COUNT H
          then (if \<not> GetCreatureTemplate host entry
                then not_found ''creature'' entry functionRef s
                else RegisterEntryBinding regtype entry event_id functionRef shots s)
          else unknown
      | REGTYPE_GAMEOBJECT \<Rightarrow>
          if unat event_id < GAMEOBJECT_EVENT_COUNT H
          then (if \<not> GetGameObjectTemplate host entry
                then not_found ''gameobject'' entry functionRef s
                else RegisterEntryBinding regtype entry event_id functionRef shots s)
          else unknown
      | REGTYPE_GAMEOBJECT_GOSSIP \<Rightarrow>
          if unat event_id < GOSSIP_EVENT_COUNT H
          then (if \<not> GetGameObjectTemplate host entry
                then not_found ''gameobject'' entry functionRef s
                else RegisterEntryBinding regtype entry event_id functionRef shots s)
          else unknown
      | REGTYPE_SPELL \<Rightarrow>
          if unat event_id < SPELL_EVENT_COUNT H
          then RegisterEntryBinding regtype entry event_id functionRef shots s else unknown
      | REGTYPE_ITEM \<Rightarrow>
          if unat event_id < ITEM_EVENT_COUNT H
          then (if \<not> GetItemTemplate host entry
                then not_found ''item'' entry functionRef s
                else RegisterEntryBinding regtype entry event_id functionRef shots s)
          else unknown
      | REGTYPE_ITEM_GOSSIP \<Rightarrow>
          if unat event_id < GOSSIP_EVENT_COUNT H
          then (if \<not> GetItemTemplate host entry
                then not_found ''item'' entry functionRef s
                else RegisterEntryBinding regtype entry event_id functionRef shots s)
          else unknown
      | REGTYPE_PLAYER_GOSSIP \<Rightarrow>
          if unat event_id < GOSSIP_EVENT_COUNT H
          then RegisterEntryBinding regtype entry event_id functionRef shots s else unknown
      | REGTYPE_MAP \<Rightarrow>
          if unat event_id < INSTANCE_EVENT_COUNT H
          then RegisterEntryBinding regtype entry event_id functionRef shots s else unknown
      | REGTYPE_INSTANCE \<Rightarrow>
          if unat event_id < INSTANCE_EVENT_COUNT H
          then RegisterEntryBinding regtype entry event_id functionRef shots s else unknown
      | REGTYPE_OTHER n \<Rightarrow> unknown)"

subsection \<open>The conditions the claim about \<^verbatim>\<open>Register\<close> speaks of\<close>

text \<open>The pair of a registration type and an event id is a known combination.\<close>

definition known_combination :: "Hooks \<Rightarrow> RegisterTypes \<Rightarrow> uint32 \<Rightarrow> bool" where
  "known_combination H regtype event_id =
     (case regtype of
        REGTYPE_SERVER \<Rightarrow> unat event_id < SERVER_EVENT_COUNT H
      | REGTYPE_PLAYER \<Rightarrow> unat event_id < PLAYER_EVENT_COUNT H
      | REGTYPE_GUILD \<Rightarrow> unat event_id < GUILD_EVENT_COUNT H
      | REGTYPE_GROUP \<Rightarrow> unat event_id < GROUP_EVENT_COUNT H
      | REGTYPE_VEHICLE \<Rightarrow> unat event_id < VEHICLE_EVENT_COUNT H
      | REGTYPE_BG \<Rightarrow> unat event_id < BG_EVENT_COUNT H
      | REGTYPE_PACKET \<Rightarrow> unat event_id < PACKET_EVENT_COUNT H
      | REGTYPE_CREATURE \<Rightarrow> unat event_id < CREATURE_EVENT_COUNT H
      | REGTYPE_CREATURE_UNIQUE \<Rightarrow> unat event_id < CREATURE_EVENT_COUNT H
      | REGTYPE_CREATURE_GOSSIP \<Rightarrow> unat event_id < GOSSIP_EVENT_COUNT H
      | REGTYPE_GAMEOBJECT \<Rightarrow> unat event_id < GAMEOBJECT_EVENT_COUNT H
      | REGTYPE_GAMEOBJECT_GOSSIP \<Rightarrow> unat event_id < GOSSIP_EVENT_COUNT H
      | REGTYPE_SPELL \<Rightarrow> unat event_id < SPELL_EVENT_COUNT H
      | REGTYPE_ITEM \<Rightarrow> unat event_id < ITEM_EVENT_COUNT H
      | REGTYPE_ITEM_GOSSIP \<Rightarrow> unat event_id < GOSSIP_EVENT_COUNT H
      | REGTYPE_PLAYER_GOSSIP \<Rightarrow> unat event_id < GOSSIP_EVENT_COUNT H
      | REGTYPE_MAP \<Rightarrow> unat event_id < INSTANCE_EVENT_COUNT H
      | REGTYPE_INSTANCE \<Rightarrow> unat event_id < INSTANCE_EVENT_COUNT H
      | REGTYPE_OTHER n \<Rightarrow> False)"

text \<open>For a registration type whose entry is a template, the template exists.\<close>

definition template_exists :: "Host \<Rightarrow> RegisterTypes \<Rightarrow> uint32 \<Rightarrow> bool" where
  "template_exists host regtype entry =
     (if regtype = REGTYPE_CREATURE \<or> regtype = REGTYPE_CREATURE_GOSSIP
        then GetCreatureTemplate host entry
      else if regtype = REGTYPE_GAMEOBJECT \<or> regtype = REGTYPE_GAMEOBJECT_GOSSIP
        then GetGameObjectTemplate host entry
      else if regtype = REGTYPE_ITEM \<or> regtype = REGTYPE_ITEM_GOSSIP
        then GetItemTemplate host entry
      else True)"

text \<open>For \<^verbatim>\<open>REGTYPE_CREATURE_UNIQUE\<close>, the guid is not empty.\<close>

definition guid_given :: "RegisterTypes \<Rightarrow> uint64 \<Rightarrow> bool" where
  "guid_given regtype guid = (if regtype = REGTYPE_CREATURE_UNIQUE then guid \<noteq> 0 else True)"

text \<open>For \<^verbatim>\<open>REGTYPE_PACKET\<close>, the entry is an opcode below \<^verbatim>\<open>NUM_MSG_TYPES\<close>.\<close>

definition opcode_in_range :: "Host \<Rightarrow> RegisterTypes \<Rightarrow> uint32 \<Rightarrow> bool" where
  "opcode_in_range host regtype entry =
     (if regtype = REGTYPE_PACKET then unat entry < NUM_MSG_TYPES host else True)"

text \<open>The key a registration is stored under, by the shape of the store's keys.\<close>

definition registration_key :: "RegisterTypes \<Rightarrow> uint32 \<Rightarrow> uint64 \<Rightarrow> uint32 \<Rightarrow> uint32 \<Rightarrow> event_key" where
  "registration_key regtype entry guid instanceId event_id =
     (if regtype \<in> {REGTYPE_SERVER, REGTYPE_PLAYER, REGTYPE_GUILD, REGTYPE_GROUP, REGTYPE_VEHICLE,
                     REGTYPE_BG}
        then EventKey event_id
      else if regtype = REGTYPE_CREATURE_UNIQUE then UniqueObjectKey event_id guid instanceId
      else EntryKey event_id entry)"

text \<open>A choice of the host's answers, for evaluating the engine on examples.\<close>

definition example_Host :: Host where
  "example_Host =
     \<lparr>NUM_MSG_TYPES = 1311,
      GetCreatureTemplate = (\<lambda>entry. entry = 6), GetGameObjectTemplate = (\<lambda>entry. entry = 31),
      GetItemTemplate = (\<lambda>entry. entry = 25)\<rparr>"

definition example_regtype_value :: "RegisterTypes \<Rightarrow> nat" where
  "example_regtype_value regtype =
     (case regtype of
        REGTYPE_PACKET \<Rightarrow> 0 | REGTYPE_SERVER \<Rightarrow> 1 | REGTYPE_PLAYER \<Rightarrow> 2 | REGTYPE_GUILD \<Rightarrow> 3
      | REGTYPE_GROUP \<Rightarrow> 4 | REGTYPE_CREATURE \<Rightarrow> 5 | REGTYPE_CREATURE_UNIQUE \<Rightarrow> 6
      | REGTYPE_VEHICLE \<Rightarrow> 7 | REGTYPE_CREATURE_GOSSIP \<Rightarrow> 8 | REGTYPE_GAMEOBJECT \<Rightarrow> 9
      | REGTYPE_GAMEOBJECT_GOSSIP \<Rightarrow> 10 | REGTYPE_SPELL \<Rightarrow> 11 | REGTYPE_ITEM \<Rightarrow> 12
      | REGTYPE_ITEM_GOSSIP \<Rightarrow> 13 | REGTYPE_PLAYER_GOSSIP \<Rightarrow> 14 | REGTYPE_BG \<Rightarrow> 15
      | REGTYPE_MAP \<Rightarrow> 16 | REGTYPE_INSTANCE \<Rightarrow> 17 | REGTYPE_OTHER n \<Rightarrow> n)"



section \<open>Calling into Lua\<close>

text \<open>
  What a call of a function value does is not the engine's to decide: it is a parameter.
  \<open>call L f args s\<close> runs the function \<open>f\<close> on the arguments \<open>args\<close> with the engine
  in state \<open>s\<close> (the callee may call back into the host, which changes the engine's
  state): it returns results, or raises an error value, or the process faults under it.
  \<open>debug_traceback\<close> is the function stored as \<^verbatim>\<open>debug.traceback\<close>, called with the
  message handler's two arguments for one result (\<open>Inl\<close>: it raises); \<open>number2str\<close> is
  Lua's conversion of a number to a string.
\<close>

datatype callee_result = Returns "lua_value list" eluna | Raises lua_value eluna | Aborts fault

record lua_env =
  call :: "lua_value \<Rightarrow> lua_value list \<Rightarrow> eluna \<Rightarrow> callee_result"
  debug_traceback :: "lua_value list \<Rightarrow> lua_value + lua_value"
  number2str :: "double \<Rightarrow> string"

subsection \<open>More of the Lua API\<close>

text \<open>\<^verbatim>\<open>lua_insert\<close> moves the top of the stack to an index and shifts the values from
  there up; \<^verbatim>\<open>lua_remove\<close> takes the value at an index out. Both are for an index of
  a value on the stack, counted from the bottom.\<close>

definition lua_insert :: "int \<Rightarrow> eluna \<Rightarrow> eluna" where
  "lua_insert idx s =
     s\<lparr>stack := take (nat (idx - 1)) (butlast (stack s)) @ [last (stack s)]
                 @ drop (nat (idx - 1)) (butlast (stack s))\<rparr>"

definition lua_remove :: "int \<Rightarrow> eluna \<Rightarrow> eluna" where
  "lua_remove idx s = s\<lparr>stack := take (nat (idx - 1)) (stack s) @ drop (nat idx) (stack s)\<rparr>"

text \<open>\<^verbatim>\<open>lua_pushvalue\<close> pushes a copy of the value at an index; an index above the top
  reads as nil.\<close>

definition lua_pushvalue :: "int \<Rightarrow> eluna \<Rightarrow> eluna" where
  "lua_pushvalue idx s = lua_push (case index2value s idx of Some v \<Rightarrow> v | None \<Rightarrow> LNil) s"

text \<open>\<^verbatim>\<open>lua_isstring\<close> holds of a string and of a number; \<^verbatim>\<open>lua_tostring\<close>
  gives the string of either and a null pointer for every other value.\<close>

definition is_string_or_number :: "lua_value \<Rightarrow> bool" where
  "is_string_or_number v = (case v of LString str \<Rightarrow> True | LNumber d \<Rightarrow> True | _ \<Rightarrow> False)"

definition lua_tostring :: "lua_env \<Rightarrow> eluna \<Rightarrow> int \<Rightarrow> string option" where
  "lua_tostring L s idx =
     (case index2value s idx of
        Some (LString str) \<Rightarrow> Some str
      | Some (LNumber d) \<Rightarrow> Some (number2str L d)
      | _ \<Rightarrow> None)"

text \<open>\<^verbatim>\<open>lua_gc(L, LUA_GCCOLLECT, 0)\<close>: a full collection.\<close>

definition lua_gc_collect :: "eluna \<Rightarrow> eluna" where
  "lua_gc_collect s = s\<lparr>gc_collections := gc_collections s + 1\<rparr>"

text \<open>
  The number of results a call leaves: all of them for \<^verbatim>\<open>LUA_MULTRET\<close> (which is -1),
  and otherwise exactly \<open>nresults\<close>, extra ones dropped and missing ones nil.
\<close>

definition adjust_results :: "int \<Rightarrow> lua_value list \<Rightarrow> lua_value list" where
  "adjust_results nresults results =
     (if nresults = - 1 then results
      else take (nat nresults) (results @ replicate (nat nresults) LNil))"

text \<open>
  \<^verbatim>\<open>Eluna::StackTrace\<close>, the message handler: its stack holds the error value alone.
  A value that is no string is kept; so it is when the global \<^verbatim>\<open>debug\<close> is no table or
  its field \<^verbatim>\<open>traceback\<close> no function; otherwise the handler returns what
  \<^verbatim>\<open>debug.traceback\<close> makes of the message and the level 1.
\<close>

definition StackTrace :: "lua_env \<Rightarrow> eluna \<Rightarrow> lua_value \<Rightarrow> lua_value + lua_value" where
  "StackTrace L s errmsg =
     (if \<not> is_string_or_number errmsg then Inr errmsg
      else
        (case global_debug s of
           None \<Rightarrow> Inr errmsg
         | Some (LFunction f) \<Rightarrow> debug_traceback L [errmsg, LNumber (Finite 1)]
         | Some _ \<Rightarrow> Inr errmsg))"

text \<open>
  \<^verbatim>\<open>lua_pcall(L, nargs, nresults, errfunc)\<close>: the function and its arguments are the
  top \<open>nargs + 1\<close> values. They are replaced by the adjusted results and the status is
  0, or by the error value and the status is \<^verbatim>\<open>LUA_ERRRUN\<close> (2). With a message
  handler (\<open>errfunc\<close> is its index, 0 for none) the error value is what the handler
  returns for it; a handler that raises makes the status \<^verbatim>\<open>LUA_ERRERR\<close> (5). The
  engine passes no handler but \<^verbatim>\<open>StackTrace\<close>; any other value at \<open>errfunc\<close> is
  taken for a handler that returns its argument. Calling it with fewer than
  \<open>nargs + 1\<close> values on the stack breaks the API's contract: a fault.
\<close>

definition lua_pcall :: "lua_env \<Rightarrow> int \<Rightarrow> int \<Rightarrow> int \<Rightarrow> eluna \<Rightarrow> fault + (int \<times> eluna)" where
  "lua_pcall L nargs nresults errfunc s =
     (if nargs < 0 \<or> lua_gettop s \<le> nargs \<or> errfunc < 0 \<or> lua_gettop s < errfunc
      then Inl InvalidIndex
      else
        (let func = lua_gettop s - nargs;
             below = take (nat (func - 1)) (stack s);
             f = stack s ! nat (func - 1);
             args = drop (nat func) (stack s)
         in case call L f args s of
              Returns results s' \<Rightarrow> Inr (0, s'\<lparr>stack := below @ adjust_results nresults results\<rparr>)
            | Raises e s' \<Rightarrow>
                (if errfunc = 0 then Inr (2, s'\<lparr>stack := below @ [e]\<rparr>)
                 else if stack s ! nat (errfunc - 1) = LFunction StackTrace_cfunction then
                   (case StackTrace L s' e of
                      Inr msg \<Rightarrow> Inr (2, s'\<lparr>stack := below @ [msg]\<rparr>)
                    | Inl e' \<Rightarrow> Inr (5, s'\<lparr>stack := below @ [e']\<rparr>))
                 else Inr (2, s'\<lparr>stack := below @ [e]\<rparr>))
            | Aborts flt \<Rightarrow> Inl flt))"

subsection \<open>The engine's protected call\<close>

text \<open>\<^verbatim>\<open>Eluna::Report\<close> logs the string of the value on top and pops it.\<close>

definition Report :: "lua_env \<Rightarrow> eluna \<Rightarrow> eluna" where
  "Report L s = lua_pop 1 (s\<lparr>error_log := error_log s @ [lua_tostring L s (- 1)]\<rparr>)"

text \<open>The loop of \<^verbatim>\<open>ExecuteCall\<close> that pushes a nil for each expected result.\<close>

function push_nils :: "int \<Rightarrow> int \<Rightarrow> eluna \<Rightarrow> eluna" where
  "push_nils i res s = (if i < res then push_nils (i + 1) res (lua_push LNil s) else s)"
  by pat_completeness auto
termination
  by (relation "measure (\<lambda>(i, res, s). nat (res - i))") auto

declare push_nils.simps [simp del]

text \<open>
  \<^verbatim>\<open>Eluna::ExecuteCall(params, res)\<close>. \<open>usetrace\<close> is the configuration option
  \<^verbatim>\<open>CONFIG_ELUNA_TRACEBACK\<close>. The result is the boolean and the state, or the fault
  of a failed \<^verbatim>\<open>ASSERT\<close>.
\<close>

definition ExecuteCall :: "lua_env \<Rightarrow> bool \<Rightarrow> int \<Rightarrow> int \<Rightarrow> eluna \<Rightarrow> fault + (bool \<times> eluna)" where
  "ExecuteCall L usetrace params res s =
     (let top = lua_gettop s;
          base = top - params
      in if \<not> 0 < base then Inl AssertFailed
         else if \<not> lua_isfunction s base then Inl AssertFailed
         else
           (let s1 = (if usetrace
                      then lua_insert base (lua_push (LFunction StackTrace_cfunction) s)
                      else s);
                s2 = s1\<lparr>event_level := event_level s1 + 1\<rparr>
            in case lua_pcall L params res (if usetrace then base else 0) s2 of
                 Inl flt \<Rightarrow> Inl flt
               | Inr (result, s3) \<Rightarrow>
                   (let s4 = s3\<lparr>event_level := event_level s3 - 1\<rparr>;
                        s5 = (if usetrace then lua_remove base s4 else s4)
                    in if result \<noteq> 0
                       then Inr (False, push_nils 0 res (lua_gc_collect (Report L s5)))
                       else Inr (True, s5))))"

subsection \<open>Dispatching an event\<close>

text \<open>
  \<^verbatim>\<open>Eluna::InvalidateObjects\<close> (of the builds without a host liveness primitive, where
  \<^verbatim>\<open>callstackid\<close> exists) and \<^verbatim>\<open>Eluna::CleanUpStack\<close>.
\<close>

definition InvalidateObjects :: "eluna \<Rightarrow> fault + eluna" where
  "InvalidateObjects s =
     (let s1 = s\<lparr>callstackid := callstackid s + 1\<rparr>
      in if callstackid s1 = 0 then Inl AssertFailed else Inr s1)"

definition CleanUpStack :: "int \<Rightarrow> eluna \<Rightarrow> fault + eluna" where
  "CleanUpStack number_of_arguments s =
     (let s1 = lua_pop (number_of_arguments + 1) s
      in if event_level s1 = 0 then InvalidateObjects s1 else Inr s1)"

text \<open>The loop of \<^verbatim>\<open>CallOneFunction\<close> that copies the arguments to the top.\<close>

function copy_arguments :: "int \<Rightarrow> int \<Rightarrow> eluna \<Rightarrow> eluna" where
  "copy_arguments argument_index arguments_top s =
     (if argument_index \<le> arguments_top
      then copy_arguments (argument_index + 1) arguments_top (lua_pushvalue argument_index s)
      else s)"
  by pat_completeness auto
termination
  by (relation "measure (\<lambda>(argument_index, arguments_top, s). nat (arguments_top + 1 - argument_index))")
    auto

declare copy_arguments.simps [simp del]

text \<open>\<^verbatim>\<open>Eluna::CallOneFunction\<close>: the result is the index of the first result.\<close>

definition CallOneFunction ::
  "lua_env \<Rightarrow> bool \<Rightarrow> int \<Rightarrow> int \<Rightarrow> int \<Rightarrow> eluna \<Rightarrow> fault + (int \<times> eluna)" where
  "CallOneFunction L usetrace number_of_functions number_of_arguments0 number_of_results s =
     (let number_of_arguments = number_of_arguments0 + 1
      in if \<not> (number_of_functions > 0 \<and> number_of_arguments > 0 \<and> number_of_results \<ge> 0)
         then Inl AssertFailed
         else
           (let functions_top = lua_gettop s;
                first_function_index = functions_top - number_of_functions + 1;
                arguments_top = first_function_index - 1;
                first_argument_index = arguments_top - number_of_arguments + 1;
                s1 = copy_arguments first_argument_index arguments_top s
            in case ExecuteCall L usetrace number_of_arguments number_of_results s1 of
                 Inl flt \<Rightarrow> Inl flt
               | Inr (ok, s2) \<Rightarrow> Inr (functions_top - 1 + 1, s2)))"

subsection \<open>Nested dispatch\<close>

text \<open>
  A callback may raise further events while it runs. One run of a callback is described
  by the events it raises, in order, and by how it ends (\<open>Inl\<close>: it raises an error
  value, \<open>Inr\<close>: it returns results); one raised event by its id, its arguments and
  the runs of the callbacks bound to it.
\<close>

datatype script = Script "hook list" "lua_value + lua_value list"
  and hook = Hook uint32 "lua_value list" "script list"

text \<open>
  Modelled from the spec: \<^verbatim>\<open>SetupStack\<close> and \<^verbatim>\<open>CallAllFunctions\<close>
  (\<^verbatim>\<open>HookHelpers.h\<close> is not among the sources). Section 4.6: \<open>SetupStack\<close> pushes the
  event identity and the arguments (and the bound callables, as the stack comments of
  \<^verbatim>\<open>CallOneFunction\<close> say: event id, arguments, functions); \<open>CallOneFunction\<close> runs
  once per bound callable; \<open>CleanUpStack\<close> discards every pushed value. The callable
  called first is the one on top.
\<close>

definition SetupStack :: "uint32 \<Rightarrow> lua_value list \<Rightarrow> nat \<Rightarrow> eluna \<Rightarrow> eluna" where
  "SetupStack event_id args number_of_functions s =
     s\<lparr>stack := stack s @ [LNumber (Finite (of_nat (unat event_id)))] @ args
                 @ replicate number_of_functions (LFunction (LuaFunction 0))\<rparr>"

fun run_script :: "lua_env \<Rightarrow> bool \<Rightarrow> script \<Rightarrow> lua_value list \<Rightarrow> eluna \<Rightarrow> callee_result"
  and run_hooks :: "lua_env \<Rightarrow> bool \<Rightarrow> hook list \<Rightarrow> eluna \<Rightarrow> fault + eluna"
  and CallAllFunctions :: "lua_env \<Rightarrow> bool \<Rightarrow> hook \<Rightarrow> eluna \<Rightarrow> fault + eluna"
  and call_functions :: "lua_env \<Rightarrow> bool \<Rightarrow> script list \<Rightarrow> int \<Rightarrow> eluna \<Rightarrow> fault + eluna"
where
  "run_script L usetrace (Script hooks ending) args s =
     (case run_hooks L usetrace hooks s of
        Inl flt \<Rightarrow> Aborts flt
      | Inr s' \<Rightarrow> (case ending of Inl e \<Rightarrow> Raises e s' | Inr results \<Rightarrow> Returns results s'))"
| "run_hooks L usetrace [] s = Inr s"
| "run_hooks L usetrace (h # hs) s =
     (case CallAllFunctions L usetrace h s of
        Inl flt \<Rightarrow> Inl flt
      | Inr s' \<Rightarrow> run_hooks L usetrace hs s')"
| "CallAllFunctions L usetrace (Hook event_id args callbacks) s =
     (case call_functions L usetrace callbacks (int (length args))
             (SetupStack event_id args (length callbacks) s) of
        Inl flt \<Rightarrow> Inl flt
      | Inr s' \<Rightarrow> CleanUpStack (int (length args)) s')"
| "call_functions L usetrace [] number_of_arguments s = Inr s"
| "call_functions L usetrace (c # cs) number_of_arguments s =
     (case CallOneFunction (L\<lparr>call := (\<lambda>f args st. run_script L usetrace c args st)\<rparr>) usetrace
             (int (length (c # cs))) number_of_arguments 0 s of
        Inl flt \<Rightarrow> Inl flt
      | Inr (first_result, s') \<Rightarrow> call_functions L usetrace cs number_of_arguments s')"


subsection \<open>What the claims about the protected call speak of\<close>

text \<open>The state in which the callee of \<^verbatim>\<open>ExecuteCall\<close> runs, for a stack that holds
  \<open>pre\<close>, then the function, then its arguments: the message handler is below the
  function when tracing is on, and the nesting depth is one more.\<close>

definition entered :: "bool \<Rightarrow> lua_value list \<Rightarrow> lua_function \<Rightarrow> lua_value list \<Rightarrow> eluna \<Rightarrow> eluna" where
  "entered usetrace pre f args s =
     s\<lparr>stack := (if usetrace then pre @ [LFunction StackTrace_cfunction] else pre)
                  @ LFunction f # args,
       event_level := event_level s + 1\<rparr>"

text \<open>The string of a value, as \<^verbatim>\<open>lua_tostring\<close> gives it.\<close>

definition tostring_value :: "lua_env \<Rightarrow> lua_value \<Rightarrow> string option" where
  "tostring_value L v =
     (case v of LString str \<Rightarrow> Some str | LNumber d \<Rightarrow> Some (number2str L d) | _ \<Rightarrow> None)"

text \<open>The error value that \<^verbatim>\<open>lua_pcall\<close> leaves for a raised value: the value itself
  without tracing, and what the message handler makes of it with tracing.\<close>

definition handled_error :: "lua_env \<Rightarrow> bool \<Rightarrow> eluna \<Rightarrow> lua_value \<Rightarrow> lua_value" where
  "handled_error L usetrace s e =
     (if usetrace then (case StackTrace L s e of Inr msg \<Rightarrow> msg | Inl e' \<Rightarrow> e') else e)"

section \<open>Running the scripts\<close>

text \<open>A script of the loader, without its bytecode: the engine hands the file name to
  \<^verbatim>\<open>require\<close>, whose loader finds the bytecode.\<close>

record LuaScript =
  fileext :: string
  filename :: string
  filepath :: string
  modulepath :: string
  mapId :: uint32

text \<open>\<^verbatim>\<open>GetBoundMapId\<close>: the id of the bound map as an \<^verbatim>\<open>int32\<close>, and -1 without a
  map. A word holds the \<^verbatim>\<open>int32\<close>; -1 is the word of all ones.\<close>

definition GetBoundMapId :: "eluna \<Rightarrow> uint32" where
  "GetBoundMapId s = (case boundMap s of Some m \<Rightarrow> GetId m | None \<Rightarrow> - 1)"

definition log_error :: "string \<Rightarrow> eluna \<Rightarrow> eluna" where
  "log_error msg s = s\<lparr>error_log := error_log s @ [Some msg]\<rparr>"

text \<open>
  The loop of \<^verbatim>\<open>Eluna::RunScripts\<close> over the scripts in the loader's order, with its
  local variables \<open>loaded\<close> (file name to path) and \<open>count\<close>; the stack holds
  \<^verbatim>\<open>require\<close> on top. (Only the error log is modelled, not the debug log.)
\<close>

fun RunScripts_loop ::
  "lua_env \<Rightarrow> bool \<Rightarrow> uint32 \<Rightarrow> LuaScript list \<Rightarrow> (string \<rightharpoonup> string) \<Rightarrow> uint32 \<Rightarrow> eluna
     \<Rightarrow> fault + ((string \<rightharpoonup> string) \<times> uint32 \<times> eluna)" where
  "RunScripts_loop L usetrace boundMapId [] loaded count s = Inr (loaded, count, s)"
| "RunScripts_loop L usetrace boundMapId (it # rest) loaded count s =
     (if mapId it \<noteq> - 1 \<and> mapId it \<noteq> boundMapId
      then RunScripts_loop L usetrace boundMapId rest loaded count s
      else
        (case loaded (filename it) of
           Some path \<Rightarrow>
             RunScripts_loop L usetrace boundMapId rest loaded count
               (log_error (''[Eluna]: Error loading `'' @ filepath it
                           @ ''`. File with same name already loaded from `'' @ path
                           @ ''`, rename either file'') s)
         | None \<Rightarrow>
             (case ExecuteCall L usetrace 1 0
                     (lua_push (LString (filename it)) (lua_pushvalue (- 1) s)) of
                Inl flt \<Rightarrow> Inl flt
              | Inr (ok, s') \<Rightarrow>
                  RunScripts_loop L usetrace boundMapId rest (loaded(filename it \<mapsto> filepath it))
                    (if ok then count + 1 else count) s')))"

declare RunScripts_loop.simps(2) [simp del]

text \<open>
  \<^verbatim>\<open>Eluna::RunScripts\<close>: \<^verbatim>\<open>require\<close> is pushed, the loop runs, \<^verbatim>\<open>require\<close> is
  popped. (The hook \<^verbatim>\<open>OnLuaStateOpen\<close> that the function ends with is one of the
  hook call sites and not part of the model.)
\<close>

definition RunScripts :: "lua_env \<Rightarrow> bool \<Rightarrow> LuaScript list \<Rightarrow> eluna \<Rightarrow> fault + eluna" where
  "RunScripts L usetrace scripts s =
     (case RunScripts_loop L usetrace (GetBoundMapId s) scripts Map.empty 0
             (lua_push (global_require s) s) of
        Inl flt \<Rightarrow> Inl flt
      | Inr (loaded, count, s') \<Rightarrow> Inr (lua_pop 1 s'))"

text \<open>A script is for a state: it is global (tagged -1) or tagged with the bound map.\<close>

definition loads_for :: "uint32 \<Rightarrow> LuaScript \<Rightarrow> bool" where
  "loads_for boundMapId it \<longleftrightarrow> mapId it = - 1 \<or> mapId it = boundMapId"

text \<open>
  The batch in the words of the specification: what happens to the scripts of a batch is
  settled by the list alone, before anything runs. A script that is not for the state is
  left out; a script whose file name was taken earlier in the batch is a duplicate, to be
  logged with the path that took the name; every other script is to be loaded with
  \<^verbatim>\<open>require\<close> and takes its name, whether the load succeeds or not.
\<close>

datatype load_event = Require LuaScript | Duplicate LuaScript string

fun batch_events :: "uint32 \<Rightarrow> LuaScript list \<Rightarrow> (string \<rightharpoonup> string) \<Rightarrow> load_event list" where
  "batch_events boundMapId [] loaded = []"
| "batch_events boundMapId (it # rest) loaded =
     (if \<not> loads_for boundMapId it then batch_events boundMapId rest loaded
      else
        (case loaded (filename it) of
           Some path \<Rightarrow> Duplicate it path # batch_events boundMapId rest loaded
         | None \<Rightarrow>
             Require it # batch_events boundMapId rest (loaded(filename it \<mapsto> filepath it))))"

definition duplicate_message :: "LuaScript \<Rightarrow> string \<Rightarrow> string" where
  "duplicate_message it path =
     ''[Eluna]: Error loading `'' @ filepath it
     @ ''`. File with same name already loaded from `'' @ path @ ''`, rename either file''"

text \<open>
  The events run in order: a duplicate is logged as an error and nothing is called for it;
  a load is the protected call of \<^verbatim>\<open>require\<close> on the file name, counted when it
  succeeds; whatever its outcome, the events after it run. Only a fault of the process
  ends the run.
\<close>

fun run_events ::
  "lua_env \<Rightarrow> bool \<Rightarrow> load_event list \<Rightarrow> uint32 \<Rightarrow> eluna \<Rightarrow> fault + (uint32 \<times> eluna)" where
  "run_events L usetrace [] count s = Inr (count, s)"
| "run_events L usetrace (Duplicate it path # events) count s =
     run_events L usetrace events count (log_error (duplicate_message it path) s)"
| "run_events L usetrace (Require it # events) count s =
     (case ExecuteCall L usetrace 1 0 (lua_push (LString (filename it)) (lua_pushvalue (- 1) s)) of
        Inl flt \<Rightarrow> Inl flt
      | Inr (ok, s') \<Rightarrow> run_events L usetrace events (if ok then count + 1 else count) s')"

text \<open>The state after a call of \<^verbatim>\<open>require\<close> that has failed: the callee's state with
  the stack as before the call, the nesting depth taken back, the error logged and a
  collection forced.\<close>

definition after_failed_call :: "lua_env \<Rightarrow> bool \<Rightarrow> lua_value list \<Rightarrow> lua_value \<Rightarrow> eluna \<Rightarrow> eluna" where
  "after_failed_call L usetrace stk e s' =
     s'\<lparr>stack := stk, event_level := event_level s' - 1,
        error_log := error_log s' @ [tostring_value L (handled_error L usetrace s' e)],
        gc_collections := gc_collections s' + 1\<rparr>"

text \<open>A Lua side for examples: the function 7 raises the string \<open>boom\<close>, and so does
  every function called on the string \<open>broken\<close>; every other call returns the number
  1; \<^verbatim>\<open>debug.traceback\<close> puts a trace after a message.\<close>

definition example_lua :: lua_env where
  "example_lua =
     \<lparr>call = (\<lambda>f args s. if f = LFunction (LuaFunction 7) \<or> args = [LString ''broken'']
                          then Raises (LString ''boom'') s
                          else Returns [LNumber (Finite 1)] s),
      debug_traceback = (\<lambda>args. case args of
                           LString msg # rest \<Rightarrow> Inr (LString (msg @ '' (stack traceback)''))
                         | _ \<Rightarrow> Inr LNil),
      number2str = (\<lambda>d. ''a number'')\<rparr>"


text \<open>A batch for the world state: a script whose \<^verbatim>\<open>require\<close> raises, a script tagged
  for the map 559, a second script named as the first, and a script that loads.\<close>

definition example_scripts :: "LuaScript list" where
  "example_scripts =
     [\<lparr>fileext = ''lua'', filename = ''broken'', filepath = ''scripts/broken.lua'',
       modulepath = ''scripts'', mapId = - 1\<rparr>,
      \<lparr>fileext = ''lua'', filename = ''arena'', filepath = ''scripts/arena.lua'',
       modulepath = ''scripts'', mapId = 559\<rparr>,
      \<lparr>fileext = ''lua'', filename = ''broken'', filepath = ''scripts/sub/broken.lua'',
       modulepath = ''scripts/sub'', mapId = - 1\<rparr>,
      \<lparr>fileext = ''lua'', filename = ''init'', filepath = ''scripts/init.lua'',
       modulepath = ''scripts'', mapId = - 1\<rparr>]"


text \<open>The same Lua side with every function raising a table, as \<^verbatim>\<open>error({})\<close> does.\<close>

definition example_lua_raising_table :: lua_env where
  "example_lua_raising_table = example_lua\<lparr>call := (\<lambda>f args s. Raises (LTable 9) s)\<rparr>"

text \<open>What a protected call has answered, left on the stack and logged.\<close>

definition call_summary ::
  "fault + (bool \<times> eluna) \<Rightarrow> fault + (bool \<times> lua_value list \<times> string option list)" where
  "call_summary r = map_sum id (\<lambda>(ok, t). (ok, stack t, error_log t)) r"

subsection \<open>What the claim about the nesting depth speaks of\<close>

text \<open>
  How deep the protected calls under a run nest: a raised event adds one level for the
  callbacks it calls. The nesting counter has 32 bits; the runs spoken of are the ones
  whose depth it can count.
\<close>

fun depth_script :: "script \<Rightarrow> nat"
  and depth_hooks :: "hook list \<Rightarrow> nat"
  and depth_hook :: "hook \<Rightarrow> nat"
  and depth_scripts :: "script list \<Rightarrow> nat"
where
  "depth_script (Script hooks ending) = depth_hooks hooks"
| "depth_hooks [] = 0"
| "depth_hooks (h # hs) = max (depth_hook h) (depth_hooks hs)"
| "depth_hook (Hook event_id args callbacks) = Suc (depth_scripts callbacks)"
| "depth_scripts [] = 0"
| "depth_scripts (c # cs) = max (depth_script c) (depth_scripts cs)"

text \<open>A step keeps the epoch counter, the nesting depth and the stack.\<close>

definition keeps :: "eluna \<Rightarrow> eluna \<Rightarrow> bool" where
  "keeps s s' \<longleftrightarrow> callstackid s' = callstackid s \<and> event_level s' = event_level s \<and> stack s' = stack s"

text \<open>A callee returns or raises in a state that keeps the three, and does not abort.\<close>

definition callee_keeps :: "eluna \<Rightarrow> callee_result \<Rightarrow> bool" where
  "callee_keeps s r =
     (case r of Returns results s' \<Rightarrow> keeps s s' | Raises e s' \<Rightarrow> keeps s s' | Aborts flt \<Rightarrow> False)"

text \<open>An event with two callbacks: the first raises a further event, which has one
  callback, and then an error; the second returns.\<close>

definition example_hook :: hook where
  "example_hook =
     Hook 5 [LNumber (Finite 3)]
       [Script [Hook 6 [] [Script [] (Inr [])]] (Inl (LString ''boom'')),
        Script [] (Inr [LBoolean True])]"

section \<open>Properties of the numeric checks\<close>

lemma index2value_single: "index2value (s\<lparr>stack := [v]\<rparr>) 1 = Some v"
  by (simp add: index2value_def lua_gettop_def)

lemma truncate_real_bounds:
  assumes "of_int lo \<le> r" "r \<le> of_int hi"
  shows "lo \<le> truncate_real r \<and> truncate_real r \<le> hi"
proof -
  have lo: "lo \<le> \<lfloor>r\<rfloor>" using assms(1) by (simp add: le_floor_iff)
  have hi: "\<lceil>r\<rceil> \<le> hi" using assms(2) by (simp add: ceiling_le_iff)
  have "\<lfloor>r\<rfloor> \<le> hi" using floor_le_ceiling [of r] hi by (rule order_trans)
  moreover have "lo \<le> \<lceil>r\<rceil>" using lo floor_le_ceiling [of r] by (rule order_trans)
  ultimately show ?thesis using lo hi unfolding truncate_real_def by simp
qed

text \<open>
  What the signed range check does with a number: above the maximum and below the
  minimum it raises the argument error that names the bound, an infinity included; in
  between it converts by truncation.
\<close>

lemma CheckIntegerRange_above:
  assumes "luaL_checknumber cvt s narg = Value v" and "double_less (double_of_int maxv) v"
  shows "CheckIntegerRange cvt s narg minv maxv =
           ArgError narg (''value must be less than or equal to '' @ show_int maxv)"
  using assms by (simp add: CheckIntegerRange_def double_greater_def)

lemma CheckIntegerRange_below:
  assumes "luaL_checknumber cvt s narg = Value v" and "double_less v (double_of_int minv)"
    and "minv \<le> maxv"
  shows "CheckIntegerRange cvt s narg minv maxv =
           ArgError narg (''value must be greater than or equal to '' @ show_int minv)"
proof -
  have "\<not> double_less (double_of_int maxv) v"
    using assms(2,3) by (cases v) (simp_all add: double_of_int_def)
  then show ?thesis
    using assms by (simp add: CheckIntegerRange_def double_greater_def)
qed

lemma CheckIntegerRange_in_range:
  assumes "luaL_checknumber cvt s narg = Value (Finite r)"
    and "of_int minv \<le> r" and "r \<le> of_int maxv"
    and "- (2 ^ 31) \<le> minv" and "maxv \<le> 2 ^ 31 - 1"
  shows "CheckIntegerRange cvt s narg minv maxv = Value (truncate_real r)"
    and "minv \<le> truncate_real r" and "truncate_real r \<le> maxv"
proof -
  show b: "minv \<le> truncate_real r" "truncate_real r \<le> maxv"
    using truncate_real_bounds [OF assms(2,3)] by simp_all
  then show "CheckIntegerRange cvt s narg minv maxv = Value (truncate_real r)"
    using assms
    by (simp add: CheckIntegerRange_def double_greater_def double_of_int_def static_cast_int_def)
qed

lemma CheckIntegerRange_infinite:
  assumes "luaL_checknumber cvt s narg = Value v" and "v = PosInf \<or> v = NegInf"
  shows "\<exists>msg. CheckIntegerRange cvt s narg minv maxv = ArgError narg msg"
  using assms by (auto simp: CheckIntegerRange_def double_greater_def double_of_int_def)

text \<open>The same for the unsigned range check, whose minimum is 0.\<close>

lemma CheckUnsignedRange_below:
  assumes "luaL_checknumber cvt s narg = Value v" and "double_less v (double_of_int 0)"
  shows "CheckUnsignedRange cvt s narg maxv = ArgError narg ''value must be greater than or equal to 0''"
  using assms by (simp add: CheckUnsignedRange_def)

lemma CheckUnsignedRange_above:
  assumes "luaL_checknumber cvt s narg = Value v" and "double_less (double_of_int maxv) v"
    and "0 \<le> maxv"
  shows "CheckUnsignedRange cvt s narg maxv =
           ArgError narg (''value must be less than or equal to '' @ show_nat (nat maxv))"
proof -
  have "\<not> double_less v (double_of_int 0)"
    using assms(2,3) by (cases v) (simp_all add: double_of_int_def)
  then show ?thesis
    using assms by (simp add: CheckUnsignedRange_def double_greater_def)
qed

lemma CheckUnsignedRange_in_range:
  assumes "luaL_checknumber cvt s narg = Value (Finite r)"
    and "0 \<le> r" and "r \<le> of_int maxv" and "maxv \<le> 2 ^ 32 - 1"
  shows "CheckUnsignedRange cvt s narg maxv = Value (truncate_real r)"
    and "0 \<le> truncate_real r" and "truncate_real r \<le> maxv"
proof -
  have "of_int 0 \<le> r" using assms(2) by simp
  from truncate_real_bounds [OF this assms(3)]
  show b: "0 \<le> truncate_real r" "truncate_real r \<le> maxv" by simp_all
  then show "CheckUnsignedRange cvt s narg maxv = Value (truncate_real r)"
    using assms
    by (simp add: CheckUnsignedRange_def double_greater_def double_of_int_def static_cast_unsigned_def)
qed

lemma CheckUnsignedRange_infinite:
  assumes "luaL_checknumber cvt s narg = Value v" and "v = PosInf \<or> v = NegInf"
  shows "\<exists>msg. CheckUnsignedRange cvt s narg maxv = ArgError narg msg"
  using assms by (auto simp: CheckUnsignedRange_def double_greater_def double_of_int_def)

text \<open>\<^verbatim>\<open>CHECKVAL<unsigned char>\<close> at the ends of its range and just outside.\<close>

lemma CHECKVAL_unsigned_char_0:
  "CHECKVAL_unsigned_char cvt (s\<lparr>stack := [LNumber (Finite 0)]\<rparr>) 1 = Value 0"
  by (simp add: CHECKVAL_unsigned_char_def CheckUnsignedRange_def luaL_checknumber_def
      index2value_single double_greater_def double_of_int_def static_cast_unsigned_def
      truncate_real_def)

lemma CHECKVAL_unsigned_char_255:
  "CHECKVAL_unsigned_char cvt (s\<lparr>stack := [LNumber (Finite 255)]\<rparr>) 1 = Value 255"
  by (simp add: CHECKVAL_unsigned_char_def CheckUnsignedRange_def luaL_checknumber_def
      index2value_single double_greater_def double_of_int_def static_cast_unsigned_def
      truncate_real_def)

lemma CHECKVAL_unsigned_char_256:
  "CHECKVAL_unsigned_char cvt (s\<lparr>stack := [LNumber (Finite 256)]\<rparr>) 1 =
     ArgError 1 ''value must be less than or equal to 255''"
  by (simp add: CHECKVAL_unsigned_char_def CheckUnsignedRange_def luaL_checknumber_def
      index2value_single double_greater_def double_of_int_def show_nat.simps digit_char_def)

lemma CHECKVAL_unsigned_char_minus_1:
  "CHECKVAL_unsigned_char cvt (s\<lparr>stack := [LNumber (Finite (- 1))]\<rparr>) 1 =
     ArgError 1 ''value must be greater than or equal to 0''"
  by (simp add: CHECKVAL_unsigned_char_def CheckUnsignedRange_def luaL_checknumber_def
      index2value_single double_of_int_def)

text \<open>
  Claim C3. Every integer specialisation of \<^verbatim>\<open>CHECKVAL\<close> is to raise an argument
  error for a value that is not finite. A NaN passes both comparisons of the range check
  (each is false), so no argument error is raised and the check goes on to convert the
  NaN to the integer type, which is undefined: the six specialisations evaluated on the
  argument NaN.
\<close>

theorem CHECKVAL_NaN_passes_range_check:
  "CHECKVAL_signed_char cvt (s\<lparr>stack := [LNumber NaN]\<rparr>) 1 = Faulty UndefinedConversion
   \<and> CHECKVAL_unsigned_char cvt (s\<lparr>stack := [LNumber NaN]\<rparr>) 1 = Faulty UndefinedConversion
   \<and> CHECKVAL_short cvt (s\<lparr>stack := [LNumber NaN]\<rparr>) 1 = Faulty UndefinedConversion
   \<and> CHECKVAL_unsigned_short cvt (s\<lparr>stack := [LNumber NaN]\<rparr>) 1 = Faulty UndefinedConversion
   \<and> CHECKVAL_int cvt (s\<lparr>stack := [LNumber NaN]\<rparr>) 1 = Faulty UndefinedConversion
   \<and> CHECKVAL_unsigned_int cvt (s\<lparr>stack := [LNumber NaN]\<rparr>) 1 = Faulty UndefinedConversion"
  by (simp add: CHECKVAL_signed_char_def CHECKVAL_unsigned_char_def CHECKVAL_short_def
      CHECKVAL_unsigned_short_def CHECKVAL_int_def CHECKVAL_unsigned_int_def
      CheckIntegerRange_def CheckUnsignedRange_def luaL_checknumber_def index2value_single
      double_greater_def double_of_int_def static_cast_int_def static_cast_unsigned_def)

section \<open>Arguments with a default\<close>

text \<open>
  Claim C10. For every target type, \<^verbatim>\<open>CHECKVAL<T>(narg, def)\<close> returns \<open>def\<close> when
  the argument at \<open>narg\<close> is absent or nil, whatever the validating check would say, and
  raises nothing; an argument that is present and not nil goes to the one-argument
  \<^verbatim>\<open>CHECKVAL<T>(narg)\<close>, whose result is returned.
\<close>

theorem CHECKVAL_default_absent_or_nil:
  "(index2value s narg = None \<or> index2value s narg = Some LNil
      \<longrightarrow> CHECKVAL_default check s narg def = Value def)
   \<and> (\<forall>v. index2value s narg = Some v \<and> v \<noteq> LNil
      \<longrightarrow> CHECKVAL_default check s narg def = check s narg)"
  by (auto simp: CHECKVAL_default_def lua_isnoneornil_def)

theorem CHECKVAL_default_absent_or_nil_witness:
  "CHECKVAL_default (CHECKVAL_unsigned_char (\<lambda>str. None))
      (fresh_eluna\<lparr>stack := [LNil, LNumber (Finite 300)]\<rparr>) 1 7 = Value 7
   \<and> CHECKVAL_default (CHECKVAL_unsigned_char (\<lambda>str. None))
      (fresh_eluna\<lparr>stack := [LNil, LNumber (Finite 300)]\<rparr>) 3 7 = Value 7
   \<and> CHECKVAL_default (CHECKVAL_unsigned_char (\<lambda>str. None))
      (fresh_eluna\<lparr>stack := [LNil, LNumber (Finite 300)]\<rparr>) 2 7 =
        ArgError 2 ''value must be less than or equal to 255''"
proof -
  let ?s = "fresh_eluna\<lparr>stack := [LNil, LNumber (Finite 300)]\<rparr>"
  let ?check = "CHECKVAL_unsigned_char (\<lambda>str. None)"
  have nil: "index2value ?s 1 = Some LNil"
    and absent: "index2value ?s 3 = None"
    and present: "index2value ?s 2 = Some (LNumber (Finite 300))"
    by (simp_all add: index2value_def lua_gettop_def)
  have "?check ?s 2 = ArgError 2 ''value must be less than or equal to 255''"
    by (simp add: CHECKVAL_unsigned_char_def CheckUnsignedRange_def luaL_checknumber_def
        present double_greater_def double_of_int_def show_nat.simps digit_char_def)
  then show ?thesis
    using CHECKVAL_default_absent_or_nil [of ?s 1 ?check 7]
      CHECKVAL_default_absent_or_nil [of ?s 3 ?check 7]
      CHECKVAL_default_absent_or_nil [of ?s 2 ?check 7]
    by (simp add: nil absent present)
qed

section \<open>Properties of the instance data stores\<close>

lemma luaL_ref_table:
  assumes wf: "registry_wf (registry s)" and top: "index2value s (- 1) = Some (LTable t)"
    and ref: "luaL_ref s = (ref, s')"
  shows "slots (registry s) ref = None" and "0 < ref"
    and "slots (registry s') = (slots (registry s))(ref \<mapsto> LTable t)"
    and "registry_wf (registry s')"
    and "s' = (lua_pop 1 s)\<lparr>registry := registry s'\<rparr>"
proof -
  show "slots (registry s) ref = None" "0 < ref"
    using wf top ref unfolding luaL_ref_def registry_wf_def
    by (auto split: list.splits)
  show "slots (registry s') = (slots (registry s))(ref \<mapsto> LTable t)"
    using top ref unfolding luaL_ref_def by (auto split: list.splits)
  show "s' = (lua_pop 1 s)\<lparr>registry := registry s'\<rparr>"
    using top ref unfolding luaL_ref_def by (auto split: list.splits)
  show "registry_wf (registry s')"
    using wf top ref unfolding luaL_ref_def registry_wf_def
    by (auto split: list.splits if_splits) force
qed

lemma unref_live:
  assumes wf: "registry_wf r" and live: "slots r old \<noteq> None"
  shows "slots (unref old r) = (slots r)(old := None)" and "registry_wf (unref old r)"
proof -
  have pos: "0 < old" using wf live unfolding registry_wf_def by blast
  then show "slots (unref old r) = (slots r)(old := None)" by (simp add: unref_def)
  show "registry_wf (unref old r)"
    using wf live pos unfolding registry_wf_def unref_def by auto
qed


lemma lua_pop_fields [simp]:
  "registry (lua_pop n s) = registry s"
  "instanceDataRefs (lua_pop n s) = instanceDataRefs s"
  "continentDataRefs (lua_pop n s) = continentDataRefs s"
  "bindingMaps (lua_pop n s) = bindingMaps s"
  "event_level (lua_pop n s) = event_level s"
  "callstackid (lua_pop n s) = callstackid s"
  "error_log (lua_pop n s) = error_log s"
  by (simp_all add: lua_pop_def)

lemma luaL_unref_fields [simp]:
  "stack (luaL_unref r s) = stack s"
  "instanceDataRefs (luaL_unref r s) = instanceDataRefs s"
  "continentDataRefs (luaL_unref r s) = continentDataRefs s"
  "bindingMaps (luaL_unref r s) = bindingMaps s"
  "registry (luaL_unref r s) = unref r (registry s)"
  by (simp_all add: luaL_unref_def)

lemma HasInstanceData_data_ref: "HasInstanceData m s \<longleftrightarrow> data_ref m s \<noteq> None"
  by (simp add: HasInstanceData_def data_ref_def)

lemma CreateInstanceData_eq:
  assumes "index2value s (- 1) = Some (LTable t)" and "luaL_ref s = (ref, s1)"
  shows "CreateInstanceData m s =
     Inr (store_data_ref m ref
           (case data_ref m s1 of Some old \<Rightarrow> luaL_unref old s1 | None \<Rightarrow> s1))"
  using assms
  by (auto simp: CreateInstanceData_def lua_istable_def store_data_ref_def data_ref_def Let_def
      split: option.splits)


lemma data_ref_store_data_ref:
  "data_ref m' (store_data_ref m ref s) = (if same_data_id m m' then Some ref else data_ref m' s)"
  by (auto simp: data_ref_def store_data_ref_def same_data_id_def)

lemma registry_store_data_ref [simp]: "registry (store_data_ref m ref s) = registry s"
  by (simp add: store_data_ref_def)

lemma data_ref_cong:
  "instanceDataRefs s' = instanceDataRefs s \<Longrightarrow> continentDataRefs s' = continentDataRefs s
     \<Longrightarrow> data_ref m s' = data_ref m s"
  by (simp add: data_ref_def)

text \<open>
  Claim C8. Each map id of a map that is not instanceable, and each instance id, has at
  most one live reference to an instance data table: \<^verbatim>\<open>CreateInstanceData\<close> stores
  the new reference (to the table on top of the stack) under the map's id, the reference
  stored before under that id is released, the other ids keep theirs, and the invariant
  of the stores is kept; \<^verbatim>\<open>HasInstanceData\<close> is true iff a reference is stored for
  the map's id.
\<close>

theorem CreateInstanceData_one_reference_per_id:
  assumes ok: "instance_data_ok s" and top: "index2value s (- 1) = Some (LTable t)"
  shows "\<exists>ref s'. CreateInstanceData m s = Inr s'
     \<and> data_ref m s' = Some ref
     \<and> slots (registry s) ref = None
     \<and> slots (registry s') ref = Some (LTable t)
     \<and> (\<forall>old. data_ref m s = Some old \<longrightarrow> slots (registry s') old = None)
     \<and> (\<forall>m'. \<not> same_data_id m m' \<longrightarrow> data_ref m' s' = data_ref m' s)
     \<and> (\<forall>m'. HasInstanceData m' s' \<longleftrightarrow> data_ref m' s' \<noteq> None)
     \<and> HasInstanceData m s'
     \<and> instance_data_ok s'"
proof -
  obtain ref s1 where ref: "luaL_ref s = (ref, s1)" by (cases "luaL_ref s")
  have wf: "registry_wf (registry s)" using ok by (simp add: instance_data_ok_def)
  note r = luaL_ref_table [OF wf top ref]
  have s1: "instanceDataRefs s1 = instanceDataRefs s" "continentDataRefs s1 = continentDataRefs s"
    by (subst r(5), simp)+
  have d1: "data_ref m' s1 = data_ref m' s" for m'
    using s1 by (rule data_ref_cong)
  define s2 where "s2 = (case data_ref m s1 of Some old \<Rightarrow> luaL_unref old s1 | None \<Rightarrow> s1)"
  define s' where "s' = store_data_ref m ref s2"
  have res: "CreateInstanceData m s = Inr s'"
    unfolding s'_def s2_def by (rule CreateInstanceData_eq [OF top ref])
  have d2: "data_ref m' s2 = data_ref m' s" for m'
    unfolding s2_def using d1 [of m'] by (auto simp: data_ref_def split: option.splits)
  have live: "slots (registry s) old \<noteq> None" if "data_ref m' s = Some old" for m' old
    using ok that unfolding instance_data_ok_def by blast
  have fresh: "old \<noteq> ref" if "data_ref m' s = Some old" for m' old
    using live [OF that] r(1) by auto
  have reg2: "slots (registry s2) =
      (case data_ref m s of Some old \<Rightarrow> (slots (registry s1))(old := None) | None \<Rightarrow> slots (registry s1))"
    and wf2: "registry_wf (registry s2)"
  proof -
    show "slots (registry s2) =
      (case data_ref m s of Some old \<Rightarrow> (slots (registry s1))(old := None) | None \<Rightarrow> slots (registry s1))"
    proof (cases "data_ref m s")
      case None
      then show ?thesis by (simp add: s2_def d1)
    next
      case (Some old)
      have "slots (registry s1) old \<noteq> None"
        using live [OF Some] fresh [OF Some] by (simp add: r(3))
      from unref_live(1) [OF r(4) this] show ?thesis by (simp add: s2_def d1 Some)
    qed
    show "registry_wf (registry s2)"
    proof (cases "data_ref m s")
      case None
      then show ?thesis using r(4) by (simp add: s2_def d1)
    next
      case (Some old)
      have "slots (registry s1) old \<noteq> None"
        using live [OF Some] fresh [OF Some] by (simp add: r(3))
      from unref_live(2) [OF r(4) this] show ?thesis by (simp add: s2_def d1 Some)
    qed
  qed
  have new: "slots (registry s') ref = Some (LTable t)"
    using fresh [of m] by (auto simp: s'_def reg2 r(3) split: option.splits)
  have released: "slots (registry s') old = None" if "data_ref m s = Some old" for old
    using that by (simp add: s'_def reg2)
  have others: "data_ref m' s' = data_ref m' s" if "\<not> same_data_id m m'" for m'
    using that by (simp add: s'_def data_ref_store_data_ref d2)
  have stored: "data_ref m s' = Some ref"
    by (simp add: s'_def data_ref_store_data_ref same_data_id_def)
  have ok': "instance_data_ok s'"
    unfolding instance_data_ok_def
  proof (intro conjI allI impI)
    show "registry_wf (registry s')" using wf2 by (simp add: s'_def)
  next
    fix m' q assume a: "data_ref m' s' = Some q"
    show "slots (registry s') q \<noteq> None"
    proof (cases "same_data_id m m'")
      case True
      then have "q = ref" using a by (simp add: s'_def data_ref_store_data_ref)
      then show ?thesis using new by simp
    next
      case False
      then have q: "data_ref m' s = Some q" using a others by simp
      have "q \<noteq> ref" using fresh [OF q] .
      moreover have "q \<noteq> old" if "data_ref m s = Some old" for old
        using ok q that False unfolding instance_data_ok_def by blast
      ultimately show ?thesis
        using live [OF q] by (auto simp: s'_def reg2 r(3) split: option.splits)
    qed
  next
    fix m1 m2 q assume a: "data_ref m1 s' = Some q \<and> data_ref m2 s' = Some q"
    show "same_data_id m1 m2"
    proof (cases "same_data_id m m1"; cases "same_data_id m m2")
      assume "same_data_id m m1" "same_data_id m m2"
      then show ?thesis by (auto simp: same_data_id_def split: if_splits)
    next
      assume t: "same_data_id m m1" and f: "\<not> same_data_id m m2"
      then have "q = ref" "data_ref m2 s = Some q"
        using a others by (simp_all add: s'_def data_ref_store_data_ref d2)
      then show ?thesis using fresh by blast
    next
      assume f: "\<not> same_data_id m m1" and t: "same_data_id m m2"
      then have "q = ref" "data_ref m1 s = Some q"
        using a others by (simp_all add: s'_def data_ref_store_data_ref d2)
      then show ?thesis using fresh by blast
    next
      assume "\<not> same_data_id m m1" "\<not> same_data_id m m2"
      then have "data_ref m1 s = Some q \<and> data_ref m2 s = Some q" using a others by simp
      then show ?thesis using ok unfolding instance_data_ok_def by blast
    qed
  qed
  show ?thesis
    using res stored r(1) new released others ok'
    by (auto simp: HasInstanceData_data_ref)
qed


theorem CreateInstanceData_one_reference_per_id_witness:
  "instance_data_ok
     (fresh_eluna\<lparr>stack := [LTable 7],
        registry := \<lparr>slots = [1 \<mapsto> LTable 3], freelist = [], objlen = 1\<rparr>,
        instanceDataRefs := [5 \<mapsto> 1]\<rparr>)
   \<and> index2value
     (fresh_eluna\<lparr>stack := [LTable 7],
        registry := \<lparr>slots = [1 \<mapsto> LTable 3], freelist = [], objlen = 1\<rparr>,
        instanceDataRefs := [5 \<mapsto> 1]\<rparr>) (- 1) = Some (LTable 7)
   \<and> (\<exists>ref s'. CreateInstanceData \<lparr>Instanceable = True, GetId = 33, GetInstanceId = 5\<rparr>
     (fresh_eluna\<lparr>stack := [LTable 7],
        registry := \<lparr>slots = [1 \<mapsto> LTable 3], freelist = [], objlen = 1\<rparr>,
        instanceDataRefs := [5 \<mapsto> 1]\<rparr>) = Inr s'
       \<and> instanceDataRefs s' 5 = Some ref
       \<and> slots (registry s') ref = Some (LTable 7)
       \<and> slots (registry s') 1 = None
       \<and> HasInstanceData \<lparr>Instanceable = True, GetId = 33, GetInstanceId = 5\<rparr> s'
       \<and> instance_data_ok s')"
proof -
  let ?s = "fresh_eluna\<lparr>stack := [LTable 7],
        registry := \<lparr>slots = [1 \<mapsto> LTable 3], freelist = [], objlen = 1\<rparr>,
        instanceDataRefs := [5 \<mapsto> 1]\<rparr>"
  let ?m = "\<lparr>Instanceable = True, GetId = 33, GetInstanceId = 5\<rparr>"
  have ok: "instance_data_ok ?s"
    by (auto simp: instance_data_ok_def registry_wf_def data_ref_def same_data_id_def
        fresh_eluna_def split: if_splits)
  have top: "index2value ?s (- 1) = Some (LTable 7)"
    by (simp add: index2value_def lua_gettop_def)
  have old: "data_ref ?m ?s = Some 1"
    by (simp add: data_ref_def)
  from CreateInstanceData_one_reference_per_id [OF ok top, of ?m]
  obtain ref s' where "CreateInstanceData ?m ?s = Inr s'" "data_ref ?m s' = Some ref"
    "slots (registry s') ref = Some (LTable 7)"
    "\<forall>old. data_ref ?m ?s = Some old \<longrightarrow> slots (registry s') old = None"
    "HasInstanceData ?m s'" "instance_data_ok s'"
    by blast
  then have "CreateInstanceData ?m ?s = Inr s' \<and> instanceDataRefs s' 5 = Some ref
      \<and> slots (registry s') ref = Some (LTable 7) \<and> slots (registry s') 1 = None
      \<and> HasInstanceData ?m s' \<and> instance_data_ok s'"
    using old by (simp add: data_ref_def)
  then show ?thesis using ok top by blast
qed


section \<open>Freeing an instance id\<close>









lemma bindingMaps_CreateBindStores:
  "bindingMaps (CreateBindStores s) regtype =
     (case regtype of REGTYPE_OTHER n \<Rightarrow> None | _ \<Rightarrow> Some new_BindingMap)"
  by (cases regtype) (simp_all add: CreateBindStores_def CreateBinding_def DestroyBindStores_def)

lemma CreateBindStores_fields [simp]:
  "registry (CreateBindStores s) = registry s"
  "instanceDataRefs (CreateBindStores s) = instanceDataRefs s"
  "continentDataRefs (CreateBindStores s) = continentDataRefs s"
  "stack (CreateBindStores s) = stack s"
  by (simp_all add: CreateBindStores_def CreateBinding_def DestroyBindStores_def)


section \<open>Properties of pushing and checking objects\<close>

lemma Push_T_Some:
  "Push_T tname (Some obj) s = lua_push (wrapper tname obj s) s"
  by (simp add: Push_T_def ElunaTemplate_Push_def wrapper_def)

text \<open>
  Claim C5. A null pointer pushes nil. \<^verbatim>\<open>Push(Unit*)\<close> pushes the \<^verbatim>\<open>Creature\<close>
  wrapper for the type tag \<^verbatim>\<open>TYPEID_UNIT\<close>, the \<^verbatim>\<open>Player\<close> wrapper for
  \<^verbatim>\<open>TYPEID_PLAYER\<close> and the \<^verbatim>\<open>Unit\<close> wrapper for every other tag;
  \<^verbatim>\<open>Push(WorldObject*)\<close> and \<^verbatim>\<open>Push(Object*)\<close> push the \<^verbatim>\<open>Creature\<close>,
  \<^verbatim>\<open>Player\<close>, \<^verbatim>\<open>GameObject\<close> or \<^verbatim>\<open>Corpse\<close> wrapper by the tag and the wrapper of
  their own type otherwise; a \<^verbatim>\<open>Pet\<close> and a \<^verbatim>\<open>TempSummon\<close> are pushed as
  \<^verbatim>\<open>Creature\<close> wrappers.
\<close>

theorem Push_resolves_most_derived_wrapper:
  "Push_Unit None s = lua_push LNil s
   \<and> Push_WorldObject None s = lua_push LNil s
   \<and> Push_Object None s = lua_push LNil s
   \<and> Push_Pet None s = lua_push LNil s
   \<and> Push_TempSummon None s = lua_push LNil s
   \<and> Push_Unit (Some obj) s =
        lua_push (wrapper (if GetTypeId obj = TYPEID_UNIT then ''Creature''
                           else if GetTypeId obj = TYPEID_PLAYER then ''Player''
                           else ''Unit'') obj s) s
   \<and> Push_WorldObject (Some obj) s =
        lua_push (wrapper (if GetTypeId obj = TYPEID_UNIT then ''Creature''
                           else if GetTypeId obj = TYPEID_PLAYER then ''Player''
                           else if GetTypeId obj = TYPEID_GAMEOBJECT then ''GameObject''
                           else if GetTypeId obj = TYPEID_CORPSE then ''Corpse''
                           else ''WorldObject'') obj s) s
   \<and> Push_Object (Some obj) s =
        lua_push (wrapper (if GetTypeId obj = TYPEID_UNIT then ''Creature''
                           else if GetTypeId obj = TYPEID_PLAYER then ''Player''
                           else if GetTypeId obj = TYPEID_GAMEOBJECT then ''GameObject''
                           else if GetTypeId obj = TYPEID_CORPSE then ''Corpse''
                           else ''Object'') obj s) s
   \<and> Push_Pet (Some obj) s = lua_push (wrapper ''Creature'' obj s) s
   \<and> Push_TempSummon (Some obj) s = lua_push (wrapper ''Creature'' obj s) s"
proof -
  have nil: "Push_Unit None s = lua_push LNil s" "Push_WorldObject None s = lua_push LNil s"
    "Push_Object None s = lua_push LNil s" "Push_Pet None s = lua_push LNil s"
    "Push_TempSummon None s = lua_push LNil s"
    by (simp_all add: Push_Unit_def Push_WorldObject_def Push_Object_def Push_Pet_def
        Push_TempSummon_def Push_nil_def Push_T_def ElunaTemplate_Push_def)
  have unit: "Push_Unit (Some obj) s =
        lua_push (wrapper (if GetTypeId obj = TYPEID_UNIT then ''Creature''
                           else if GetTypeId obj = TYPEID_PLAYER then ''Player''
                           else ''Unit'') obj s) s"
    by (cases "GetTypeId obj")
      (simp_all add: Push_Unit_def Push_T_Some ToCreature_def ToPlayer_def
        ElunaTemplate_Push_def wrapper_def)
  have world: "Push_WorldObject (Some obj) s =
        lua_push (wrapper (if GetTypeId obj = TYPEID_UNIT then ''Creature''
                           else if GetTypeId obj = TYPEID_PLAYER then ''Player''
                           else if GetTypeId obj = TYPEID_GAMEOBJECT then ''GameObject''
                           else if GetTypeId obj = TYPEID_CORPSE then ''Corpse''
                           else ''WorldObject'') obj s) s"
    by (cases "GetTypeId obj")
      (simp_all add: Push_WorldObject_def Push_T_Some ToCreature_def ToPlayer_def
        ToGameObject_def ToCorpse_def ElunaTemplate_Push_def wrapper_def)
  have object: "Push_Object (Some obj) s =
        lua_push (wrapper (if GetTypeId obj = TYPEID_UNIT then ''Creature''
                           else if GetTypeId obj = TYPEID_PLAYER then ''Player''
                           else if GetTypeId obj = TYPEID_GAMEOBJECT then ''GameObject''
                           else if GetTypeId obj = TYPEID_CORPSE then ''Corpse''
                           else ''Object'') obj s) s"
    by (cases "GetTypeId obj")
      (simp_all add: Push_Object_def Push_T_Some ToCreature_def ToPlayer_def
        ToGameObject_def ToCorpse_def ElunaTemplate_Push_def wrapper_def)
  have pet: "Push_Pet (Some obj) s = lua_push (wrapper ''Creature'' obj s) s"
    "Push_TempSummon (Some obj) s = lua_push (wrapper ''Creature'' obj s) s"
    by (simp_all add: Push_Pet_def Push_TempSummon_def Push_T_Some)
  show ?thesis
    using nil unit world object pet by simp
qed

lemma ElunaTemplate_Check_answer:
  "ElunaTemplate_Check invalid tname s narg error = chain_answer invalid [tname] s narg error"
proof (cases "index2value s narg")
  case None
  then show ?thesis
    by (simp add: ElunaTemplate_Check_def CHECKTYPE_def chain_answer_def lua_islightuserdata_def
        lua_touserdata_def)
next
  case (Some v)
  then show ?thesis
    by (cases v)
      (simp_all add: ElunaTemplate_Check_def CHECKTYPE_def chain_answer_def
        lua_islightuserdata_def lua_touserdata_def)
qed

lemma chain_answer_Cons:
  assumes "rest \<noteq> []"
  shows "chain_answer invalid (tname # rest) s narg error =
     (case chain_answer invalid [tname] s narg False of
        Value None \<Rightarrow> chain_answer invalid rest s narg error
      | r \<Rightarrow> r)"
proof (cases "index2value s narg")
  case None
  then show ?thesis using assms by (simp add: chain_answer_def)
next
  case (Some v)
  then show ?thesis using assms by (cases v) (auto simp: chain_answer_def)
qed

lemma check_chain_answer:
  "names \<noteq> [] \<Longrightarrow> check_chain invalid names s narg error = chain_answer invalid names s narg error"
proof (induction invalid names s narg error rule: check_chain.induct)
  case (1 invalid s narg error)
  then show ?case by simp
next
  case (2 invalid tname s narg error)
  then show ?case by (simp add: ElunaTemplate_Check_answer)
next
  case (3 invalid tname v va s narg error)
  then show ?case
    by (simp add: ElunaTemplate_Check_answer chain_answer_Cons [of "v # va"]
        split: lua_result.splits option.splits)
qed


lemma check_chain_append:
  "ys \<noteq> [] \<Longrightarrow> check_chain invalid (xs @ ys) s narg error =
     (case check_chain invalid xs s narg False of
        Value None \<Rightarrow> check_chain invalid ys s narg error
      | r \<Rightarrow> r)"
proof (induction xs)
  case Nil
  then show ?case by simp
next
  case (Cons x xs)
  show ?case
  proof (cases xs)
    case Nil
    then show ?thesis using Cons.prems
      by (cases ys) (simp_all split: lua_result.splits option.splits)
  next
    case (Cons x' xs')
    then show ?thesis
      using Cons.IH [OF Cons.prems]
      by (simp split: lua_result.splits option.splits)
  qed
qed

lemma check_chain_2:
  "check_chain invalid [a, b] s narg e =
     (case ElunaTemplate_Check invalid a s narg False of
        Value None \<Rightarrow> ElunaTemplate_Check invalid b s narg e
      | r \<Rightarrow> r)"
  by (simp split: lua_result.splits option.splits)

lemma check_chain_3:
  "check_chain invalid [a, b, c] s narg e =
     (case ElunaTemplate_Check invalid a s narg False of
        Value None \<Rightarrow>
          (case ElunaTemplate_Check invalid b s narg False of
             Value None \<Rightarrow> ElunaTemplate_Check invalid c s narg e
           | r \<Rightarrow> r)
      | r \<Rightarrow> r)"
  by (simp split: lua_result.splits option.splits)

text \<open>
  Claim C4. Every object check tries a fixed chain of wrapper types, the most specific
  first: \<^verbatim>\<open>CHECKOBJ<Unit>\<close> tries \<^verbatim>\<open>Player\<close>, \<^verbatim>\<open>Creature\<close> and then
  \<^verbatim>\<open>Unit\<close>; \<^verbatim>\<open>CHECKOBJ<WorldObject>\<close> tries the chain of \<^verbatim>\<open>Unit\<close>, then
  \<^verbatim>\<open>GameObject\<close>, \<^verbatim>\<open>Corpse\<close> and \<^verbatim>\<open>WorldObject\<close>; \<^verbatim>\<open>CHECKOBJ<Object>\<close> tries
  the chain of \<^verbatim>\<open>WorldObject\<close>, then \<^verbatim>\<open>Item\<close> and \<^verbatim>\<open>Object\<close>. The answer of a
  chain (\<open>chain_answer\<close>): the wrapped object when the argument is a valid handle (its
  stamp is the current epoch) of one of the chain's wrapper types. When the argument's
  type is none of the chain's and the caller asks for errors, the argument error of the
  type mismatch, which names the last type of the chain as the expected one and the
  argument's type as the actual one (for a light userdata: userdata expected, got
  lightuserdata). A stale handle is never answered with its object: it fails as the
  handles of a type outside the chain do, or as invalid when its type is the last of the
  chain. Null when the caller does not ask for errors.
\<close>

theorem CHECKOBJ_tries_fixed_chain:
  "CHECKOBJ_Unit invalid s narg error
     = check_chain invalid [''Player'', ''Creature'', ''Unit''] s narg error
   \<and> CHECKOBJ_WorldObject invalid s narg error =
       check_chain invalid
         [''Player'', ''Creature'', ''Unit'', ''GameObject'', ''Corpse'', ''WorldObject'']
         s narg error
   \<and> CHECKOBJ_Object invalid s narg error =
       check_chain invalid
         [''Player'', ''Creature'', ''Unit'', ''GameObject'', ''Corpse'', ''WorldObject'',
          ''Item'', ''Object''] s narg error
   \<and> CHECKOBJ_Unit invalid s narg error
     = chain_answer invalid [''Player'', ''Creature'', ''Unit''] s narg error
   \<and> CHECKOBJ_WorldObject invalid s narg error =
       chain_answer invalid
         [''Player'', ''Creature'', ''Unit'', ''GameObject'', ''Corpse'', ''WorldObject'']
         s narg error
   \<and> CHECKOBJ_Object invalid s narg error =
       chain_answer invalid
         [''Player'', ''Creature'', ''Unit'', ''GameObject'', ''Corpse'', ''WorldObject'',
          ''Item'', ''Object''] s narg error"
proof -
  have unit: "CHECKOBJ_Unit invalid s narg e
      = check_chain invalid [''Player'', ''Creature'', ''Unit''] s narg e" for e
    unfolding CHECKOBJ_Unit_def CHECKOBJ_T_def check_chain_3 by (rule refl)
  have w1: "CHECKOBJ_WorldObject invalid s narg e =
      (case check_chain invalid [''Player'', ''Creature'', ''Unit''] s narg False of
         Value None \<Rightarrow> check_chain invalid [''GameObject'', ''Corpse'', ''WorldObject''] s narg e
       | r \<Rightarrow> r)" for e
    unfolding CHECKOBJ_WorldObject_def unit CHECKOBJ_T_def
      check_chain_3 [of invalid "''GameObject''" "''Corpse''" "''WorldObject''"]
    by (rule refl)
  have w2: "(case check_chain invalid [''Player'', ''Creature'', ''Unit''] s narg False of
         Value None \<Rightarrow> check_chain invalid [''GameObject'', ''Corpse'', ''WorldObject''] s narg e
       | r \<Rightarrow> r) =
       check_chain invalid
         ([''Player'', ''Creature'', ''Unit''] @ [''GameObject'', ''Corpse'', ''WorldObject''])
         s narg e" for e
    by (rule check_chain_append [symmetric]) simp
  have world: "CHECKOBJ_WorldObject invalid s narg e =
       check_chain invalid
         [''Player'', ''Creature'', ''Unit'', ''GameObject'', ''Corpse'', ''WorldObject'']
         s narg e" for e
    using w1 [of e] w2 [of e] by (simp only: append.simps)
  have "CHECKOBJ_Object invalid s narg error =
      (case check_chain invalid
              [''Player'', ''Creature'', ''Unit'', ''GameObject'', ''Corpse'', ''WorldObject'']
              s narg False of
         Value None \<Rightarrow> check_chain invalid [''Item'', ''Object''] s narg error
       | r \<Rightarrow> r)"
    unfolding CHECKOBJ_Object_def world CHECKOBJ_T_def
      check_chain_2 [of invalid "''Item''" "''Object''"]
    by (rule refl)
  also have "\<dots> =
       check_chain invalid
         ([''Player'', ''Creature'', ''Unit'', ''GameObject'', ''Corpse'', ''WorldObject'']
          @ [''Item'', ''Object'']) s narg error"
    by (rule check_chain_append [symmetric]) simp
  finally have object: "CHECKOBJ_Object invalid s narg error =
       check_chain invalid
         [''Player'', ''Creature'', ''Unit'', ''GameObject'', ''Corpse'', ''WorldObject'',
          ''Item'', ''Object''] s narg error"
    by (simp only: append.simps)
  have "CHECKOBJ_Unit invalid s narg error
      = chain_answer invalid [''Player'', ''Creature'', ''Unit''] s narg error"
    unfolding unit by (rule check_chain_answer) simp
  moreover have "CHECKOBJ_WorldObject invalid s narg error =
       chain_answer invalid
         [''Player'', ''Creature'', ''Unit'', ''GameObject'', ''Corpse'', ''WorldObject'']
         s narg error"
    unfolding world by (rule check_chain_answer) simp
  moreover have "CHECKOBJ_Object invalid s narg error =
       chain_answer invalid
         [''Player'', ''Creature'', ''Unit'', ''GameObject'', ''Corpse'', ''WorldObject'',
          ''Item'', ''Object''] s narg error"
    unfolding object by (rule check_chain_answer) simp
  ultimately show ?thesis
    using unit [of error] world [of error] object by blast
qed

lemma fresh_eluna_epoch: "callstackid (fresh_eluna\<lparr>stack := st\<rparr>) = 2"
  by (simp add: fresh_eluna_def)

text \<open>The chain of \<^verbatim>\<open>CHECKOBJ<Unit>\<close> in the epoch 2: on a \<^verbatim>\<open>Creature\<close> handle
  stamped 2, on an \<^verbatim>\<open>Item\<close> handle, on a number, and on handles of the epoch 1, a
  \<^verbatim>\<open>Creature\<close> and a \<^verbatim>\<open>Unit\<close>.\<close>

lemma CHECKOBJ_Unit_examples:
  "CHECKOBJ_Unit example_invalid
       (fresh_eluna\<lparr>stack := [LUserdata \<lparr>GetTypeName = ''Creature'', GetObj = obj, stamp = 2\<rparr>]\<rparr>)
       1 True
     = Value (Some obj)"
  "CHECKOBJ_Unit example_invalid
       (fresh_eluna\<lparr>stack := [LUserdata \<lparr>GetTypeName = ''Item'', GetObj = obj, stamp = 2\<rparr>]\<rparr>)
       1 True
     = ArgError 1 ''bad argument : Unit expected, got Item''"
  "CHECKOBJ_Unit example_invalid
       (fresh_eluna\<lparr>stack := [LUserdata \<lparr>GetTypeName = ''Item'', GetObj = obj, stamp = 2\<rparr>]\<rparr>)
       1 False
     = Value None"
  "CHECKOBJ_Unit example_invalid (fresh_eluna\<lparr>stack := [LNumber (Finite 3)]\<rparr>) 1 True
     = ArgError 1 ''bad argument : Unit expected, got number''"
  "CHECKOBJ_Unit example_invalid
       (fresh_eluna\<lparr>stack := [LUserdata \<lparr>GetTypeName = ''Creature'', GetObj = obj, stamp = 1\<rparr>]\<rparr>)
       1 True
     = ArgError 1 ''bad argument : Unit expected, got Creature''"
  "CHECKOBJ_Unit example_invalid
       (fresh_eluna\<lparr>stack := [LUserdata \<lparr>GetTypeName = ''Creature'', GetObj = obj, stamp = 1\<rparr>]\<rparr>)
       1 False
     = Value None"
  "CHECKOBJ_Unit example_invalid
       (fresh_eluna\<lparr>stack := [LUserdata \<lparr>GetTypeName = ''Unit'', GetObj = obj, stamp = 1\<rparr>]\<rparr>)
       1 True
     = ArgError 1 ''Unit expected, got an invalidated object''"
  by (simp_all add: CHECKOBJ_Unit_def CHECKOBJ_T_def ElunaTemplate_Check_def CHECKTYPE_def
      lua_islightuserdata_def lua_touserdata_def index2value_single luaL_typename_def
      fresh_eluna_epoch example_invalid_def)

section \<open>Properties of \<^verbatim>\<open>Register\<close>\<close>

lemma RegisterBinding_Some:
  assumes "bindingMaps s regtype = Some bm"
  shows "RegisterBinding regtype key functionRef shots s =
     Done 1 (s\<lparr>bindingMaps := (bindingMaps s)(regtype \<mapsto> snd (Insert bm key functionRef shots)),
               stack := stack s @ [LFunction (cancelBinding_closure
                                     (fst (Insert bm key functionRef shots)) regtype)]\<rparr>)"
  using assms
  by (simp add: RegisterBinding_def createCancelCallback_def lua_push_def split: prod.splits)

lemma Insert_appends_one:
  "fst (Insert bm key functionRef shots) = maxBindingID bm + 1"
  "bindings (snd (Insert bm key functionRef shots)) key =
     bindings bm key @ [\<lparr>functionReference = functionRef, remainingShots = shots,
                         bindingId = maxBindingID bm + 1\<rparr>]"
  "k \<noteq> key \<Longrightarrow> bindings (snd (Insert bm key functionRef shots)) k = bindings bm k"
  by (simp_all add: Insert_def Let_def)

lemma Register_rejected:
  assumes "\<not> (known_combination H regtype event_id \<and> template_exists host regtype entry
              \<and> guid_given regtype guid \<and> opcode_in_range host regtype entry)"
  shows "\<exists>msg. Register H regtype_value host regtype entry guid instanceId event_id functionRef shots s
           = LuaError msg (luaL_unref functionRef s)"
  using assms
  by (cases regtype)
    (auto simp: Register_def known_combination_def template_exists_def guid_given_def
      opcode_in_range_def not_found_def unknown_event_type_def)

lemma Register_accepted:
  assumes "known_combination H regtype event_id" and "template_exists host regtype entry"
    and "guid_given regtype guid" and "opcode_in_range host regtype entry"
  shows "Register H regtype_value host regtype entry guid instanceId event_id functionRef shots s
           = RegisterBinding regtype (registration_key regtype entry guid instanceId event_id)
               functionRef shots s"
  using assms
  by (cases regtype)
    (simp_all add: Register_def known_combination_def template_exists_def guid_given_def
      opcode_in_range_def registration_key_def RegisterBasicBinding_def RegisterEntryBinding_def
      RegisterUniqueBinding_def)

text \<open>
  Claim C6, as the code has it. \<^verbatim>\<open>Register\<close> rejects a call when the pair of
  registration type and event id is not a known combination, or the entry of an
  entry-validated type names no creature, gameobject or item template, or the entry of
  \<^verbatim>\<open>REGTYPE_PACKET\<close> is not an opcode below \<^verbatim>\<open>NUM_MSG_TYPES\<close>, or the guid of
  \<^verbatim>\<open>REGTYPE_CREATURE_UNIQUE\<close> is empty: the callable's reference is released with
  \<^verbatim>\<open>luaL_unref\<close>, an error is raised and no store changes. Otherwise, the store of
  the registration type being there, exactly one registration (the callable, the shots and
  a new binding id) is appended under the key in that store, every other key and store is
  as before, and the cancel callback of the new binding id is returned on the stack.
\<close>

theorem Register_releases_or_inserts:
  "(\<not> (known_combination H regtype event_id \<and> template_exists host regtype entry
        \<and> guid_given regtype guid \<and> opcode_in_range host regtype entry)
      \<longrightarrow> (\<exists>msg. Register H regtype_value host regtype entry guid instanceId event_id functionRef shots s
                   = LuaError msg (luaL_unref functionRef s))
          \<and> bindingMaps (luaL_unref functionRef s) = bindingMaps s
          \<and> (0 < functionRef \<longrightarrow> slots (registry (luaL_unref functionRef s)) functionRef = None))
   \<and> (known_combination H regtype event_id \<and> template_exists host regtype entry
        \<and> guid_given regtype guid \<and> opcode_in_range host regtype entry
        \<and> bindingMaps s regtype = Some bm
      \<longrightarrow> Register H regtype_value host regtype entry guid instanceId event_id functionRef shots s
            = Done 1
                (s\<lparr>bindingMaps := (bindingMaps s)(regtype \<mapsto>
                       snd (Insert bm (registration_key regtype entry guid instanceId event_id)
                              functionRef shots)),
                   stack := stack s @ [LFunction (cancelBinding_closure (maxBindingID bm + 1) regtype)]\<rparr>)
          \<and> bindings (snd (Insert bm (registration_key regtype entry guid instanceId event_id)
                              functionRef shots))
               (registration_key regtype entry guid instanceId event_id)
             = bindings bm (registration_key regtype entry guid instanceId event_id)
               @ [\<lparr>functionReference = functionRef, remainingShots = shots,
                   bindingId = maxBindingID bm + 1\<rparr>]
          \<and> (\<forall>k. k \<noteq> registration_key regtype entry guid instanceId event_id
                \<longrightarrow> bindings (snd (Insert bm (registration_key regtype entry guid instanceId event_id)
                                     functionRef shots)) k
                    = bindings bm k))"
proof (intro conjI impI)
  assume "\<not> (known_combination H regtype event_id \<and> template_exists host regtype entry
        \<and> guid_given regtype guid \<and> opcode_in_range host regtype entry)"
  then show "\<exists>msg. Register H regtype_value host regtype entry guid instanceId event_id functionRef shots s
                   = LuaError msg (luaL_unref functionRef s)"
    by (rule Register_rejected)
next
  show "bindingMaps (luaL_unref functionRef s) = bindingMaps s" by simp
next
  assume "0 < functionRef"
  then show "slots (registry (luaL_unref functionRef s)) functionRef = None"
    by (simp add: unref_def)
next
  assume a: "known_combination H regtype event_id \<and> template_exists host regtype entry
        \<and> guid_given regtype guid \<and> opcode_in_range host regtype entry
        \<and> bindingMaps s regtype = Some bm"
  then have "Register H regtype_value host regtype entry guid instanceId event_id functionRef shots s
           = RegisterBinding regtype (registration_key regtype entry guid instanceId event_id)
               functionRef shots s"
    by (intro Register_accepted) simp_all
  then show "Register H regtype_value host regtype entry guid instanceId event_id functionRef shots s
            = Done 1
                (s\<lparr>bindingMaps := (bindingMaps s)(regtype \<mapsto>
                       snd (Insert bm (registration_key regtype entry guid instanceId event_id)
                              functionRef shots)),
                   stack := stack s @ [LFunction (cancelBinding_closure (maxBindingID bm + 1) regtype)]\<rparr>)"
    using a by (simp add: RegisterBinding_Some Insert_appends_one(1))
next
  show "bindings (snd (Insert bm (registration_key regtype entry guid instanceId event_id)
                              functionRef shots))
               (registration_key regtype entry guid instanceId event_id)
             = bindings bm (registration_key regtype entry guid instanceId event_id)
               @ [\<lparr>functionReference = functionRef, remainingShots = shots,
                   bindingId = maxBindingID bm + 1\<rparr>]"
    by (rule Insert_appends_one(2))
next
  show "\<forall>k. k \<noteq> registration_key regtype entry guid instanceId event_id
                \<longrightarrow> bindings (snd (Insert bm (registration_key regtype entry guid instanceId event_id)
                                     functionRef shots)) k
                    = bindings bm k"
    by (simp add: Insert_appends_one(3))
qed

text \<open>
  The claim as it is written lists the unknown combination, the missing template and the
  empty guid as the failures and promises a binding otherwise. A packet registration
  with a known event and the opcode 2000 (not below \<^verbatim>\<open>NUM_MSG_TYPES\<close>) has none of the
  three and is rejected all the same.
\<close>

theorem Register_packet_opcode_counterexample:
  "known_combination example_Hooks REGTYPE_PACKET 5
   \<and> template_exists example_Host REGTYPE_PACKET 2000
   \<and> guid_given REGTYPE_PACKET 0
   \<and> bindingMaps (CreateBindStores fresh_eluna) REGTYPE_PACKET = Some new_BindingMap
   \<and> Register example_Hooks example_regtype_value example_Host REGTYPE_PACKET 2000 0 0 5 3 0
        (CreateBindStores fresh_eluna)
      = LuaError ''Couldn't find a creature with (ID: 2000)!'' (luaL_unref 3 (CreateBindStores fresh_eluna))"
  by (simp add: known_combination_def template_exists_def guid_given_def example_Hooks_def
      example_Host_def bindingMaps_CreateBindStores Register_def not_found_def show_int_def
      show_nat.simps digit_char_def)

theorem Register_releases_or_inserts_witness:
  "Register example_Hooks example_regtype_value example_Host REGTYPE_CREATURE 6 0 0 5 3 1
        (CreateBindStores fresh_eluna)
      = Done 1
          ((CreateBindStores fresh_eluna)
             \<lparr>bindingMaps := (bindingMaps (CreateBindStores fresh_eluna))(REGTYPE_CREATURE \<mapsto>
                 snd (Insert new_BindingMap (EntryKey 5 6) 3 1)),
              stack := [LFunction (cancelBinding_closure 1 REGTYPE_CREATURE)]\<rparr>)
   \<and> bindings (snd (Insert new_BindingMap (EntryKey 5 6) 3 1)) (EntryKey 5 6)
      = [\<lparr>functionReference = 3, remainingShots = 1, bindingId = 1\<rparr>]
   \<and> (\<exists>msg. Register example_Hooks example_regtype_value example_Host REGTYPE_CREATURE 7 0 0 5 3 1
        (CreateBindStores fresh_eluna)
      = LuaError msg (luaL_unref 3 (CreateBindStores fresh_eluna)))
   \<and> bindingMaps (luaL_unref 3 (CreateBindStores fresh_eluna)) = bindingMaps (CreateBindStores fresh_eluna)"
proof -
  let ?s = "CreateBindStores fresh_eluna"
  have store: "bindingMaps ?s REGTYPE_CREATURE = Some new_BindingMap"
    by (simp add: bindingMaps_CreateBindStores)
  have ok: "known_combination example_Hooks REGTYPE_CREATURE 5
      \<and> template_exists example_Host REGTYPE_CREATURE 6
      \<and> guid_given REGTYPE_CREATURE 0 \<and> opcode_in_range example_Host REGTYPE_CREATURE 6"
    by (simp add: known_combination_def template_exists_def guid_given_def opcode_in_range_def
        example_Hooks_def example_Host_def)
  have bad: "\<not> (known_combination example_Hooks REGTYPE_CREATURE 5
      \<and> template_exists example_Host REGTYPE_CREATURE 7
      \<and> guid_given REGTYPE_CREATURE 0 \<and> opcode_in_range example_Host REGTYPE_CREATURE 7)"
    by (simp add: template_exists_def example_Host_def)
  have key: "registration_key REGTYPE_CREATURE 6 0 0 5 = EntryKey 5 6"
    by (simp add: registration_key_def)
  have st: "stack fresh_eluna = []" by (simp add: fresh_eluna_def)
  have m: "maxBindingID new_BindingMap + 1 = 1" "bindings new_BindingMap (EntryKey 5 6) = []"
    by (simp_all add: new_BindingMap_def)
  from Register_releases_or_inserts [of example_Hooks REGTYPE_CREATURE 5 example_Host 6 0
      example_regtype_value 0 3 1 ?s new_BindingMap] ok store
  have "Register example_Hooks example_regtype_value example_Host REGTYPE_CREATURE 6 0 0 5 3 1 ?s
      = Done 1
          (?s\<lparr>bindingMaps := (bindingMaps ?s)(REGTYPE_CREATURE \<mapsto>
                 snd (Insert new_BindingMap (EntryKey 5 6) 3 1)),
              stack := [LFunction (cancelBinding_closure 1 REGTYPE_CREATURE)]\<rparr>)
     \<and> bindings (snd (Insert new_BindingMap (EntryKey 5 6) 3 1)) (EntryKey 5 6)
      = [\<lparr>functionReference = 3, remainingShots = 1, bindingId = 1\<rparr>]"
    by (simp add: key st m)
  moreover
  from Register_releases_or_inserts [of example_Hooks REGTYPE_CREATURE 5 example_Host 7 0
      example_regtype_value 0 3 1 ?s new_BindingMap] bad
  have "(\<exists>msg. Register example_Hooks example_regtype_value example_Host REGTYPE_CREATURE 7 0 0 5 3 1 ?s
      = LuaError msg (luaL_unref 3 ?s))
     \<and> bindingMaps (luaL_unref 3 ?s) = bindingMaps ?s"
    by blast
  ultimately show ?thesis by blast
qed

section \<open>Freeing an instance and the event id 0\<close>


section \<open>Properties of the protected call\<close>

lemma push_nils_eq: "push_nils i res s = s\<lparr>stack := stack s @ replicate (nat (res - i)) LNil\<rparr>"
proof (induction i res s rule: push_nils.induct)
  case (1 i res s)
  show ?case
  proof (cases "i < res")
    case True
    then have "nat (res - i) = Suc (nat (res - (i + 1)))" by simp
    then show ?thesis
      using True "1.IH" [OF True]
      by (simp add: push_nils.simps [of i res] lua_push_def replicate_app_Cons_same)
  next
    case False
    then show ?thesis by (simp add: push_nils.simps [of i res])
  qed
qed

lemma index2value_function:
  assumes "stack s = pre @ v # args"
  shows "index2value s (int (length pre) + 1) = Some v"
  using assms by (simp add: index2value_def lua_gettop_def nth_append)

lemma index2value_top:
  assumes "stack s = pre @ [v]"
  shows "index2value s (- 1) = Some v"
  using assms by (simp add: index2value_def lua_gettop_def nth_append)

lemma lua_pcall_eq:
  assumes st: "stack s = below @ LFunction f # args" and n: "nargs = int (length args)"
    and h: "errfunc = 0 \<or> (errfunc = int (length below) \<and> last below = LFunction StackTrace_cfunction
              \<and> below \<noteq> [])"
  shows "lua_pcall L nargs nresults errfunc s =
     (case call L (LFunction f) args s of
        Returns results s' \<Rightarrow> Inr (0, s'\<lparr>stack := below @ adjust_results nresults results\<rparr>)
      | Raises e s' \<Rightarrow>
          Inr (if errfunc \<noteq> 0 \<and> (\<exists>e'. StackTrace L s' e = Inl e') then 5 else 2,
               s'\<lparr>stack := below @ [handled_error L (errfunc \<noteq> 0) s' e]\<rparr>)
      | Aborts flt \<Rightarrow> Inl flt)"
proof -
  have top: "lua_gettop s = int (length below) + 1 + nargs"
    using st n by (simp add: lua_gettop_def)
  have func: "nat (lua_gettop s - nargs - 1) = length below" "nat (lua_gettop s - nargs) = Suc (length below)"
    using top by simp_all
  have parts: "take (length below) (stack s) = below" "stack s ! length below = LFunction f"
    "drop (Suc (length below)) (stack s) = args"
    using st by (simp_all add: nth_append)
  have ok: "\<not> (nargs < 0 \<or> lua_gettop s \<le> nargs \<or> errfunc < 0 \<or> lua_gettop s < errfunc)"
    using top n h by auto
  have handler: "stack s ! nat (errfunc - 1) = LFunction StackTrace_cfunction" if "errfunc \<noteq> 0"
  proof -
    from that h have e: "errfunc = int (length below)" "last below = LFunction StackTrace_cfunction"
      "below \<noteq> []" by auto
    then have "nat (errfunc - 1) = length below - 1" by simp
    moreover have "stack s ! (length below - 1) = last below"
      using e(3) st by (simp add: nth_append last_conv_nth)
    ultimately show ?thesis using e(2) by simp
  qed
  show ?thesis
    using ok handler
    by (cases "call L (LFunction f) args s")
      (auto simp: lua_pcall_def Let_def func parts handled_error_def split: sum.splits)
qed

text \<open>
  \<^verbatim>\<open>ExecuteCall\<close> in one equation, for a stack that holds a function and \<open>params\<close>
  arguments above \<open>pre\<close>.
\<close>

lemma ExecuteCall_eq:
  assumes st: "stack s = pre @ LFunction f # args" and n: "params = int (length args)"
  shows "ExecuteCall L usetrace params res s =
     (case call L (LFunction f) args (entered usetrace pre f args s) of
        Returns results s' \<Rightarrow>
          Inr (True, s'\<lparr>stack := pre @ adjust_results res results,
                         event_level := event_level s' - 1\<rparr>)
      | Raises e s' \<Rightarrow>
          Inr (False, s'\<lparr>stack := pre @ replicate (nat res) LNil,
                          event_level := event_level s' - 1,
                          error_log := error_log s' @ [tostring_value L (handled_error L usetrace s' e)],
                          gc_collections := gc_collections s' + 1\<rparr>)
      | Aborts flt \<Rightarrow> Inl flt)"
proof -
  have top: "lua_gettop s - params = int (length pre) + 1"
    using st n by (simp add: lua_gettop_def)
  have isf: "lua_isfunction s (int (length pre) + 1)"
    using index2value_function [OF st] by (simp add: lua_isfunction_def)
  let ?s1 = "if usetrace
             then lua_insert (int (length pre) + 1) (lua_push (LFunction StackTrace_cfunction) s)
             else s"
  let ?s2 = "?s1\<lparr>event_level := event_level ?s1 + 1\<rparr>"
  have s2: "?s2 = entered usetrace pre f args s"
    using st by (simp add: entered_def lua_insert_def lua_push_def butlast_append)
  let ?below = "if usetrace then pre @ [LFunction StackTrace_cfunction] else pre"
  have st2: "stack (entered usetrace pre f args s) = ?below @ LFunction f # args"
    by (simp add: entered_def)
  have pc: "lua_pcall L params res (if usetrace then int (length pre) + 1 else 0)
              (entered usetrace pre f args s) =
     (case call L (LFunction f) args (entered usetrace pre f args s) of
        Returns results s' \<Rightarrow> Inr (0, s'\<lparr>stack := ?below @ adjust_results res results\<rparr>)
      | Raises e s' \<Rightarrow>
          Inr (if usetrace \<and> (\<exists>e'. StackTrace L s' e = Inl e') then 5 else 2,
               s'\<lparr>stack := ?below @ [handled_error L usetrace s' e]\<rparr>)
      | Aborts flt \<Rightarrow> Inl flt)"
    using lua_pcall_eq [OF st2 n, of "if usetrace then int (length pre) + 1 else 0" L res]
    by (cases usetrace) (simp_all split: callee_result.splits)
  have rm: "lua_remove (int (length pre) + 1) t = t\<lparr>stack := pre @ xs\<rparr>"
    if "stack t = pre @ LFunction StackTrace_cfunction # xs" for t xs
  proof -
    have "nat (int (length pre) + 1) = Suc (length pre)" by simp
    then show ?thesis using that by (simp add: lua_remove_def)
  qed
  have rep: "Report L t = t\<lparr>stack := pre, error_log := error_log t @ [tostring_value L v]\<rparr>"
    if "stack t = pre @ [v]" for t v
    using that
    by (simp add: Report_def lua_pop_def lua_tostring_def tostring_value_def
        index2value_top [of _ pre v] split: lua_value.splits)
  have fin: "push_nils 0 res (lua_gc_collect (Report L t))
        = t\<lparr>stack := pre @ replicate (nat res) LNil,
            error_log := error_log t @ [tostring_value L v],
            gc_collections := gc_collections t + 1\<rparr>"
    if "stack t = pre @ [v]" for t v
    by (simp add: rep [OF that] push_nils_eq lua_gc_collect_def)
  show ?thesis
  proof (cases "call L (LFunction f) args (entered usetrace pre f args s)")
    case (Returns results s')
    then show ?thesis
      using top isf s2 pc
      by (cases usetrace) (simp_all add: ExecuteCall_def Let_def rm)
  next
    case (Raises e s')
    then show ?thesis
      using top isf s2 pc
      by (cases usetrace) (simp_all add: ExecuteCall_def Let_def rm fin)
  next
    case (Aborts flt)
    then show ?thesis
      using top isf s2 pc by (cases usetrace) (simp_all add: ExecuteCall_def Let_def)
  qed
qed

lemma length_adjust_results: "0 \<le> res \<Longrightarrow> length (adjust_results res results) = nat res"
  by (simp add: adjust_results_def)

text \<open>
  Claim C1, as the code has it. The stack holds a function and \<open>params\<close> arguments
  above \<open>pre\<close>, and \<open>res\<close> results are expected. When the called function raises an
  error, \<^verbatim>\<open>ExecuteCall\<close> returns false (it returns: nothing is raised to the caller),
  the log gets one entry, the string of the error value, and exactly \<open>res\<close> nils stand
  on the stack in the place of the function and its arguments. With tracing, for a raised
  string or number and \<^verbatim>\<open>debug.traceback\<close> a function, the entry is the string of what
  \<^verbatim>\<open>debug.traceback\<close> makes of the value (the message with its stack trace). In every
  other case no trace is added and the entry is the string of the raised value itself:
  without tracing, for a raised value that is neither a string nor a number (its string
  is null), and when \<^verbatim>\<open>debug.traceback\<close> is no function. When the called function
  returns, \<^verbatim>\<open>ExecuteCall\<close> returns true and the stack holds \<open>res\<close> results in that
  place: the function's own, cut or filled with nils to the number asked for; nothing is
  logged.
\<close>

theorem ExecuteCall_traps_errors:
  assumes "stack s = pre @ LFunction f # args" and "params = int (length args)" and "0 \<le> res"
  shows "(\<forall>e s'. call L (LFunction f) args (entered usetrace pre f args s) = Raises e s' \<longrightarrow>
            (\<exists>s''. ExecuteCall L usetrace params res s = Inr (False, s'')
               \<and> stack s'' = pre @ replicate (nat res) LNil
               \<and> error_log s'' = error_log s' @ [tostring_value L (handled_error L usetrace s' e)])
            \<and> (\<not> usetrace \<longrightarrow> handled_error L usetrace s' e = e)
            \<and> (usetrace \<and> is_string_or_number e \<and> (\<exists>g. global_debug s' = Some (LFunction g)) \<longrightarrow>
                  handled_error L usetrace s' e =
                    (case debug_traceback L [e, LNumber (Finite 1)] of Inr msg \<Rightarrow> msg | Inl e' \<Rightarrow> e'))
            \<and> (\<not> (is_string_or_number e \<and> (\<exists>g. global_debug s' = Some (LFunction g))) \<longrightarrow>
                  handled_error L usetrace s' e = e)
            \<and> (\<not> is_string_or_number e \<longrightarrow>
                  tostring_value L (handled_error L usetrace s' e) = None))
       \<and> (\<forall>results s'. call L (LFunction f) args (entered usetrace pre f args s) = Returns results s' \<longrightarrow>
            (\<exists>s''. ExecuteCall L usetrace params res s = Inr (True, s'')
               \<and> stack s'' = pre @ take (nat res) (results @ replicate (nat res) LNil)
               \<and> length (stack s'') = length pre + nat res
               \<and> error_log s'' = error_log s'))"
proof (intro conjI allI impI)
  fix e s' assume "call L (LFunction f) args (entered usetrace pre f args s) = Raises e s'"
  then show "\<exists>s''. ExecuteCall L usetrace params res s = Inr (False, s'')
               \<and> stack s'' = pre @ replicate (nat res) LNil
               \<and> error_log s'' = error_log s' @ [tostring_value L (handled_error L usetrace s' e)]"
    by (simp add: ExecuteCall_eq [OF assms(1,2)])
next
  fix e :: lua_value and s' :: eluna assume "\<not> usetrace"
  then show "handled_error L usetrace s' e = e" by (simp add: handled_error_def)
next
  fix e :: lua_value and s' :: eluna
  assume "usetrace \<and> is_string_or_number e \<and> (\<exists>g. global_debug s' = Some (LFunction g))"
  then show "handled_error L usetrace s' e =
      (case debug_traceback L [e, LNumber (Finite 1)] of Inr msg \<Rightarrow> msg | Inl e' \<Rightarrow> e')"
    by (auto simp: handled_error_def StackTrace_def)
next
  fix e :: lua_value and s' :: eluna
  assume "\<not> (is_string_or_number e \<and> (\<exists>g. global_debug s' = Some (LFunction g)))"
  then show "handled_error L usetrace s' e = e"
    by (auto simp: handled_error_def StackTrace_def split: option.splits lua_value.splits)
next
  fix e :: lua_value and s' :: eluna
  assume a: "\<not> is_string_or_number e"
  then have "handled_error L usetrace s' e = e"
    by (simp add: handled_error_def StackTrace_def)
  then show "tostring_value L (handled_error L usetrace s' e) = None"
    using a by (cases e) (simp_all add: tostring_value_def is_string_or_number_def)
next
  fix results s'
  assume "call L (LFunction f) args (entered usetrace pre f args s) = Returns results s'"
  then show "\<exists>s''. ExecuteCall L usetrace params res s = Inr (True, s'')
               \<and> stack s'' = pre @ take (nat res) (results @ replicate (nat res) LNil)
               \<and> length (stack s'') = length pre + nat res
               \<and> error_log s'' = error_log s'"
    using assms(3) by (simp add: ExecuteCall_eq [OF assms(1,2)] adjust_results_def)
qed

theorem ExecuteCall_traps_errors_witness:
  "(\<exists>s''. ExecuteCall example_lua True 1 2
        (fresh_eluna\<lparr>stack := [LTable 4, LFunction (LuaFunction 7), LNumber (Finite 3)]\<rparr>)
      = Inr (False, s'')
      \<and> stack s'' = [LTable 4, LNil, LNil]
      \<and> error_log s'' = [Some ''boom (stack traceback)''])
   \<and> (\<exists>s''. ExecuteCall example_lua True 1 2
        (fresh_eluna\<lparr>stack := [LTable 4, LFunction (LuaFunction 8), LNumber (Finite 3)]\<rparr>)
      = Inr (True, s'')
      \<and> stack s'' = [LTable 4, LNumber (Finite 1), LNil]
      \<and> error_log s'' = [])"
proof -
  let ?s = "fresh_eluna\<lparr>stack := [LTable 4, LFunction (LuaFunction 7), LNumber (Finite 3)]\<rparr>"
  let ?t = "fresh_eluna\<lparr>stack := [LTable 4, LFunction (LuaFunction 8), LNumber (Finite 3)]\<rparr>"
  have st: "stack ?s = [LTable 4] @ LFunction (LuaFunction 7) # [LNumber (Finite 3)]"
    "stack ?t = [LTable 4] @ LFunction (LuaFunction 8) # [LNumber (Finite 3)]"
    by simp_all
  have n: "(1::int) = int (length [LNumber (Finite 3)])" "(0::int) \<le> 2" by simp_all
  let ?e = "entered True [LTable 4] (LuaFunction 7) [LNumber (Finite 3)] ?s"
  let ?e' = "entered True [LTable 4] (LuaFunction 8) [LNumber (Finite 3)] ?t"
  have raises: "call example_lua (LFunction (LuaFunction 7)) [LNumber (Finite 3)] ?e
      = Raises (LString ''boom'') ?e"
    by (simp add: example_lua_def)
  have returns: "call example_lua (LFunction (LuaFunction 8)) [LNumber (Finite 3)] ?e'
      = Returns [LNumber (Finite 1)] ?e'"
    by (simp add: example_lua_def)
  have msg: "tostring_value example_lua (handled_error example_lua True ?e (LString ''boom''))
      = Some ''boom (stack traceback)''"
    by (simp add: tostring_value_def handled_error_def StackTrace_def is_string_or_number_def
        entered_def fresh_eluna_def example_lua_def)
  have log: "error_log ?e = []" "error_log ?e' = []"
    by (simp_all add: entered_def fresh_eluna_def)
  from ExecuteCall_traps_errors [OF st(1) n, of example_lua True] raises
  have "\<exists>s''. ExecuteCall example_lua True 1 2 ?s = Inr (False, s'')
      \<and> stack s'' = [LTable 4] @ replicate (nat 2) LNil
      \<and> error_log s'' = error_log ?e
          @ [tostring_value example_lua (handled_error example_lua True ?e (LString ''boom''))]"
    by blast
  then have 1: "\<exists>s''. ExecuteCall example_lua True 1 2 ?s = Inr (False, s'')
      \<and> stack s'' = [LTable 4, LNil, LNil] \<and> error_log s'' = [Some ''boom (stack traceback)'']"
    by (simp add: msg log numeral_2_eq_2)
  from ExecuteCall_traps_errors [OF st(2) n, of example_lua True] returns
  have "\<exists>s''. ExecuteCall example_lua True 1 2 ?t = Inr (True, s'')
      \<and> stack s'' = [LTable 4] @ take (nat 2) ([LNumber (Finite 1)] @ replicate (nat 2) LNil)
      \<and> error_log s'' = error_log ?e'"
    by blast
  then have 2: "\<exists>s''. ExecuteCall example_lua True 1 2 ?t = Inr (True, s'')
      \<and> stack s'' = [LTable 4, LNumber (Finite 1), LNil] \<and> error_log s'' = []"
    by (simp add: log numeral_2_eq_2)
  from 1 2 show ?thesis by blast
qed

text \<open>
  The claim as it is written promises the stack trace whenever tracing is on. With
  tracing on, a function that raises a table leaves a log entry with a null string and no
  trace; and a function that raises the string \<open>boom\<close> while the global \<^verbatim>\<open>debug\<close> is
  no table leaves the entry \<open>boom\<close> without the trace that \<^verbatim>\<open>debug.traceback\<close> makes
  for it.
\<close>

theorem ExecuteCall_untraced_error_counterexample:
  "call_summary (ExecuteCall example_lua_raising_table True 0 0
       (fresh_eluna\<lparr>stack := [LFunction (LuaFunction 7)]\<rparr>))
     = Inr (False, [], [None])
   \<and> debug_traceback example_lua [LString ''boom'', LNumber (Finite 1)]
     = Inr (LString ''boom (stack traceback)'')
   \<and> call_summary (ExecuteCall example_lua True 0 0
       (fresh_eluna\<lparr>stack := [LFunction (LuaFunction 7)], global_debug := None\<rparr>))
     = Inr (False, [], [Some ''boom''])
   \<and> call_summary (ExecuteCall example_lua True 0 0
       (fresh_eluna\<lparr>stack := [LFunction (LuaFunction 7)]\<rparr>))
     = Inr (False, [], [Some ''boom (stack traceback)''])"
proof -
  let ?s = "fresh_eluna\<lparr>stack := [LFunction (LuaFunction 7)]\<rparr>"
  let ?t = "fresh_eluna\<lparr>stack := [LFunction (LuaFunction 7)], global_debug := None\<rparr>"
  have st: "stack ?s = [] @ LFunction (LuaFunction 7) # []"
    "stack ?t = [] @ LFunction (LuaFunction 7) # []"
    by simp_all
  have n: "(0::int) = int (length ([] :: lua_value list))"
    by simp
  have 1: "call_summary (ExecuteCall example_lua_raising_table True 0 0 ?s) = Inr (False, [], [None])"
    unfolding ExecuteCall_eq [OF st(1) n]
    by (simp add: call_summary_def example_lua_raising_table_def entered_def fresh_eluna_def
        tostring_value_def handled_error_def StackTrace_def is_string_or_number_def)
  have 2: "debug_traceback example_lua [LString ''boom'', LNumber (Finite 1)]
     = Inr (LString ''boom (stack traceback)'')"
    by (simp add: example_lua_def)
  have 3: "call_summary (ExecuteCall example_lua True 0 0 ?t) = Inr (False, [], [Some ''boom''])"
    unfolding ExecuteCall_eq [OF st(2) n]
    by (simp add: call_summary_def example_lua_def entered_def fresh_eluna_def
        tostring_value_def handled_error_def StackTrace_def is_string_or_number_def)
  have 4: "call_summary (ExecuteCall example_lua True 0 0 ?s)
     = Inr (False, [], [Some ''boom (stack traceback)''])"
    unfolding ExecuteCall_eq [OF st(1) n]
    by (simp add: call_summary_def example_lua_def entered_def fresh_eluna_def
        tostring_value_def handled_error_def StackTrace_def is_string_or_number_def)
  show ?thesis
    using 1 2 3 4 by (intro conjI)
qed

section \<open>Properties of running the scripts\<close>

lemma ExecuteCall_require:
  assumes "stack s = pre @ [LFunction req]"
  shows "ExecuteCall L usetrace 1 0 (lua_push (LString name) (lua_pushvalue (- 1) s)) =
     (case call L (LFunction req) [LString name]
             (entered usetrace (pre @ [LFunction req]) req [LString name] s) of
        Returns results s' \<Rightarrow>
          Inr (True, s'\<lparr>stack := pre @ [LFunction req], event_level := event_level s' - 1\<rparr>)
      | Raises e s' \<Rightarrow> Inr (False, after_failed_call L usetrace (pre @ [LFunction req]) e s')
      | Aborts flt \<Rightarrow> Inl flt)"
proof -
  let ?s2 = "lua_push (LString name) (lua_pushvalue (- 1) s)"
  have st: "stack ?s2 = (pre @ [LFunction req]) @ LFunction req # [LString name]"
    using assms by (simp add: lua_push_def lua_pushvalue_def index2value_top [OF assms])
  have e: "entered usetrace (pre @ [LFunction req]) req [LString name] ?s2
      = entered usetrace (pre @ [LFunction req]) req [LString name] s"
    by (simp add: entered_def lua_push_def lua_pushvalue_def)
  show ?thesis
    using ExecuteCall_eq [OF st, of 1 L usetrace 0]
    by (simp add: e after_failed_call_def adjust_results_def split: callee_result.splits)
qed

lemma RunScripts_loop_total:
  assumes never: "\<forall>f a t flt. call L f a t \<noteq> Aborts flt"
    and st: "stack s = pre @ [LFunction req]"
  shows "\<exists>loaded' count' s'. RunScripts_loop L usetrace b scripts loaded count s = Inr (loaded', count', s')
     \<and> stack s' = stack s
     \<and> (\<forall>name. loaded name \<noteq> None \<longrightarrow> loaded' name \<noteq> None)
     \<and> (\<forall>it \<in> set scripts. loads_for b it \<longrightarrow> loaded' (filename it) \<noteq> None)"
  using st
proof (induction scripts arbitrary: loaded count s)
  case Nil
  then show ?case by simp
next
  case (Cons it rest)
  have continue: ?case
    if eq: "RunScripts_loop L usetrace b (it # rest) loaded count s
            = RunScripts_loop L usetrace b rest loaded1 count1 s1"
      and s1: "stack s1 = pre @ [LFunction req]"
      and l1: "\<forall>name. loaded name \<noteq> None \<longrightarrow> loaded1 name \<noteq> None"
      and it: "loads_for b it \<longrightarrow> loaded1 (filename it) \<noteq> None"
    for loaded1 count1 s1
  proof -
    from Cons.IH [OF s1, of loaded1 count1]
    obtain loaded' count' s' where r:
      "RunScripts_loop L usetrace b rest loaded1 count1 s1 = Inr (loaded', count', s')"
      "stack s' = stack s1"
      "\<forall>name. loaded1 name \<noteq> None \<longrightarrow> loaded' name \<noteq> None"
      "\<forall>it \<in> set rest. loads_for b it \<longrightarrow> loaded' (filename it) \<noteq> None"
      by blast
    have "stack s' = stack s" using r(2) s1 Cons.prems by simp
    moreover have "\<forall>name. loaded name \<noteq> None \<longrightarrow> loaded' name \<noteq> None"
      using l1 r(3) by blast
    moreover have "\<forall>x \<in> set (it # rest). loads_for b x \<longrightarrow> loaded' (filename x) \<noteq> None"
      using it r(3,4) by auto
    ultimately show ?thesis
      unfolding eq using r(1) by blast
  qed
  show ?case
  proof (cases "loads_for b it")
    case False
    then have eq: "RunScripts_loop L usetrace b (it # rest) loaded count s
        = RunScripts_loop L usetrace b rest loaded count s"
      by (auto simp: loads_for_def RunScripts_loop.simps(2))
    show ?thesis by (rule continue [OF eq Cons.prems]) (simp_all add: False)
  next
    case True
    show ?thesis
    proof (cases "loaded (filename it)")
      case (Some path)
      let ?s1 = "log_error (''[Eluna]: Error loading `'' @ filepath it
                           @ ''`. File with same name already loaded from `'' @ path
                           @ ''`, rename either file'') s"
      have eq: "RunScripts_loop L usetrace b (it # rest) loaded count s
          = RunScripts_loop L usetrace b rest loaded count ?s1"
        using True Some by (auto simp: loads_for_def RunScripts_loop.simps(2))
      have s1: "stack ?s1 = pre @ [LFunction req]"
        using Cons.prems by (simp add: log_error_def)
      show ?thesis by (rule continue [OF eq s1]) (simp_all add: Some)
    next
      case None
      let ?c = "call L (LFunction req) [LString (filename it)]
             (entered usetrace (pre @ [LFunction req]) req [LString (filename it)] s)"
      let ?l = "loaded(filename it \<mapsto> filepath it)"
      have step: "RunScripts_loop L usetrace b (it # rest) loaded count s =
          (case ExecuteCall L usetrace 1 0
                     (lua_push (LString (filename it)) (lua_pushvalue (- 1) s)) of
                Inl flt \<Rightarrow> Inl flt
              | Inr (ok, s') \<Rightarrow>
                  RunScripts_loop L usetrace b rest ?l (if ok then count + 1 else count) s')"
        using True None by (auto simp: loads_for_def RunScripts_loop.simps(2))
      show ?thesis
      proof (cases ?c)
        case (Returns results s1)
        let ?s2 = "s1\<lparr>stack := pre @ [LFunction req], event_level := event_level s1 - 1\<rparr>"
        have eq: "RunScripts_loop L usetrace b (it # rest) loaded count s
            = RunScripts_loop L usetrace b rest ?l (count + 1) ?s2"
          using Returns by (simp add: step ExecuteCall_require [OF Cons.prems])
        have s2: "stack ?s2 = pre @ [LFunction req]" by simp
        show ?thesis by (rule continue [OF eq s2]) simp_all
      next
        case (Raises e s1)
        let ?s2 = "after_failed_call L usetrace (pre @ [LFunction req]) e s1"
        have eq: "RunScripts_loop L usetrace b (it # rest) loaded count s
            = RunScripts_loop L usetrace b rest ?l count ?s2"
          using Raises by (simp add: step ExecuteCall_require [OF Cons.prems])
        have s2: "stack ?s2 = pre @ [LFunction req]" by (simp add: after_failed_call_def)
        show ?thesis by (rule continue [OF eq s2]) simp_all
      next
        case (Aborts flt)
        then show ?thesis using never by simp
      qed
    qed
  qed
qed

lemma RunScripts_loop_events:
  "(case RunScripts_loop L usetrace b scripts loaded count s of
      Inl flt \<Rightarrow> Inl flt
    | Inr (loaded', count', s') \<Rightarrow> Inr (count', s'))
     = run_events L usetrace (batch_events b scripts loaded) count s"
proof (induction scripts arbitrary: loaded count s)
  case Nil
  then show ?case by simp
next
  case (Cons it rest)
  show ?case
  proof (cases "loads_for b it")
    case False
    then show ?thesis
      using Cons.IH by (auto simp: loads_for_def RunScripts_loop.simps(2))
  next
    case True
    show ?thesis
    proof (cases "loaded (filename it)")
      case (Some path)
      then show ?thesis
        using True Cons.IH
        by (auto simp: loads_for_def RunScripts_loop.simps(2) duplicate_message_def)
    next
      case None
      let ?l = "loaded(filename it \<mapsto> filepath it)"
      let ?x = "ExecuteCall L usetrace 1 0 (lua_push (LString (filename it)) (lua_pushvalue (- 1) s))"
      have step: "RunScripts_loop L usetrace b (it # rest) loaded count s =
          (case ?x of
             Inl flt \<Rightarrow> Inl flt
           | Inr (ok, s') \<Rightarrow>
               RunScripts_loop L usetrace b rest ?l (if ok then count + 1 else count) s')"
        using True None by (auto simp: loads_for_def RunScripts_loop.simps(2))
      have ev: "batch_events b (it # rest) loaded = Require it # batch_events b rest ?l"
        using True None by simp
      show ?thesis
      proof (cases ?x)
        case (Inl flt)
        then show ?thesis
          unfolding step ev by simp
      next
        case (Inr r)
        obtain ok s' where r: "r = (ok, s')"
          by (cases r)
        have IH: "(case RunScripts_loop L usetrace b rest ?l c s' of
              Inl flt \<Rightarrow> Inl flt
            | Inr (loaded', count', s') \<Rightarrow> Inr (count', s'))
            = run_events L usetrace (batch_events b rest ?l) c s'" for c
          by (rule Cons.IH)
        show ?thesis
          unfolding step ev by (simp add: Inr r IH)
      qed
    qed
  qed
qed

lemma RunScripts_events:
  "RunScripts L usetrace scripts s0 =
     (case run_events L usetrace (batch_events (GetBoundMapId s0) scripts Map.empty) 0
             (lua_push (global_require s0) s0) of
        Inl flt \<Rightarrow> Inl flt
      | Inr (count', s') \<Rightarrow> Inr (lua_pop 1 s'))"
  unfolding RunScripts_loop_events [symmetric] RunScripts_def
  by (simp split: sum.splits prod.splits)

lemma batch_events_first_occurrence:
  assumes "scripts = xs @ it # ys" and "loads_for b it" and "loaded (filename it) = None"
    and "\<forall>x \<in> set xs. loads_for b x \<longrightarrow> filename x \<noteq> filename it"
  shows "Require it \<in> set (batch_events b scripts loaded)"
  using assms
proof (induction xs arbitrary: scripts loaded)
  case Nil
  then show ?case by simp
next
  case (Cons x xs)
  then show ?case
    by (auto split: option.splits)
qed

lemma batch_events_Require:
  assumes "Require it \<in> set (batch_events b scripts loaded)"
  shows "it \<in> set scripts \<and> loads_for b it \<and> loaded (filename it) = None"
  using assms
proof (induction scripts arbitrary: loaded)
  case Nil
  then show ?case by simp
next
  case (Cons x xs)
  show ?case
  proof (cases "loads_for b x")
    case False
    then show ?thesis
      using Cons.IH [of loaded] Cons.prems by auto
  next
    case True
    show ?thesis
    proof (cases "loaded (filename x)")
      case (Some path)
      then show ?thesis
        using True Cons.IH [of loaded] Cons.prems by auto
    next
      case None
      then have "Require it = Require x
          \<or> Require it \<in> set (batch_events b xs (loaded(filename x \<mapsto> filepath x)))"
        using True Cons.prems by simp
      then show ?thesis
      proof
        assume "Require it = Require x"
        then show ?thesis using True None by simp
      next
        assume "Require it \<in> set (batch_events b xs (loaded(filename x \<mapsto> filepath x)))"
        from Cons.IH [OF this] show ?thesis
          by (auto split: if_splits)
      qed
    qed
  qed
qed

text \<open>
  Claim C7. In the loop of \<^verbatim>\<open>RunScripts\<close>, with \<^verbatim>\<open>require\<close> on top of the stack:
  a script tagged with a map that is neither -1 nor the bound map is skipped (the loop
  goes on as if it were not in the list); a script whose file name is already among the
  loaded ones is logged as an error and skipped, \<^verbatim>\<open>require\<close> is not called for it; a
  script whose \<^verbatim>\<open>require\<close> raises is entered among the loaded names, the error is
  logged, and the loop goes on with the rest of the list, the count unchanged; a script
  whose \<^verbatim>\<open>require\<close> returns is entered among the loaded names and counted, and the
  loop goes on with the rest; at the end of the list the loop returns. So the loop is the
  run of the batch's events, which the list alone settles, and \<^verbatim>\<open>RunScripts\<close> is that
  run for the id of the bound map (-1 without a map), between the push and the pop of
  \<^verbatim>\<open>require\<close>:
  \<^verbatim>\<open>require\<close> is called for a script exactly when the script is in the list, is for
  this state and no script for this state before it has its file name, whatever the calls
  before it did. As long as no callee brings the process down, the loop never stops early:
  it returns, the stack is as before, and every script of the list that is for this state
  has been attempted or found a duplicate (its name is among the loaded ones); and
  \<^verbatim>\<open>RunScripts\<close> as a whole returns with the stack it found.
\<close>

theorem RunScripts_skips_and_continues:
  assumes "stack s = pre @ [LFunction req]"
  shows "(\<not> loads_for b it \<longrightarrow>
            RunScripts_loop L usetrace b (it # rest) loaded count s
            = RunScripts_loop L usetrace b rest loaded count s)
     \<and> (\<forall>path. loads_for b it \<and> loaded (filename it) = Some path \<longrightarrow>
            RunScripts_loop L usetrace b (it # rest) loaded count s
            = RunScripts_loop L usetrace b rest loaded count
                (log_error (''[Eluna]: Error loading `'' @ filepath it
                            @ ''`. File with same name already loaded from `'' @ path
                            @ ''`, rename either file'') s))
     \<and> (\<forall>e s'. loads_for b it \<and> loaded (filename it) = None
            \<and> call L (LFunction req) [LString (filename it)]
                 (entered usetrace (pre @ [LFunction req]) req [LString (filename it)] s)
               = Raises e s' \<longrightarrow>
            RunScripts_loop L usetrace b (it # rest) loaded count s
            = RunScripts_loop L usetrace b rest (loaded(filename it \<mapsto> filepath it)) count
                (after_failed_call L usetrace (pre @ [LFunction req]) e s'))
     \<and> (\<forall>results s'. loads_for b it \<and> loaded (filename it) = None
            \<and> call L (LFunction req) [LString (filename it)]
                 (entered usetrace (pre @ [LFunction req]) req [LString (filename it)] s)
               = Returns results s' \<longrightarrow>
            RunScripts_loop L usetrace b (it # rest) loaded count s
            = RunScripts_loop L usetrace b rest (loaded(filename it \<mapsto> filepath it)) (count + 1)
                (s'\<lparr>stack := pre @ [LFunction req], event_level := event_level s' - 1\<rparr>))
     \<and> RunScripts_loop L usetrace b [] loaded count s = Inr (loaded, count, s)
     \<and> (case RunScripts_loop L usetrace b scripts loaded count s of
           Inl flt \<Rightarrow> Inl flt
         | Inr (loaded', count', s') \<Rightarrow> Inr (count', s'))
        = run_events L usetrace (batch_events b scripts loaded) count s
     \<and> RunScripts L usetrace scripts s0 =
          (case run_events L usetrace (batch_events (GetBoundMapId s0) scripts Map.empty) 0
                  (lua_push (global_require s0) s0) of
             Inl flt \<Rightarrow> Inl flt
           | Inr (count', s') \<Rightarrow> Inr (lua_pop 1 s'))
     \<and> (\<forall>xs x ys. scripts = xs @ x # ys \<and> loads_for b x \<and> loaded (filename x) = None
            \<and> (\<forall>y \<in> set xs. loads_for b y \<longrightarrow> filename y \<noteq> filename x) \<longrightarrow>
            Require x \<in> set (batch_events b scripts loaded))
     \<and> (\<forall>x. Require x \<in> set (batch_events b scripts loaded) \<longrightarrow>
            x \<in> set scripts \<and> loads_for b x \<and> loaded (filename x) = None)
     \<and> ((\<forall>f a t flt. call L f a t \<noteq> Aborts flt) \<longrightarrow>
            (\<exists>loaded' count' s'.
               RunScripts_loop L usetrace b scripts loaded count s = Inr (loaded', count', s')
               \<and> stack s' = stack s
               \<and> (\<forall>x \<in> set scripts. loads_for b x \<longrightarrow> loaded' (filename x) \<noteq> None)))
     \<and> ((\<forall>f a t flt. call L f a t \<noteq> Aborts flt) \<and> global_require s0 = LFunction req \<longrightarrow>
            (\<exists>s'. RunScripts L usetrace scripts s0 = Inr s' \<and> stack s' = stack s0))
     \<and> GetBoundMapId s0 = (case boundMap s0 of Some m \<Rightarrow> GetId m | None \<Rightarrow> - 1)"
proof (intro conjI allI impI)
  assume "\<not> loads_for b it"
  then show "RunScripts_loop L usetrace b (it # rest) loaded count s
            = RunScripts_loop L usetrace b rest loaded count s"
    by (auto simp: loads_for_def RunScripts_loop.simps(2))
next
  fix path assume "loads_for b it \<and> loaded (filename it) = Some path"
  then show "RunScripts_loop L usetrace b (it # rest) loaded count s
            = RunScripts_loop L usetrace b rest loaded count
                (log_error (''[Eluna]: Error loading `'' @ filepath it
                            @ ''`. File with same name already loaded from `'' @ path
                            @ ''`, rename either file'') s)"
    by (auto simp: loads_for_def RunScripts_loop.simps(2))
next
  fix e s'
  assume a: "loads_for b it \<and> loaded (filename it) = None
            \<and> call L (LFunction req) [LString (filename it)]
                 (entered usetrace (pre @ [LFunction req]) req [LString (filename it)] s)
               = Raises e s'"
  then have "RunScripts_loop L usetrace b (it # rest) loaded count s =
          (case ExecuteCall L usetrace 1 0
                     (lua_push (LString (filename it)) (lua_pushvalue (- 1) s)) of
                Inl flt \<Rightarrow> Inl flt
              | Inr (ok, s') \<Rightarrow>
                  RunScripts_loop L usetrace b rest (loaded(filename it \<mapsto> filepath it))
                    (if ok then count + 1 else count) s')"
    by (auto simp: loads_for_def RunScripts_loop.simps(2))
  then show "RunScripts_loop L usetrace b (it # rest) loaded count s
            = RunScripts_loop L usetrace b rest (loaded(filename it \<mapsto> filepath it)) count
                (after_failed_call L usetrace (pre @ [LFunction req]) e s')"
    using a by (simp add: ExecuteCall_require [OF assms])
next
  fix results s'
  assume a: "loads_for b it \<and> loaded (filename it) = None
            \<and> call L (LFunction req) [LString (filename it)]
                 (entered usetrace (pre @ [LFunction req]) req [LString (filename it)] s)
               = Returns results s'"
  then have "RunScripts_loop L usetrace b (it # rest) loaded count s =
          (case ExecuteCall L usetrace 1 0
                     (lua_push (LString (filename it)) (lua_pushvalue (- 1) s)) of
                Inl flt \<Rightarrow> Inl flt
              | Inr (ok, s') \<Rightarrow>
                  RunScripts_loop L usetrace b rest (loaded(filename it \<mapsto> filepath it))
                    (if ok then count + 1 else count) s')"
    by (auto simp: loads_for_def RunScripts_loop.simps(2))
  then show "RunScripts_loop L usetrace b (it # rest) loaded count s
            = RunScripts_loop L usetrace b rest (loaded(filename it \<mapsto> filepath it)) (count + 1)
                (s'\<lparr>stack := pre @ [LFunction req], event_level := event_level s' - 1\<rparr>)"
    using a by (simp add: ExecuteCall_require [OF assms])
next
  show "RunScripts_loop L usetrace b [] loaded count s = Inr (loaded, count, s)"
    by simp
next
  show "(case RunScripts_loop L usetrace b scripts loaded count s of
           Inl flt \<Rightarrow> Inl flt
         | Inr (loaded', count', s') \<Rightarrow> Inr (count', s'))
        = run_events L usetrace (batch_events b scripts loaded) count s"
    by (rule RunScripts_loop_events)
next
  show "RunScripts L usetrace scripts s0 =
          (case run_events L usetrace (batch_events (GetBoundMapId s0) scripts Map.empty) 0
                  (lua_push (global_require s0) s0) of
             Inl flt \<Rightarrow> Inl flt
           | Inr (count', s') \<Rightarrow> Inr (lua_pop 1 s'))"
    by (rule RunScripts_events)
next
  fix xs x ys
  assume "scripts = xs @ x # ys \<and> loads_for b x \<and> loaded (filename x) = None
            \<and> (\<forall>y \<in> set xs. loads_for b y \<longrightarrow> filename y \<noteq> filename x)"
  then have "scripts = xs @ x # ys" "loads_for b x" "loaded (filename x) = None"
    "\<forall>y \<in> set xs. loads_for b y \<longrightarrow> filename y \<noteq> filename x"
    by simp_all
  then show "Require x \<in> set (batch_events b scripts loaded)"
    by (rule batch_events_first_occurrence)
next
  fix x assume "Require x \<in> set (batch_events b scripts loaded)"
  from batch_events_Require [OF this]
  show "x \<in> set scripts" "loads_for b x" "loaded (filename x) = None"
    by simp_all
next
  assume "\<forall>f a t flt. call L f a t \<noteq> Aborts flt"
  from RunScripts_loop_total [OF this assms, of usetrace b scripts loaded count]
  show "\<exists>loaded' count' s'.
               RunScripts_loop L usetrace b scripts loaded count s = Inr (loaded', count', s')
               \<and> stack s' = stack s
               \<and> (\<forall>x \<in> set scripts. loads_for b x \<longrightarrow> loaded' (filename x) \<noteq> None)"
    by blast
next
  assume a: "(\<forall>f a t flt. call L f a t \<noteq> Aborts flt) \<and> global_require s0 = LFunction req"
  then have st0: "stack (lua_push (global_require s0) s0) = stack s0 @ [LFunction req]"
    by (simp add: lua_push_def)
  from RunScripts_loop_total [OF a [THEN conjunct1] st0, of usetrace "GetBoundMapId s0" scripts Map.empty 0]
  obtain loaded' count' s' where
    "RunScripts_loop L usetrace (GetBoundMapId s0) scripts Map.empty 0 (lua_push (global_require s0) s0)
       = Inr (loaded', count', s')"
    "stack s' = stack (lua_push (global_require s0) s0)"
    by blast
  then show "\<exists>s'. RunScripts L usetrace scripts s0 = Inr s' \<and> stack s' = stack s0"
    by (simp add: RunScripts_def lua_pop_def lua_push_def)
next
  show "GetBoundMapId s0 = (case boundMap s0 of Some m \<Rightarrow> GetId m | None \<Rightarrow> - 1)"
    by (simp add: GetBoundMapId_def)
qed

text \<open>
  The example batch in a state without a map: the script for the map 559 is left out, the
  first script's \<^verbatim>\<open>require\<close> raises \<open>boom\<close>, the third script is a duplicate of the
  first and is logged, and the fourth is still loaded and counted.
\<close>

theorem RunScripts_skips_and_continues_witness:
  "stack (lua_push (global_require fresh_eluna) fresh_eluna) = [] @ [LFunction (LuaFunction 1)]
   \<and> GetBoundMapId fresh_eluna = - 1
   \<and> GetBoundMapId
        (fresh_eluna\<lparr>boundMap := Some \<lparr>Instanceable = False, GetId = 559, GetInstanceId = 0\<rparr>\<rparr>)
      = 559
   \<and> batch_events 559 example_scripts Map.empty
      = [Require (example_scripts ! 0),
         Require (example_scripts ! 1),
         Duplicate (example_scripts ! 2) ''scripts/broken.lua'',
         Require (example_scripts ! 3)]
   \<and> batch_events (- 1) example_scripts Map.empty
      = [Require (example_scripts ! 0),
         Duplicate (example_scripts ! 2) ''scripts/broken.lua'',
         Require (example_scripts ! 3)]
   \<and> (\<exists>s'. RunScripts example_lua False example_scripts fresh_eluna = Inr s'
         \<and> stack s' = []
         \<and> error_log s' =
             [Some ''boom'',
              Some (''[Eluna]: Error loading `scripts/sub/broken.lua`. File with same name ''
                    @ ''already loaded from `scripts/broken.lua`, rename either file'')])
   \<and> (\<exists>loaded' count' s'.
         RunScripts_loop example_lua False (- 1) example_scripts Map.empty 0
           (lua_push (global_require fresh_eluna) fresh_eluna) = Inr (loaded', count', s')
         \<and> count' = 1
         \<and> stack s' = [LFunction (LuaFunction 1)]
         \<and> loaded' ''broken'' \<noteq> None \<and> loaded' ''init'' \<noteq> None)"
proof -
  let ?req = "LFunction (LuaFunction 1)"
  let ?S0 = "lua_push (global_require fresh_eluna) fresh_eluna"
  have st0: "stack ?S0 = [] @ [?req]"
    by (simp add: lua_push_def fresh_eluna_def)
  have never: "\<forall>f a t flt. call example_lua f a t \<noteq> Aborts flt"
    by (simp add: example_lua_def)
  have req: "global_require fresh_eluna = ?req"
    by (simp add: fresh_eluna_def)
  have b: "GetBoundMapId fresh_eluna = - 1"
    by (simp add: GetBoundMapId_def fresh_eluna_def)
  have b559: "GetBoundMapId
        (fresh_eluna\<lparr>boundMap := Some \<lparr>Instanceable = False, GetId = 559, GetInstanceId = 0\<rparr>\<rparr>)
      = 559"
    using RunScripts_skips_and_continues [OF st0, of "- 1" "example_scripts ! 0" example_lua
      False "[]" Map.empty 0 example_scripts
      "fresh_eluna\<lparr>boundMap := Some \<lparr>Instanceable = False, GetId = 559, GetInstanceId = 0\<rparr>\<rparr>"]
    by simp
  have ev559: "batch_events 559 example_scripts Map.empty
      = [Require (example_scripts ! 0),
         Require (example_scripts ! 1),
         Duplicate (example_scripts ! 2) ''scripts/broken.lua'',
         Require (example_scripts ! 3)]"
    by (simp add: example_scripts_def loads_for_def)
  note inst = RunScripts_skips_and_continues [OF st0, of "- 1" "example_scripts ! 0" example_lua
      False "[]" Map.empty 0 example_scripts fresh_eluna]
  note rest5 = inst [THEN conjunct2, THEN conjunct2, THEN conjunct2, THEN conjunct2, THEN conjunct2]
  note rest9 = rest5 [THEN conjunct2, THEN conjunct2, THEN conjunct2, THEN conjunct2]
  have ev: "batch_events (- 1) example_scripts Map.empty
      = [Require (example_scripts ! 0),
         Duplicate (example_scripts ! 2) ''scripts/broken.lua'',
         Require (example_scripts ! 3)]"
    by (simp add: example_scripts_def loads_for_def)
  define S1 where "S1 = after_failed_call example_lua False ([] @ [?req]) (LString ''boom'')
      (entered False ([] @ [?req]) (LuaFunction 1) [LString ''broken''] ?S0)"
  have x1: "ExecuteCall example_lua False 1 0 (lua_push (LString ''broken'') (lua_pushvalue (- 1) ?S0))
      = Inr (False, S1)"
    by (simp add: ExecuteCall_require [OF st0] example_lua_def S1_def)
  have st1: "stack S1 = [] @ [?req]"
    by (simp add: S1_def after_failed_call_def)
  define S2 where "S2 = log_error (duplicate_message (example_scripts ! 2) ''scripts/broken.lua'') S1"
  have st2: "stack S2 = [] @ [?req]"
    using st1 by (simp add: S2_def log_error_def)
  define S3 where "S3 = (entered False ([] @ [?req]) (LuaFunction 1) [LString ''init''] S2)
      \<lparr>stack := [] @ [?req],
        event_level := event_level (entered False ([] @ [?req]) (LuaFunction 1) [LString ''init''] S2) - 1\<rparr>"
  have x3: "ExecuteCall example_lua False 1 0 (lua_push (LString ''init'') (lua_pushvalue (- 1) S2))
      = Inr (True, S3)"
    by (simp add: ExecuteCall_require [OF st2] example_lua_def S3_def)
  have names: "filename (example_scripts ! 0) = ''broken''" "filename (example_scripts ! 3) = ''init''"
    by (simp_all add: example_scripts_def)
  have run: "run_events example_lua False (batch_events (- 1) example_scripts Map.empty) 0 ?S0
      = Inr (1, S3)"
    unfolding ev by (simp add: names x1 S2_def [symmetric] x3)
  have log: "error_log S3 =
             [Some ''boom'',
              Some (''[Eluna]: Error loading `scripts/sub/broken.lua`. File with same name ''
                    @ ''already loaded from `scripts/broken.lua`, rename either file'')]"
    by (simp add: S3_def S2_def S1_def entered_def log_error_def after_failed_call_def
        duplicate_message_def example_scripts_def tostring_value_def handled_error_def
        lua_push_def fresh_eluna_def)
  have st3: "stack S3 = [?req]"
    by (simp add: S3_def)
  from rest5 [THEN conjunct2, THEN conjunct1]
  have "RunScripts example_lua False example_scripts fresh_eluna =
          (case run_events example_lua False (batch_events (GetBoundMapId fresh_eluna) example_scripts Map.empty) 0
                  ?S0 of
             Inl flt \<Rightarrow> Inl flt
           | Inr (count', s') \<Rightarrow> Inr (lua_pop 1 s'))" .
  then have whole: "RunScripts example_lua False example_scripts fresh_eluna = Inr (lua_pop 1 S3)"
    by (simp add: b run)
  have 1: "\<exists>s'. RunScripts example_lua False example_scripts fresh_eluna = Inr s'
         \<and> stack s' = []
         \<and> error_log s' =
             [Some ''boom'',
              Some (''[Eluna]: Error loading `scripts/sub/broken.lua`. File with same name ''
                    @ ''already loaded from `scripts/broken.lua`, rename either file'')]"
    using whole log st3 by (simp add: lua_pop_def)
  from rest5 [THEN conjunct1]
  have "(case RunScripts_loop example_lua False (- 1) example_scripts Map.empty 0 ?S0 of
           Inl flt \<Rightarrow> Inl flt
         | Inr (loaded', count', s') \<Rightarrow> Inr (count', s'))
        = run_events example_lua False (batch_events (- 1) example_scripts Map.empty) 0 ?S0" .
  then have cnt: "\<And>loaded' count' s'.
      RunScripts_loop example_lua False (- 1) example_scripts Map.empty 0 ?S0 = Inr (loaded', count', s')
      \<Longrightarrow> count' = 1 \<and> s' = S3"
    by (simp add: run)
  from rest9 [THEN conjunct1] never obtain loaded' count' s' where r:
    "RunScripts_loop example_lua False (- 1) example_scripts Map.empty 0 ?S0 = Inr (loaded', count', s')"
    "stack s' = stack ?S0"
    "\<forall>x \<in> set example_scripts. loads_for (- 1) x \<longrightarrow> loaded' (filename x) \<noteq> None"
    by blast
  from r(3) have "loaded' ''broken'' \<noteq> None \<and> loaded' ''init'' \<noteq> None"
    by (simp add: example_scripts_def loads_for_def)
  then have 2: "\<exists>loaded' count' s'.
         RunScripts_loop example_lua False (- 1) example_scripts Map.empty 0 ?S0 = Inr (loaded', count', s')
         \<and> count' = 1
         \<and> stack s' = [LFunction (LuaFunction 1)]
         \<and> loaded' ''broken'' \<noteq> None \<and> loaded' ''init'' \<noteq> None"
    using r(1) cnt [OF r(1)] st3 by auto
  show ?thesis
    using st0 b b559 ev559 ev 1 2 by (intro conjI)
qed

section \<open>Properties of the nesting depth and the epoch counter\<close>

lemma copy_arguments_eq:
  assumes "1 \<le> i" and "j \<le> int (length (stack s))"
  shows "copy_arguments i j s =
     s\<lparr>stack := stack s @ take (nat (j - i + 1)) (drop (nat (i - 1)) (stack s))\<rparr>"
  using assms
proof (induction i j s rule: copy_arguments.induct)
  case (1 i j s)
  show ?case
  proof (cases "i \<le> j")
    case False
    then show ?thesis by (simp add: copy_arguments.simps [of i j])
  next
    case True
    define a where "a = nat (i - 1)"
    define k where "k = nat (j - i)"
    have a: "a < length (stack s)" "a + 1 + k \<le> length (stack s)"
      using True "1.prems" by (simp_all add: a_def k_def)
    have iv: "index2value s i = Some (stack s ! a)"
      using True "1.prems" by (simp add: index2value_def lua_gettop_def a_def)
    let ?s1 = "lua_pushvalue i s"
    have s1: "?s1 = s\<lparr>stack := stack s @ [stack s ! a]\<rparr>"
      by (simp add: lua_pushvalue_def iv lua_push_def)
    have "copy_arguments (i + 1) j ?s1 =
        ?s1\<lparr>stack := stack ?s1 @ take (nat (j - (i + 1) + 1)) (drop (nat (i + 1 - 1)) (stack ?s1))\<rparr>"
      using True "1.prems" by (intro "1.IH") (simp_all add: s1)
    moreover have "nat (j - (i + 1) + 1) = k" "nat (i + 1 - 1) = Suc a" "nat (j - i + 1) = Suc k"
      using True "1.prems" by (simp_all add: a_def k_def)
    moreover have "[stack s ! a] @ take k (drop (Suc a) (stack s @ [stack s ! a]))
        = take (Suc k) (drop a (stack s))"
      using a by (simp add: Cons_nth_drop_Suc [symmetric])
    ultimately show ?thesis
      using True by (simp add: copy_arguments.simps [of i j] s1 a_def [symmetric])
  qed
qed

lemma entered_stack_update [simp]:
  "entered usetrace pre f args (s\<lparr>stack := st\<rparr>) = entered usetrace pre f args s"
  by (simp add: entered_def)

lemma CallOneFunction_eq:
  assumes st: "stack s = pre @ ev # args @ fs @ [LFunction f]"
    and nf: "number_of_functions = int (length fs) + 1"
    and na: "number_of_arguments = int (length args)"
  shows "CallOneFunction L usetrace number_of_functions number_of_arguments 0 s =
     (case call L (LFunction f) (ev # args)
             (entered usetrace (pre @ ev # args @ fs) f (ev # args) s) of
        Returns results s' \<Rightarrow>
          Inr (lua_gettop s, s'\<lparr>stack := pre @ ev # args @ fs,
                                  event_level := event_level s' - 1\<rparr>)
      | Raises e s' \<Rightarrow>
          Inr (lua_gettop s, s'\<lparr>stack := pre @ ev # args @ fs,
                 event_level := event_level s' - 1,
                 error_log := error_log s' @ [tostring_value L (handled_error L usetrace s' e)],
                 gc_collections := gc_collections s' + 1\<rparr>)
      | Aborts flt \<Rightarrow> Inl flt)"
proof -
  let ?i = "int (length pre) + 1"
  let ?j = "int (length pre) + 1 + int (length args)"
  have top: "lua_gettop s = int (length pre) + 1 + int (length args) + int (length fs) + 1"
    using st by (simp add: lua_gettop_def)
  have idx: "lua_gettop s - number_of_functions + 1 - 1 = ?j"
    "?j - (number_of_arguments + 1) + 1 = ?i"
    using top nf na by simp_all
  have tk: "take (nat (?j - ?i + 1)) (drop (nat (?i - 1)) (stack s)) = ev # args"
    using st by (simp add: nat_add_distrib)
  have cp: "copy_arguments ?i ?j s = s\<lparr>stack := stack s @ ev # args\<rparr>"
    using copy_arguments_eq [of ?i ?j s] st tk by simp
  have st1: "stack (s\<lparr>stack := stack s @ ev # args\<rparr>)
      = (pre @ ev # args @ fs) @ LFunction f # (ev # args)"
    using st by simp
  have n1: "number_of_arguments + 1 = int (length (ev # args))"
    using na by simp
  have ex: "ExecuteCall L usetrace (number_of_arguments + 1) 0 (s\<lparr>stack := stack s @ ev # args\<rparr>) =
     (case call L (LFunction f) (ev # args)
             (entered usetrace (pre @ ev # args @ fs) f (ev # args) s) of
        Returns results s' \<Rightarrow>
          Inr (True, s'\<lparr>stack := (pre @ ev # args @ fs) @ adjust_results 0 results,
                         event_level := event_level s' - 1\<rparr>)
      | Raises e s' \<Rightarrow>
          Inr (False, s'\<lparr>stack := (pre @ ev # args @ fs) @ replicate (nat 0) LNil,
                          event_level := event_level s' - 1,
                          error_log := error_log s' @ [tostring_value L (handled_error L usetrace s' e)],
                          gc_collections := gc_collections s' + 1\<rparr>)
      | Aborts flt \<Rightarrow> Inl flt)"
    using ExecuteCall_eq [OF st1 n1, of L usetrace 0] by simp
  have pos: "number_of_functions > 0 \<and> number_of_arguments + 1 > 0 \<and> (0::int) \<ge> 0"
    using nf na by simp
  show ?thesis
    unfolding CallOneFunction_def Let_def idx cp ex
    using pos by (simp add: adjust_results_def split: callee_result.splits)
qed

lemma CallOneFunction_keeps:
  assumes st: "stack s = pre @ ev # args @ fs @ [LFunction f]"
    and nf: "number_of_functions = int (length fs) + 1"
    and na: "number_of_arguments = int (length args)"
    and callee: "callee_keeps (entered usetrace (pre @ ev # args @ fs) f (ev # args) s)
       (call L (LFunction f) (ev # args) (entered usetrace (pre @ ev # args @ fs) f (ev # args) s))"
  shows "\<exists>first_result s'.
     CallOneFunction L usetrace number_of_functions number_of_arguments 0 s = Inr (first_result, s')
     \<and> stack s' = pre @ ev # args @ fs
     \<and> callstackid s' = callstackid s \<and> event_level s' = event_level s"
proof -
  define S where "S = entered usetrace (pre @ ev # args @ fs) f (ev # args) s"
  have lv: "event_level S = event_level s + 1" "callstackid S = callstackid s"
    by (simp_all add: S_def entered_def)
  have eq: "CallOneFunction L usetrace number_of_functions number_of_arguments 0 s =
     (case call L (LFunction f) (ev # args) S of
        Returns results s' \<Rightarrow>
          Inr (lua_gettop s, s'\<lparr>stack := pre @ ev # args @ fs,
                                  event_level := event_level s' - 1\<rparr>)
      | Raises e s' \<Rightarrow>
          Inr (lua_gettop s, s'\<lparr>stack := pre @ ev # args @ fs,
                 event_level := event_level s' - 1,
                 error_log := error_log s' @ [tostring_value L (handled_error L usetrace s' e)],
                 gc_collections := gc_collections s' + 1\<rparr>)
      | Aborts flt \<Rightarrow> Inl flt)"
    unfolding S_def by (rule CallOneFunction_eq [OF st nf na])
  have ck: "callee_keeps S (call L (LFunction f) (ev # args) S)"
    using callee by (simp add: S_def)
  show ?thesis
  proof (cases "call L (LFunction f) (ev # args) S")
    case (Returns results s')
    then have "keeps S s'"
      using ck by (simp add: callee_keeps_def)
    then show ?thesis
      unfolding eq Returns using lv by (simp add: keeps_def)
  next
    case (Raises e s')
    then have "keeps S s'"
      using ck by (simp add: callee_keeps_def)
    then show ?thesis
      unfolding eq Raises using lv by (simp add: keeps_def)
  next
    case (Aborts flt)
    then show ?thesis
      using ck by (simp add: callee_keeps_def)
  qed
qed

lemma CleanUpStack_eq:
  "CleanUpStack number_of_arguments s =
     (if event_level s = 0 then InvalidateObjects (lua_pop (number_of_arguments + 1) s)
      else Inr (lua_pop (number_of_arguments + 1) s))"
  by (simp add: CleanUpStack_def Let_def lua_pop_def)

lemma InvalidateObjects_eq:
  "InvalidateObjects s =
     (if callstackid s + 1 = 0 then Inl AssertFailed else Inr (s\<lparr>callstackid := callstackid s + 1\<rparr>))"
  by (simp add: InvalidateObjects_def Let_def)

lemma event_level_Suc:
  fixes x :: uint32
  assumes "unat x + Suc n < 2 ^ 32"
  shows "x + 1 \<noteq> 0" and "unat (x + 1) = Suc (unat x)"
proof -
  have "unat x + unat (1 :: uint32) < 2 ^ LENGTH(32)"
    using assms by simp
  then have "unat (x + 1) = unat x + unat (1 :: uint32)"
    by (simp only: unat_add_lem)
  then show "unat (x + 1) = Suc (unat x)"
    by simp
  then show "x + 1 \<noteq> 0"
    by (metis Zero_not_Suc unat_0)
qed

lemma word_less_plus_1:
  fixes x :: "'a::len word"
  assumes "x + 1 \<noteq> 0"
  shows "x < x + 1"
  using assms inc_less_eq_iff by force

lemma keeps_refl: "keeps s s"
  by (simp add: keeps_def)

lemma keeps_trans: "keeps s t \<Longrightarrow> keeps t u \<Longrightarrow> keeps s u"
  by (simp add: keeps_def)

text \<open>
  A run nested in a protected call gives the epoch counter, the nesting depth and the
  stack back as they were; a dispatch does so up to its cleanup, and its cleanup
  invalidates exactly at depth zero.
\<close>

lemma run_script_keeps:
    "event_level s \<noteq> 0 \<Longrightarrow> unat (event_level s) + depth_script sc < 2 ^ 32
      \<Longrightarrow> callee_keeps s (run_script L usetrace sc args s)"
  and run_hooks_keeps:
    "event_level s \<noteq> 0 \<Longrightarrow> unat (event_level s) + depth_hooks hs < 2 ^ 32
      \<Longrightarrow> \<exists>s'. run_hooks L usetrace hs s = Inr s' \<and> keeps s s'"
  and CallAllFunctions_eq:
    "unat (event_level s) + depth_hook h < 2 ^ 32
      \<Longrightarrow> \<exists>s1. keeps s s1 \<and> CallAllFunctions L usetrace h s =
               (if event_level s = 0 then InvalidateObjects s1 else Inr s1)"
  and call_functions_keeps:
    "\<forall>pre ev args.
       stack s = pre @ ev # args @ replicate (length cs) (LFunction (LuaFunction 0))
       \<longrightarrow> n = int (length args)
       \<longrightarrow> unat (event_level s) + Suc (depth_scripts cs) < 2 ^ 32
       \<longrightarrow> (\<exists>s'. call_functions L usetrace cs n s = Inr s' \<and> stack s' = pre @ ev # args
               \<and> callstackid s' = callstackid s \<and> event_level s' = event_level s)"
proof (induction L usetrace sc args s and L usetrace hs s and L usetrace h s and L usetrace cs n s
    rule: run_script_run_hooks_CallAllFunctions_call_functions.induct)
  case (1 L usetrace hooks ending args s)
  then obtain s' where "run_hooks L usetrace hooks s = Inr s'" "keeps s s'"
    by auto
  then show ?case
    by (simp add: callee_keeps_def split: sum.splits)
next
  case (2 L usetrace s)
  show ?case
    by (simp add: keeps_refl)
next
  case (3 L usetrace h hs s)
  have "unat (event_level s) + depth_hook h < 2 ^ 32"
    using "3.prems" by simp
  from "3.IH" (1) [OF this] obtain s1
    where s1: "keeps s s1" "CallAllFunctions L usetrace h s = Inr s1"
    using "3.prems" by auto
  have "event_level s1 \<noteq> 0" "unat (event_level s1) + depth_hooks hs < 2 ^ 32"
    using s1(1) "3.prems" by (simp_all add: keeps_def)
  from "3.IH" (2) [OF s1(2) this] obtain s'
    where "run_hooks L usetrace hs s1 = Inr s'" "keeps s1 s'"
    by auto
  then show ?case
    using s1 by (auto intro: keeps_trans)
next
  case (4 L usetrace event_id args callbacks s)
  let ?ev = "LNumber (Finite (of_nat (unat event_id)))"
  let ?s0 = "SetupStack event_id args (length callbacks) s"
  have st: "stack ?s0 = stack s @ ?ev # args @ replicate (length callbacks) (LFunction (LuaFunction 0))"
    by (simp add: SetupStack_def)
  have same: "event_level ?s0 = event_level s" "callstackid ?s0 = callstackid s"
    by (simp_all add: SetupStack_def)
  have "unat (event_level ?s0) + Suc (depth_scripts callbacks) < 2 ^ 32"
    using "4.prems" same by simp
  with "4.IH" st obtain s'
    where s': "call_functions L usetrace callbacks (int (length args)) ?s0 = Inr s'"
      "stack s' = stack s @ ?ev # args"
      "callstackid s' = callstackid ?s0" "event_level s' = event_level ?s0"
    by blast
  let ?s1 = "lua_pop (int (length args) + 1) s'"
  have "keeps s ?s1"
    using s' same by (simp add: keeps_def lua_pop_def nat_add_distrib)
  moreover have "CallAllFunctions L usetrace (Hook event_id args callbacks) s =
      (if event_level s = 0 then InvalidateObjects ?s1 else Inr ?s1)"
    using s' same by (simp add: CleanUpStack_eq)
  ultimately show ?case
    by blast
next
  case (5 L usetrace number_of_arguments s)
  show ?case
    by simp
next
  case (6 L usetrace c cs number_of_arguments s)
  show ?case
  proof (intro allI impI)
    fix pre ev args
    let ?F = "LFunction (LuaFunction 0)"
    assume st: "stack s = pre @ ev # args @ replicate (length (c # cs)) ?F"
      and na: "number_of_arguments = int (length args)"
      and bound: "unat (event_level s) + Suc (depth_scripts (c # cs)) < 2 ^ 32"
    let ?fs = "replicate (length cs) ?F"
    let ?L = "L\<lparr>call := (\<lambda>f args st. run_script L usetrace c args st)\<rparr>"
    let ?S = "entered usetrace (pre @ ev # args @ ?fs) (LuaFunction 0) (ev # args) s"
    have st': "stack s = pre @ ev # args @ ?fs @ [?F]"
      using st by (simp add: replicate_append_same)
    have nf: "int (length (c # cs)) = int (length ?fs) + 1"
      by simp
    have lv: "event_level ?S = event_level s + 1"
      by (simp add: entered_def)
    have "unat (event_level s) + Suc (depth_script c) < 2 ^ 32"
      using bound by simp
    from event_level_Suc [OF this] this
    have "event_level ?S \<noteq> 0" "unat (event_level ?S) + depth_script c < 2 ^ 32"
      unfolding lv by simp_all
    then have "callee_keeps ?S (run_script L usetrace c (ev # args) ?S)"
      by (rule "6.IH" (1))
    then have "callee_keeps ?S (call ?L ?F (ev # args) ?S)"
      by simp
    from CallOneFunction_keeps [OF st' nf na this]
    obtain first_result s1
      where one: "CallOneFunction ?L usetrace (int (length (c # cs))) number_of_arguments 0 s
          = Inr (first_result, s1)"
        and s1: "stack s1 = pre @ ev # args @ ?fs" "callstackid s1 = callstackid s"
          "event_level s1 = event_level s"
      by blast
    have "unat (event_level s1) + Suc (depth_scripts cs) < 2 ^ 32"
      using bound s1 by simp
    with "6.IH" (2) [OF one refl] s1 na obtain s'
      where "call_functions L usetrace cs number_of_arguments s1 = Inr s'"
        "stack s' = pre @ ev # args" "callstackid s' = callstackid s1"
        "event_level s' = event_level s1"
      by blast
    then show "\<exists>s'. call_functions L usetrace (c # cs) number_of_arguments s = Inr s'
        \<and> stack s' = pre @ ev # args
        \<and> callstackid s' = callstackid s \<and> event_level s' = event_level s"
      using one s1 by simp
  qed
qed

text \<open>
  C2: the epoch counter \<^verbatim>\<open>callstackid\<close> advances exactly when the cleanup of a dispatch
  runs at nesting depth zero. \<^verbatim>\<open>ExecuteCall\<close> runs the callee one level deeper and takes
  the level back when the protected call is over, whether the callee returned or raised,
  and does not touch the counter itself. \<^verbatim>\<open>CleanUpStack\<close> goes through
  \<^verbatim>\<open>InvalidateObjects\<close>, which adds one to the counter, if and only if the depth is
  zero. A dispatch raised at a depth above zero gives the counter back unchanged, whatever
  its callbacks raise in turn; a dispatch raised at depth zero leaves the counter one
  higher, and strictly higher, or stops at the assertion on the overflow of the counter.
  The stack holds the function and its arguments for the protected call, and the depth
  counter of 32 bits can count the nesting of the dispatch.
\<close>

theorem callstackid_advances_at_depth_zero:
  assumes st: "stack s = pre @ LFunction f # args"
    and n: "params = int (length args)"
    and depth: "unat (event_level t) + depth_hook h < 2 ^ 32"
  shows "event_level (entered usetrace pre f args s) = event_level s + 1
    \<and> callstackid (entered usetrace pre f args s) = callstackid s
    \<and> (case call L (LFunction f) args (entered usetrace pre f args s) of
         Returns results s' \<Rightarrow>
           (\<exists>s''. ExecuteCall L usetrace params res s = Inr (True, s'')
              \<and> event_level s'' = event_level s' - 1 \<and> callstackid s'' = callstackid s')
       | Raises e s' \<Rightarrow>
           (\<exists>s''. ExecuteCall L usetrace params res s = Inr (False, s'')
              \<and> event_level s'' = event_level s' - 1 \<and> callstackid s'' = callstackid s')
       | Aborts flt \<Rightarrow> ExecuteCall L usetrace params res s = Inl flt)
    \<and> (case CleanUpStack number_of_arguments t of
         Inr t' \<Rightarrow>
           event_level t' = event_level t
           \<and> (if event_level t = 0
               then callstackid t' = callstackid t + 1 \<and> callstackid t < callstackid t'
               else callstackid t' = callstackid t)
       | Inl flt \<Rightarrow> flt = AssertFailed \<and> event_level t = 0 \<and> callstackid t + 1 = 0)
    \<and> (case CallAllFunctions L usetrace h t of
         Inr t' \<Rightarrow>
           event_level t' = event_level t \<and> stack t' = stack t
           \<and> (if event_level t = 0
               then callstackid t' = callstackid t + 1 \<and> callstackid t < callstackid t'
               else callstackid t' = callstackid t)
       | Inl flt \<Rightarrow> flt = AssertFailed \<and> event_level t = 0 \<and> callstackid t + 1 = 0)"
proof -
  have a: "event_level (entered usetrace pre f args s) = event_level s + 1"
    "callstackid (entered usetrace pre f args s) = callstackid s"
    by (simp_all add: entered_def)
  have b: "case call L (LFunction f) args (entered usetrace pre f args s) of
         Returns results s' \<Rightarrow>
           (\<exists>s''. ExecuteCall L usetrace params res s = Inr (True, s'')
              \<and> event_level s'' = event_level s' - 1 \<and> callstackid s'' = callstackid s')
       | Raises e s' \<Rightarrow>
           (\<exists>s''. ExecuteCall L usetrace params res s = Inr (False, s'')
              \<and> event_level s'' = event_level s' - 1 \<and> callstackid s'' = callstackid s')
       | Aborts flt \<Rightarrow> ExecuteCall L usetrace params res s = Inl flt"
    unfolding ExecuteCall_eq [OF st n]
    by (simp split: callee_result.splits)
  have inv: "case InvalidateObjects t1 of
         Inr t' \<Rightarrow>
           event_level t' = event_level t1 \<and> stack t' = stack t1
           \<and> callstackid t' = callstackid t1 + 1 \<and> callstackid t1 < callstackid t'
       | Inl flt \<Rightarrow> flt = AssertFailed \<and> callstackid t1 + 1 = 0" for t1
    by (simp add: InvalidateObjects_eq word_less_plus_1)
  have c: "case CleanUpStack number_of_arguments t of
         Inr t' \<Rightarrow>
           event_level t' = event_level t
           \<and> (if event_level t = 0
               then callstackid t' = callstackid t + 1 \<and> callstackid t < callstackid t'
               else callstackid t' = callstackid t)
       | Inl flt \<Rightarrow> flt = AssertFailed \<and> event_level t = 0 \<and> callstackid t + 1 = 0"
    using inv [of "lua_pop (number_of_arguments + 1) t"]
    by (auto simp add: CleanUpStack_eq lua_pop_def split: sum.splits)
  from CallAllFunctions_eq [OF depth] obtain t1
    where t1: "keeps t t1"
      "CallAllFunctions L usetrace h t = (if event_level t = 0 then InvalidateObjects t1 else Inr t1)"
    by blast
  have d: "case CallAllFunctions L usetrace h t of
         Inr t' \<Rightarrow>
           event_level t' = event_level t \<and> stack t' = stack t
           \<and> (if event_level t = 0
               then callstackid t' = callstackid t + 1 \<and> callstackid t < callstackid t'
               else callstackid t' = callstackid t)
       | Inl flt \<Rightarrow> flt = AssertFailed \<and> event_level t = 0 \<and> callstackid t + 1 = 0"
    unfolding t1(2) using inv [of t1] t1(1)
    by (auto simp add: keeps_def split: sum.splits)
  show ?thesis
    using a b c d by (intro conjI)
qed

theorem callstackid_advances_at_depth_zero_witness:
  "(\<exists>s''. ExecuteCall example_lua False 0 0 (fresh_eluna\<lparr>stack := [LFunction (LuaFunction 8)]\<rparr>)
        = Inr (True, s'')
      \<and> event_level s'' = 0 \<and> callstackid s'' = 2)
   \<and> (\<exists>t'. CleanUpStack 0 fresh_eluna = Inr t' \<and> event_level t' = 0 \<and> callstackid t' = 3)
   \<and> (\<exists>t'. CallAllFunctions example_lua False example_hook fresh_eluna = Inr t'
      \<and> event_level t' = 0 \<and> callstackid t' = 3)
   \<and> (\<exists>t'. CleanUpStack 0 (fresh_eluna\<lparr>event_level := 1\<rparr>) = Inr t'
      \<and> event_level t' = 1 \<and> callstackid t' = 2)
   \<and> (\<exists>t'. CallAllFunctions example_lua False example_hook (fresh_eluna\<lparr>event_level := 1\<rparr>) = Inr t'
      \<and> event_level t' = 1 \<and> callstackid t' = 2)"
proof -
  let ?s = "fresh_eluna\<lparr>stack := [LFunction (LuaFunction 8)]\<rparr>"
  let ?t = "fresh_eluna\<lparr>event_level := 1\<rparr>"
  have st: "stack ?s = [] @ LFunction (LuaFunction 8) # []"
    by simp
  have n: "(0::int) = int (length ([] :: lua_value list))"
    by simp
  have dh: "depth_hook example_hook = 2"
    by (simp add: example_hook_def)
  have lv: "event_level fresh_eluna = 0" "callstackid fresh_eluna = 2"
    "event_level ?t = 1" "callstackid ?t = 2"
    by (simp_all add: fresh_eluna_def)
  have d0: "unat (event_level fresh_eluna) + depth_hook example_hook < 2 ^ 32"
    "unat (event_level ?t) + depth_hook example_hook < 2 ^ 32"
    unfolding lv dh by simp_all
  let ?e = "entered False [] (LuaFunction 8) [] ?s"
  have returns: "call example_lua (LFunction (LuaFunction 8)) [] ?e = Returns [LNumber (Finite 1)] ?e"
    by (simp add: example_lua_def)
  have ex: "\<exists>t'. x = Inr t' \<and> P t'"
    if "case x of Inr t' \<Rightarrow> P t' | Inl flt \<Rightarrow> flt = AssertFailed \<and> lev = 0 \<and> (c :: uint64) + 1 = 0"
      and "lev = (0 :: uint32) \<longrightarrow> c = 2"
    for x :: "fault + eluna" and P lev c
    using that by (cases x) auto
  note outer = callstackid_advances_at_depth_zero
    [OF st n d0(1), of False example_lua 0 0]
  note inner = callstackid_advances_at_depth_zero
    [OF st n d0(2), of False example_lua 0 0]
  have 1: "\<exists>s''. ExecuteCall example_lua False 0 0 ?s = Inr (True, s'')
      \<and> event_level s'' = 0 \<and> callstackid s'' = 2"
    using outer unfolding returns by (simp add: entered_def fresh_eluna_def)
  have 2: "\<exists>t'. CleanUpStack 0 fresh_eluna = Inr t' \<and> event_level t' = 0 \<and> callstackid t' = 3"
    using ex [OF outer [THEN conjunct2, THEN conjunct2, THEN conjunct2, THEN conjunct1]]
    by (auto simp add: lv)
  have 3: "\<exists>t'. CallAllFunctions example_lua False example_hook fresh_eluna = Inr t'
      \<and> event_level t' = 0 \<and> callstackid t' = 3"
    using ex [OF outer [THEN conjunct2, THEN conjunct2, THEN conjunct2, THEN conjunct2]]
    by (auto simp add: lv)
  have 4: "\<exists>t'. CleanUpStack 0 ?t = Inr t' \<and> event_level t' = 1 \<and> callstackid t' = 2"
    using ex [OF inner [THEN conjunct2, THEN conjunct2, THEN conjunct2, THEN conjunct1]]
    by (auto simp add: lv)
  have 5: "\<exists>t'. CallAllFunctions example_lua False example_hook ?t = Inr t'
      \<and> event_level t' = 1 \<and> callstackid t' = 2"
    using ex [OF inner [THEN conjunct2, THEN conjunct2, THEN conjunct2, THEN conjunct2]]
    by (auto simp add: lv)
  show ?thesis
    using 1 2 3 4 5 by (intro conjI)
qed

end
